theory Spec2Isabelle
  imports Complex_Main
begin

section \<open>Conventions of the embedding\<close>

text \<open>
  The embedding follows \<^verbatim>\<open>src/index.js\<close> function by function.

  \<^item> A JavaScript number that carries a coordinate, a velocity or a physical constant is a
    \<^typ>\<open>real\<close>: arithmetic is exact. The rounding of binary64, NaN, the infinities and the
    negative zero are outside the model. The two calls of \<^verbatim>\<open>Math.fround\<close> in the
    source are modelled by the exact value of the nearest binary32 number.
  \<^item> Counters and levels (\<^verbatim>\<open>jumpTicks\<close>, effect amplifiers, block ids, metadata) are
    \<^typ>\<open>int\<close>.
  \<^item> An object mutated in place is a record passed in and returned updated.
  \<^item> A thrown exception is the left injection of a sum; the partially mutated entity at
    the moment of the throw is dropped.
  \<^item> \<^verbatim>\<open>null\<close> and \<^verbatim>\<open>undefined\<close> are \<^term>\<open>None\<close>.
\<close>

datatype error =
    TypeError
  | NoLiquidGravity

section \<open>FeatureList\<close>

text \<open>
  The version object comes from the game-data catalogue. The source reads its
  \<^verbatim>\<open>majorVersion\<close> and calls \<^verbatim>\<open>version[predicateName](parameter)\<close>; the
  method table is the field \<open>methods\<close>, and a name that is not a method is
  \<^term>\<open>None\<close> (calling it throws a TypeError).
\<close>

record mcVersion =
  majorVersion :: string
  methods :: "string \<Rightarrow> (string \<Rightarrow> bool) option"

text \<open>An entry of a \<^verbatim>\<open>versions\<close> list: a string, or an array of strings.\<close>

datatype versionConditions =
    Single string
  | Array "string list"

record feature =
  name :: string
  versions :: "versionConditions list"

text \<open>\<^verbatim>\<open>condition.split(' ')\<close>: the pieces between single spaces, never empty.\<close>

fun split_space :: "string \<Rightarrow> string list" where
  "split_space [] = [[]]"
| "split_space (c # cs) =
     (if c = CHR '' '' then [] # split_space cs
      else (let r = split_space cs in (c # hd r) # tl r))"

definition checkVersion :: "mcVersion \<Rightarrow> string \<Rightarrow> error + bool" where
  "checkVersion v condition =
     (case split_space condition of
        [] \<Rightarrow> Inr False
      | [predicateName] \<Rightarrow> Inr (predicateName = majorVersion v)
      | predicateName # parameter # _ \<Rightarrow>
          (case methods v predicateName of
             None \<Rightarrow> Inl TypeError
           | Some m \<Rightarrow> Inr (m parameter)))"

text \<open>The loop \<^verbatim>\<open>flag &= checkVersion(...)\<close> over an array entry: no short cut.\<close>

fun and_conditions :: "mcVersion \<Rightarrow> string list \<Rightarrow> bool \<Rightarrow> error + bool" where
  "and_conditions v [] flag = Inr flag"
| "and_conditions v (c # cs) flag =
     (case checkVersion v c of
        Inl err \<Rightarrow> Inl err
      | Inr b \<Rightarrow> and_conditions v cs (flag \<and> b))"

fun entry_flag :: "mcVersion \<Rightarrow> versionConditions \<Rightarrow> error + bool" where
  "entry_flag v (Array cs) = and_conditions v cs True"
| "entry_flag v (Single c) = checkVersion v c"

text \<open>
  The loop over the entries of one record; the result says whether the name was added.
  The \<^verbatim>\<open>break\<close> leaves the entries after the first satisfied one unread.
\<close>

fun versions_loop :: "mcVersion \<Rightarrow> versionConditions list \<Rightarrow> error + bool" where
  "versions_loop v [] = Inr False"
| "versions_loop v (vc # vcs) =
     (case entry_flag v vc of
        Inl err \<Rightarrow> Inl err
      | Inr flag \<Rightarrow> if flag then Inr True else versions_loop v vcs)"

fun feats_loop :: "mcVersion \<Rightarrow> feature list \<Rightarrow> string set \<Rightarrow> error + string set" where
  "feats_loop v [] S = Inr S"
| "feats_loop v (f # fs) S =
     (case versions_loop v (versions f) of
        Inl err \<Rightarrow> Inl err
      | Inr added \<Rightarrow> feats_loop v fs (if added then insert (name f) S else S))"

record featureList =
  fl_version :: mcVersion
  features :: "string set"

definition FeatureList :: "feature list \<Rightarrow> mcVersion \<Rightarrow> error + featureList" where
  "FeatureList feats v =
     (case feats_loop v feats {} of
        Inl err \<Rightarrow> Inl err
      | Inr S \<Rightarrow> Inr \<lparr>fl_version = v, features = S\<rparr>)"

definition supportFeature :: "featureList \<Rightarrow> string \<Rightarrow> bool" where
  "supportFeature fl featureName = (featureName \<in> features fl)"

subsection \<open>The reading of the specification\<close>

text \<open>
  A bare major-version string is satisfied iff it equals the major version; a
  "predicate parameter" string is satisfied iff the comparison holds; an array is
  satisfied iff all its conditions are; a feature is enabled iff some entry of a record
  of that name is satisfied.
\<close>

definition spec_condition :: "mcVersion \<Rightarrow> string \<Rightarrow> bool" where
  "spec_condition v c =
     (if CHR '' '' \<notin> set c then c = majorVersion v
      else (case methods v (takeWhile (\<lambda>k. k \<noteq> CHR '' '') c) of
              None \<Rightarrow> False
            | Some m \<Rightarrow> m (takeWhile (\<lambda>k. k \<noteq> CHR '' '') (tl (dropWhile (\<lambda>k. k \<noteq> CHR '' '') c)))))"

fun spec_entry :: "mcVersion \<Rightarrow> versionConditions \<Rightarrow> bool" where
  "spec_entry v (Single c) = spec_condition v c"
| "spec_entry v (Array cs) = list_all (spec_condition v) cs"

definition spec_enabled :: "mcVersion \<Rightarrow> feature list \<Rightarrow> string \<Rightarrow> bool" where
  "spec_enabled v feats n =
     list_ex (\<lambda>f. name f = n \<and> list_ex (spec_entry v) (versions f)) feats"

text \<open>Every condition names a method of the version object (the grammar of the format).\<close>

definition known_condition :: "mcVersion \<Rightarrow> string \<Rightarrow> bool" where
  "known_condition v c =
     (CHR '' '' \<in> set c \<longrightarrow> methods v (takeWhile (\<lambda>k. k \<noteq> CHR '' '') c) \<noteq> None)"

fun known_entry :: "mcVersion \<Rightarrow> versionConditions \<Rightarrow> bool" where
  "known_entry v (Single c) = known_condition v c"
| "known_entry v (Array cs) = list_all (known_condition v) cs"

definition known_features :: "mcVersion \<Rightarrow> feature list \<Rightarrow> bool" where
  "known_features v feats = list_all (\<lambda>f. list_all (known_entry v) (versions f)) feats"


section \<open>Vectors, boxes, blocks and the world\<close>

text \<open>
  \<^verbatim>\<open>Vec3\<close> of the package vec3. The source mutates vectors in place; here every
  operation returns the new vector.
\<close>

record Vec3 =
  vec_x :: real
  vec_y :: real
  vec_z :: real

definition Vec3_offset :: "Vec3 \<Rightarrow> real \<Rightarrow> real \<Rightarrow> real \<Rightarrow> Vec3" where
  "Vec3_offset p dx dy dz = \<lparr>vec_x = vec_x p + dx, vec_y = vec_y p + dy, vec_z = vec_z p + dz\<rparr>"

definition floored :: "Vec3 \<Rightarrow> Vec3" where
  "floored p = \<lparr>vec_x = of_int \<lfloor>vec_x p\<rfloor>, vec_y = of_int \<lfloor>vec_y p\<rfloor>, vec_z = of_int \<lfloor>vec_z p\<rfloor>\<rparr>"

definition norm3 :: "Vec3 \<Rightarrow> real" where
  "norm3 p = sqrt (vec_x p * vec_x p + vec_y p * vec_y p + vec_z p * vec_z p)"

definition normalize :: "Vec3 \<Rightarrow> Vec3" where
  "normalize p =
     (let n = norm3 p in
      if n \<noteq> 0 then \<lparr>vec_x = vec_x p / n, vec_y = vec_y p / n, vec_z = vec_z p / n\<rparr> else p)"

definition Vec3_add :: "Vec3 \<Rightarrow> Vec3 \<Rightarrow> Vec3" where
  "Vec3_add p q = \<lparr>vec_x = vec_x p + vec_x q, vec_y = vec_y p + vec_y q, vec_z = vec_z p + vec_z q\<rparr>"

text \<open>
  Modelled from the spec: \<^verbatim>\<open>lib/aabb.js\<close> is not among the sources. The box has six
  bounds; \<open>offset\<close> translates, \<open>extend\<close> grows toward the signed direction,
  \<open>contract\<close> shrinks symmetrically, \<open>intersects\<close> is the strict overlap test, and
  \<open>computeOffsetX/Y/Z self other delta\<close> is the largest part of \<open>delta\<close> (same sign) by
  which \<open>other\<close> can move along the axis without entering \<open>self\<close>.
\<close>

record AABB =
  minX :: real
  minY :: real
  minZ :: real
  maxX :: real
  maxY :: real
  maxZ :: real

definition AABB_offset :: "AABB \<Rightarrow> real \<Rightarrow> real \<Rightarrow> real \<Rightarrow> AABB" where
  "AABB_offset b dx dy dz =
     \<lparr>minX = minX b + dx, minY = minY b + dy, minZ = minZ b + dz,
      maxX = maxX b + dx, maxY = maxY b + dy, maxZ = maxZ b + dz\<rparr>"

definition AABB_extend :: "AABB \<Rightarrow> real \<Rightarrow> real \<Rightarrow> real \<Rightarrow> AABB" where
  "AABB_extend b dx dy dz =
     \<lparr>minX = (if dx < 0 then minX b + dx else minX b),
      minY = (if dy < 0 then minY b + dy else minY b),
      minZ = (if dz < 0 then minZ b + dz else minZ b),
      maxX = (if dx < 0 then maxX b else maxX b + dx),
      maxY = (if dy < 0 then maxY b else maxY b + dy),
      maxZ = (if dz < 0 then maxZ b else maxZ b + dz)\<rparr>"

definition AABB_contract :: "AABB \<Rightarrow> real \<Rightarrow> real \<Rightarrow> real \<Rightarrow> AABB" where
  "AABB_contract b ax ay az =
     \<lparr>minX = minX b + ax, minY = minY b + ay, minZ = minZ b + az,
      maxX = maxX b - ax, maxY = maxY b - ay, maxZ = maxZ b - az\<rparr>"

definition intersects :: "AABB \<Rightarrow> AABB \<Rightarrow> bool" where
  "intersects b other =
     (minX b < maxX other \<and> maxX b > minX other \<and>
      minY b < maxY other \<and> maxY b > minY other \<and>
      minZ b < maxZ other \<and> maxZ b > minZ other)"

definition computeOffsetX :: "AABB \<Rightarrow> AABB \<Rightarrow> real \<Rightarrow> real" where
  "computeOffsetX b other offsetX =
     (if maxY other > minY b \<and> minY other < maxY b \<and> maxZ other > minZ b \<and> minZ other < maxZ b
      then (if offsetX > 0 \<and> maxX other \<le> minX b then min (minX b - maxX other) offsetX
            else if offsetX < 0 \<and> minX other \<ge> maxX b then max (maxX b - minX other) offsetX
            else offsetX)
      else offsetX)"

definition computeOffsetY :: "AABB \<Rightarrow> AABB \<Rightarrow> real \<Rightarrow> real" where
  "computeOffsetY b other offsetY =
     (if maxX other > minX b \<and> minX other < maxX b \<and> maxZ other > minZ b \<and> minZ other < maxZ b
      then (if offsetY > 0 \<and> maxY other \<le> minY b then min (minY b - maxY other) offsetY
            else if offsetY < 0 \<and> minY other \<ge> maxY b then max (maxY b - minY other) offsetY
            else offsetY)
      else offsetY)"

definition computeOffsetZ :: "AABB \<Rightarrow> AABB \<Rightarrow> real \<Rightarrow> real" where
  "computeOffsetZ b other offsetZ =
     (if maxX other > minX b \<and> minX other < maxX b \<and> maxY other > minY b \<and> minY other < maxY b
      then (if offsetZ > 0 \<and> maxZ other \<le> minZ b then min (minZ b - maxZ other) offsetZ
            else if offsetZ < 0 \<and> minZ other \<ge> maxZ b then max (maxZ b - minZ other) offsetZ
            else offsetZ)
      else offsetZ)"

text \<open>
  A block as the source reads it. \<open>properties\<close> is the result of
  \<^verbatim>\<open>block.getProperties()\<close>; an absent property is falsy (\<open>False\<close>, \<open>None\<close>).
  A shape is a six-tuple \<open>(x0, y0, z0, x1, y1, z1)\<close>.
\<close>

record properties =
  is_open :: bool
  facing :: "string option"
  waterlogged :: bool

type_synonym shape = "real \<times> real \<times> real \<times> real \<times> real \<times> real"

record block =
  position :: Vec3
  type :: int
  metadata :: int
  shapes :: "shape list"
  boundingBox :: string
  getProperties :: properties

record world =
  getBlock :: "Vec3 \<Rightarrow> block option"

section \<open>Counting loops\<close>

text \<open>
  \<^verbatim>\<open>for (c = lo; c <= hi; c++) body\<close> over an integer-valued cursor, threading the
  state the body mutates.
\<close>

function for_int :: "int \<Rightarrow> int \<Rightarrow> (int \<Rightarrow> 's \<Rightarrow> 's) \<Rightarrow> 's \<Rightarrow> 's" where
  "for_int c hi body s = (if c \<le> hi then for_int (c + 1) hi body (body c s) else s)"
  by pat_completeness auto
termination
  by (relation "measure (\<lambda>(c, hi, body, s). nat (hi + 1 - c))") auto

declare for_int.simps [simp del]

section \<open>The simulator and its constants\<close>

text \<open>
  The catalogue \<^verbatim>\<open>mcData\<close>: \<open>blocksByName\<close> gives the id of a block name,
  \<open>attributesByName\<close> the resource key of an attribute name; a missing name is
  \<^term>\<open>None\<close>, and reading a property of it throws a TypeError.
\<close>

record mcData =
  version :: mcVersion
  blocksByName :: "string \<Rightarrow> int option"
  attributesByName :: "string \<Rightarrow> string option"

record bubbleDrag =
  down :: real
  maxDown :: real
  up :: real
  maxUp :: real

record physics =
  gravity :: real
  airdrag :: real
  yawSpeed :: real
  pitchSpeed :: real
  playerSpeed :: real
  sprintSpeed :: real
  sneakSpeed :: real
  stepHeight :: real
  negligeableVelocity :: real
  soulsandSpeed :: real
  honeyblockSpeed :: real
  honeyblockJumpSpeed :: real
  ladderMaxSpeed :: real
  ladderClimbSpeed :: real
  playerHalfWidth :: real
  playerHeight :: real
  waterInertia :: real
  lavaInertia :: real
  liquidAcceleration :: real
  airborneInertia :: real
  airborneAcceleration :: real
  defaultSlipperiness :: real
  outOfLiquidImpulse :: real
  autojumpCooldown :: int
  bubbleColumnSurfaceDrag :: bubbleDrag
  bubbleColumnDrag :: bubbleDrag
  slowFallingFactor :: real
  movementSpeedAttribute :: string
  sprintingUUID :: string
  waterGravity :: real
  lavaGravity :: real

text \<open>
  What the closure \<^verbatim>\<open>Physics\<close> holds besides the object \<open>physics\<close>: the feature
  list and the ids read from the catalogue. The field \<open>slowFalling\<close> of the source's
  \<open>physics\<close> object is \<open>slowFallingFactor\<close> here (the entity has a field
  \<open>slowFalling\<close> too).
\<close>

record env =
  phys :: physics
  supportedFeatureList :: featureList
  blockSlipperiness :: "int \<Rightarrow> real option"
  slimeBlockId :: int
  soulsandId :: int
  honeyblockId :: int
  webId :: int
  waterIds :: "int list"
  lavaIds :: "int list"
  ladderId :: int
  trapdoorIds :: "int set"
  vineId :: int
  waterLike :: "int set"
  bubblecolumnId :: int

text \<open>\<^verbatim>\<open>Math.fround(1 - 0.02)\<close> and \<^verbatim>\<open>Math.fround(0.42)\<close>: the nearest binary32 numbers.\<close>

definition fround_0_98 :: real where
  "fround_0_98 = 16441672 / 16777216"

definition fround_0_42 :: real where
  "fround_0_42 = 14092861 / 33554432"

text \<open>\<^verbatim>\<open>blocksByName.n.id\<close>: a TypeError when the catalogue has no block \<open>n\<close>.\<close>

definition block_id :: "mcData \<Rightarrow> string \<Rightarrow> error + int" where
  "block_id mc n = (case blocksByName mc n of None \<Rightarrow> Inl TypeError | Some i \<Rightarrow> Inr i)"

text \<open>\<^verbatim>\<open>blocksByName.a ? blocksByName.a.id : blocksByName.b.id\<close>\<close>

definition block_id_or :: "mcData \<Rightarrow> string \<Rightarrow> string \<Rightarrow> error + int" where
  "block_id_or mc a b = (case blocksByName mc a of None \<Rightarrow> block_id mc b | Some i \<Rightarrow> Inr i)"

text \<open>\<^verbatim>\<open>blocksByName.a ? blocksByName.a.id : -1\<close>\<close>

definition block_id_opt :: "mcData \<Rightarrow> string \<Rightarrow> int" where
  "block_id_opt mc a = (case blocksByName mc a of None \<Rightarrow> - 1 | Some i \<Rightarrow> i)"

text \<open>\<^verbatim>\<open>if (blocksByName.n) ids.add(blocksByName.n.id)\<close>, for each name of the list.\<close>

definition present_ids :: "mcData \<Rightarrow> string list \<Rightarrow> int set" where
  "present_ids mc ns = set (List.map_filter (blocksByName mc) ns)"

definition bind_err :: "error + 'a \<Rightarrow> ('a \<Rightarrow> error + 'b) \<Rightarrow> error + 'b" where
  "bind_err m f = (case m of Inl err \<Rightarrow> Inl err | Inr a \<Rightarrow> f a)"

text \<open>The object literal \<open>physics\<close> of the source, with the two liquid gravities.\<close>

definition physics_constants :: "string \<Rightarrow> real \<Rightarrow> real \<Rightarrow> physics" where
  "physics_constants resource wg lg =
     \<lparr>gravity = 0.08, airdrag = fround_0_98, yawSpeed = 3.0, pitchSpeed = 3.0,
      playerSpeed = 0.1, sprintSpeed = 0.3, sneakSpeed = 0.3, stepHeight = 0.6,
      negligeableVelocity = 0.003, soulsandSpeed = 0.4, honeyblockSpeed = 0.4,
      honeyblockJumpSpeed = 0.4, ladderMaxSpeed = 0.15, ladderClimbSpeed = 0.2,
      playerHalfWidth = 0.3, playerHeight = 1.8, waterInertia = 0.8, lavaInertia = 0.5,
      liquidAcceleration = 0.02, airborneInertia = 0.91, airborneAcceleration = 0.02,
      defaultSlipperiness = 0.6, outOfLiquidImpulse = 0.3, autojumpCooldown = 10,
      bubbleColumnSurfaceDrag = \<lparr>down = 0.03, maxDown = - 0.9, up = 0.1, maxUp = 1.8\<rparr>,
      bubbleColumnDrag = \<lparr>down = 0.03, maxDown = - 0.3, up = 0.06, maxUp = 0.7\<rparr>,
      slowFallingFactor = 0.125, movementSpeedAttribute = resource,
      sprintingUUID = ''662a6b8d-da3e-4c1c-8813-96ea6097278d'',
      waterGravity = wg, lavaGravity = lg\<rparr>"

text \<open>
  The slipperiness table, assigned in the order of the source (a later assignment to the
  same id wins).
\<close>

definition slipperiness_table ::
  "mcData \<Rightarrow> int \<Rightarrow> int \<Rightarrow> int \<Rightarrow> int \<Rightarrow> real option" where
  "slipperiness_table mc slime ice packed =
     (let t0 = (Map.empty :: int \<Rightarrow> real option);
          t1 = t0(slime \<mapsto> 0.8);
          t2 = t1(ice \<mapsto> 0.98);
          t3 = t2(packed \<mapsto> 0.98);
          t4 = (case blocksByName mc ''frosted_ice'' of None \<Rightarrow> t3 | Some i \<Rightarrow> t3(i \<mapsto> 0.98));
          t5 = (case blocksByName mc ''blue_ice'' of None \<Rightarrow> t4 | Some i \<Rightarrow> t4(i \<mapsto> 0.989))
      in t5)"

definition trapdoor_names :: "string list" where
  "trapdoor_names =
     [''iron_trapdoor'', ''acacia_trapdoor'', ''birch_trapdoor'', ''jungle_trapdoor'',
      ''oak_trapdoor'', ''dark_oak_trapdoor'', ''spruce_trapdoor'', ''crimson_trapdoor'',
      ''warped_trapdoor'', ''mangrove_trapdoor'', ''cherry_trapdoor'']"

definition waterLike_names :: "string list" where
  "waterLike_names = [''seagrass'', ''tall_seagrass'', ''kelp'', ''kelp_plant'', ''bubble_column'']"

text \<open>
  The constructor. \<open>feats\<close> is the content of \<^verbatim>\<open>lib/features.json\<close>, which is not
  among the sources and is a parameter here.
\<close>

definition Physics :: "feature list \<Rightarrow> mcData \<Rightarrow> error + env" where
  "Physics feats mc =
     bind_err (FeatureList feats (version mc)) (\<lambda>fl.
     bind_err (block_id_or mc ''slime_block'' ''slime'') (\<lambda>slime.
     bind_err (block_id mc ''ice'') (\<lambda>ice.
     bind_err (block_id mc ''packed_ice'') (\<lambda>packed.
     bind_err (block_id mc ''soul_sand'') (\<lambda>soulsand.
     bind_err (block_id_or mc ''cobweb'' ''web'') (\<lambda>web.
     bind_err (block_id mc ''water'') (\<lambda>water.
     bind_err (block_id mc ''lava'') (\<lambda>lava.
     bind_err (block_id mc ''ladder'') (\<lambda>ladder.
     bind_err (block_id mc ''vine'') (\<lambda>vine.
     (case attributesByName mc ''movementSpeed'' of
        None \<Rightarrow> Inl TypeError
      | Some resource \<Rightarrow>
          bind_err
            (if supportFeature fl ''independentLiquidGravity''
             then Inr (physics_constants resource 0.02 0.02)
             else if supportFeature fl ''proportionalLiquidGravity''
             then Inr (physics_constants resource (0.08 / 16) (0.08 / 4))
             else Inl NoLiquidGravity)
            (\<lambda>ph. Inr
               \<lparr>phys = ph,
                supportedFeatureList = fl,
                blockSlipperiness = slipperiness_table mc slime ice packed,
                slimeBlockId = slime,
                soulsandId = soulsand,
                honeyblockId = block_id_opt mc ''honey_block'',
                webId = web,
                waterIds = [water, block_id_opt mc ''flowing_water''],
                lavaIds = [lava, block_id_opt mc ''flowing_lava''],
                ladderId = ladder,
                trapdoorIds = present_ids mc trapdoor_names,
                vineId = vine,
                waterLike = present_ids mc waterLike_names,
                bubblecolumnId = block_id_opt mc ''bubble_column''\<rparr>))))))))))))"

definition supports :: "env \<Rightarrow> string \<Rightarrow> bool" where
  "supports en n = supportFeature (supportedFeatureList en) n"

section \<open>Collision engine\<close>

definition getPlayerBB :: "env \<Rightarrow> Vec3 \<Rightarrow> AABB" where
  "getPlayerBB en p =
     (let w = playerHalfWidth (phys en) in
      AABB_offset \<lparr>minX = - w, minY = 0, minZ = - w, maxX = w, maxY = playerHeight (phys en), maxZ = w\<rparr>
        (vec_x p) (vec_y p) (vec_z p))"

definition setPositionToBB :: "env \<Rightarrow> AABB \<Rightarrow> Vec3" where
  "setPositionToBB en bb =
     \<lparr>vec_x = minX bb + playerHalfWidth (phys en),
      vec_y = minY bb,
      vec_z = minZ bb + playerHalfWidth (phys en)\<rparr>"

definition cursor :: "int \<Rightarrow> int \<Rightarrow> int \<Rightarrow> Vec3" where
  "cursor cx cy cz = \<lparr>vec_x = of_int cx, vec_y = of_int cy, vec_z = of_int cz\<rparr>"

definition shape_box :: "shape \<Rightarrow> AABB" where
  "shape_box s =
     (case s of (x0, y0, z0, x1, y1, z1) \<Rightarrow>
        \<lparr>minX = x0, minY = y0, minZ = z0, maxX = x1, maxY = y1, maxZ = z1\<rparr>)"

text \<open>The body of the innermost loop: the boxes of the block at the cursor are pushed.\<close>

definition push_block_boxes :: "world \<Rightarrow> int \<Rightarrow> int \<Rightarrow> int \<Rightarrow> AABB list \<Rightarrow> AABB list" where
  "push_block_boxes w cy cz cx surroundingBBs =
     (case getBlock w (cursor cx cy cz) of
        None \<Rightarrow> surroundingBBs
      | Some b \<Rightarrow>
          fold (\<lambda>s bbs. bbs @ [AABB_offset (shape_box s)
                                 (vec_x (position b)) (vec_y (position b)) (vec_z (position b))])
               (shapes b) surroundingBBs)"

definition getSurroundingBBs :: "world \<Rightarrow> AABB \<Rightarrow> AABB list" where
  "getSurroundingBBs w queryBB =
     for_int (\<lfloor>minY queryBB\<rfloor> - 1) \<lfloor>maxY queryBB\<rfloor> (\<lambda>cy.
       for_int \<lfloor>minZ queryBB\<rfloor> \<lfloor>maxZ queryBB\<rfloor> (\<lambda>cz.
         for_int \<lfloor>minX queryBB\<rfloor> \<lfloor>maxX queryBB\<rfloor> (\<lambda>cx.
           push_block_boxes w cy cz cx))) []"

section \<open>The entity\<close>

record control =
  forward :: bool
  "back" :: bool
  left :: bool
  right :: bool
  jump :: bool
  sprint :: bool
  sneak :: bool

text \<open>
  Modelled from the spec: \<^verbatim>\<open>lib/attribute.js\<close> is not among the sources. An attribute
  value is a base and a list of modifiers; operation 0 adds to the base, operation 1
  multiplies the base, operation 2 multiplies the total.
\<close>

record modifier =
  uuid :: string
  amount :: real
  operation :: int

record attributeValue =
  base_value :: real
  modifiers :: "modifier list"

definition createAttributeValue :: "real \<Rightarrow> attributeValue" where
  "createAttributeValue b = \<lparr>base_value = b, modifiers = []\<rparr>"

definition getAttributeValue :: "attributeValue \<Rightarrow> real" where
  "getAttributeValue a =
     (let x = fold (\<lambda>m acc. if operation m = 0 then acc + amount m else acc) (modifiers a)
                (base_value a);
          y = fold (\<lambda>m acc. if operation m = 1 then acc + x * amount m else acc) (modifiers a) x
      in fold (\<lambda>m acc. if operation m = 2 then acc + acc * amount m else acc) (modifiers a) y)"

definition addAttributeModifier :: "attributeValue \<Rightarrow> modifier \<Rightarrow> attributeValue" where
  "addAttributeModifier a m = a\<lparr>modifiers := modifiers a @ [m]\<rparr>"

definition checkAttributeModifier :: "attributeValue \<Rightarrow> string \<Rightarrow> bool" where
  "checkAttributeModifier a u = list_ex (\<lambda>m. uuid m = u) (modifiers a)"

definition deleteAttributeModifier :: "attributeValue \<Rightarrow> string \<Rightarrow> attributeValue" where
  "deleteAttributeModifier a u = a\<lparr>modifiers := filter (\<lambda>m. uuid m \<noteq> u) (modifiers a)\<rparr>"

record entity =
  pos :: Vec3
  vel :: Vec3
  onGround :: bool
  isInWater :: bool
  isInLava :: bool
  isInWeb :: bool
  isCollidedHorizontally :: bool
  isCollidedVertically :: bool
  elytraFlying :: bool
  jumpTicks :: int
  jumpQueued :: bool
  fireworkRocketDuration :: int
  attributes :: "(string \<Rightarrow> attributeValue option) option"
  yaw :: real
  pitch :: real
  control :: control
  jumpBoost :: int
  speed :: int
  slowness :: int
  dolphinsGrace :: int
  slowFalling :: int
  levitation :: int
  depthStrider :: int
  elytraEquipped :: bool

section \<open>moveEntity\<close>

text \<open>One step of the sneak edge guard: the delta moves toward 0 by \<open>step = 0.05\<close>.\<close>

definition shrink :: "real \<Rightarrow> real" where
  "shrink d =
     (let step = 0.05 in
      if d < step \<and> d \<ge> - step then 0
      else if d > 0 then d - step
      else d + step)"

lemma shrink_measure: "d \<noteq> 0 \<Longrightarrow> \<lceil>\<bar>shrink d\<bar> * 20\<rceil> < \<lceil>\<bar>d\<bar> * 20\<rceil>"
proof -
  assume nz: "d \<noteq> 0"
  have pos: "0 < \<lceil>\<bar>d\<bar> * 20\<rceil>" using nz by (simp add: ceiling_less_iff)
  consider (a) "d < 0.05 \<and> d \<ge> - 0.05" | (b) "d \<ge> 0.05" | (c) "d < - 0.05" by linarith
  then show ?thesis
  proof cases
    case a
    then have "shrink d = 0" by (simp add: shrink_def)
    with pos show ?thesis by simp
  next
    case b
    then have "\<bar>shrink d\<bar> * 20 = \<bar>d\<bar> * 20 - 1" by (simp add: shrink_def)
    then have "\<lceil>\<bar>shrink d\<bar> * 20\<rceil> = \<lceil>\<bar>d\<bar> * 20\<rceil> - 1" by simp
    then show ?thesis by simp
  next
    case c
    then have "\<bar>shrink d\<bar> * 20 = \<bar>d\<bar> * 20 - 1" by (simp add: shrink_def)
    then have "\<lceil>\<bar>shrink d\<bar> * 20\<rceil> = \<lceil>\<bar>d\<bar> * 20\<rceil> - 1" by simp
    then show ?thesis by simp
  qed
qed

text \<open>
  The three loops of the guard. Each returns the delta and the saved delta
  (\<open>oldVelX\<close>, \<open>oldVelZ\<close>), which the loop overwrites after every round.
\<close>

function sneak_x :: "env \<Rightarrow> world \<Rightarrow> Vec3 \<Rightarrow> real \<Rightarrow> real \<Rightarrow> real \<times> real" where
  "sneak_x en w p dx oldVelX =
     (if dx \<noteq> 0 \<and> getSurroundingBBs w (AABB_offset (getPlayerBB en p) dx 0 0) = []
      then sneak_x en w p (shrink dx) (shrink dx)
      else (dx, oldVelX))"
  by pat_completeness auto
termination
  by (relation "measure (\<lambda>(en, w, p, dx, oldVelX). nat \<lceil>\<bar>dx\<bar> * 20\<rceil>)")
     (auto simp: shrink_measure)

function sneak_z :: "env \<Rightarrow> world \<Rightarrow> Vec3 \<Rightarrow> real \<Rightarrow> real \<Rightarrow> real \<times> real" where
  "sneak_z en w p dz oldVelZ =
     (if dz \<noteq> 0 \<and> getSurroundingBBs w (AABB_offset (getPlayerBB en p) 0 0 dz) = []
      then sneak_z en w p (shrink dz) (shrink dz)
      else (dz, oldVelZ))"
  by pat_completeness auto
termination
  by (relation "measure (\<lambda>(en, w, p, dz, oldVelZ). nat \<lceil>\<bar>dz\<bar> * 20\<rceil>)")
     (auto simp: shrink_measure)

function sneak_xz ::
  "env \<Rightarrow> world \<Rightarrow> Vec3 \<Rightarrow> real \<Rightarrow> real \<Rightarrow> real \<Rightarrow> real \<Rightarrow> real \<times> real \<times> real \<times> real" where
  "sneak_xz en w p dx dz oldVelX oldVelZ =
     (if dx \<noteq> 0 \<and> dz \<noteq> 0 \<and> getSurroundingBBs w (AABB_offset (getPlayerBB en p) dx 0 dz) = []
      then sneak_xz en w p (shrink dx) (shrink dz) (shrink dx) (shrink dz)
      else (dx, dz, oldVelX, oldVelZ))"
  by pat_completeness auto
termination
  by (relation "measure (\<lambda>(en, w, p, dx, dz, oldVelX, oldVelZ). nat \<lceil>\<bar>dx\<bar> * 20\<rceil>)")
     (auto simp: shrink_measure)

declare sneak_x.simps [simp del] sneak_z.simps [simp del] sneak_xz.simps [simp del]

text \<open>\<^verbatim>\<open>for (const blockBB of surroundingBBs) d = blockBB.computeOffsetA(bb, d)\<close>\<close>

definition sweepX :: "AABB list \<Rightarrow> AABB \<Rightarrow> real \<Rightarrow> real" where
  "sweepX bbs bb d = fold (\<lambda>blockBB acc. computeOffsetX blockBB bb acc) bbs d"

definition sweepY :: "AABB list \<Rightarrow> AABB \<Rightarrow> real \<Rightarrow> real" where
  "sweepY bbs bb d = fold (\<lambda>blockBB acc. computeOffsetY blockBB bb acc) bbs d"

definition sweepZ :: "AABB list \<Rightarrow> AABB \<Rightarrow> real \<Rightarrow> real" where
  "sweepZ bbs bb d = fold (\<lambda>blockBB acc. computeOffsetZ blockBB bb acc) bbs d"

text \<open>
  The values the collision resolution leaves for the write-back: the resolved deltas, the
  deltas saved before the resolution, and the moved box.
\<close>

record resolution =
  res_dx :: real
  res_dy :: real
  res_dz :: real
  oldVelX :: real
  oldVelY :: real
  oldVelZ :: real
  playerBB :: AABB

text \<open>The web slow-down at the entry of \<open>moveEntity\<close>: the entity and the scaled deltas.\<close>

definition enter_web :: "entity \<Rightarrow> real \<Rightarrow> real \<Rightarrow> real \<Rightarrow> entity \<times> real \<times> real \<times> real" where
  "enter_web e dx dy dz =
     (if isInWeb e
      then (e\<lparr>vel := \<lparr>vec_x = 0, vec_y = 0, vec_z = 0\<rparr>, isInWeb := False\<rparr>,
            dx * 0.25, dy * 0.05, dz * 0.25)
      else (e, dx, dy, dz))"

text \<open>The sneak guard: \<open>(dx, dz, oldVelX, oldVelZ)\<close> after the three loops.\<close>

definition sneak_guard ::
  "env \<Rightarrow> entity \<Rightarrow> world \<Rightarrow> real \<Rightarrow> real \<Rightarrow> real \<times> real \<times> real \<times> real" where
  "sneak_guard en e w dx dz =
     (if sneak (control e) \<and> onGround e
      then (case sneak_x en w (pos e) dx dx of (dx1, oldVelX1) \<Rightarrow>
            case sneak_z en w (pos e) dz dz of (dz1, oldVelZ1) \<Rightarrow>
            sneak_xz en w (pos e) dx1 dz1 oldVelX1 oldVelZ1)
      else (dx, dz, dx, dz))"

text \<open>The step onto a low block, entered when the flat move was blocked horizontally.\<close>

definition step_up ::
  "env \<Rightarrow> world \<Rightarrow> AABB \<Rightarrow> resolution \<Rightarrow> resolution" where
  "step_up en w oldBB r =
     (let oldVelXCol = res_dx r; oldVelYCol = res_dy r; oldVelZCol = res_dz r;
          oldBBCol = playerBB r;
          dy = stepHeight (phys en);
          queryBB = AABB_extend oldBB (oldVelX r) dy (oldVelZ r);
          surroundingBBs = getSurroundingBBs w queryBB;
          BB1 = oldBB; BB2 = oldBB;
          BB_XZ = AABB_extend BB1 (res_dx r) 0 (res_dz r);
          dy1 = sweepY surroundingBBs BB_XZ dy;
          dy2 = sweepY surroundingBBs BB2 dy;
          BB1 = AABB_offset BB1 0 dy1 0;
          BB2 = AABB_offset BB2 0 dy2 0;
          dx1 = sweepX surroundingBBs BB1 (oldVelX r);
          dx2 = sweepX surroundingBBs BB2 (oldVelX r);
          BB1 = AABB_offset BB1 dx1 0 0;
          BB2 = AABB_offset BB2 dx2 0 0;
          dz1 = sweepZ surroundingBBs BB1 (oldVelZ r);
          dz2 = sweepZ surroundingBBs BB2 (oldVelZ r);
          BB1 = AABB_offset BB1 0 0 dz1;
          BB2 = AABB_offset BB2 0 0 dz2;
          norm1 = dx1 * dx1 + dz1 * dz1;
          norm2 = dx2 * dx2 + dz2 * dz2;
          dx = (if norm1 > norm2 then dx1 else dx2);
          dy = (if norm1 > norm2 then - dy1 else - dy2);
          dz = (if norm1 > norm2 then dz1 else dz2);
          pBB = (if norm1 > norm2 then BB1 else BB2);
          dy = sweepY surroundingBBs pBB dy;
          pBB = AABB_offset pBB 0 dy 0
      in if oldVelXCol * oldVelXCol + oldVelZCol * oldVelZCol \<ge> dx * dx + dz * dz
         then r
         else r\<lparr>res_dx := dx, res_dy := dy, res_dz := dz, playerBB := pBB\<rparr>)"

text \<open>Lines 216 to 340 of the source: the guard, the sweep in the order Y, X, Z, the step.\<close>

definition resolve :: "env \<Rightarrow> entity \<Rightarrow> world \<Rightarrow> real \<Rightarrow> real \<Rightarrow> real \<Rightarrow> resolution" where
  "resolve en e w dx0 dy0 dz0 =
     (case sneak_guard en e w dx0 dz0 of (dx, dz, oldVelX', oldVelZ') \<Rightarrow>
      let oldVelY' = dy0;
          pBB = getPlayerBB en (pos e);
          queryBB = AABB_extend pBB dx dy0 dz;
          surroundingBBs = getSurroundingBBs w queryBB;
          oldBB = pBB;
          dy = sweepY surroundingBBs pBB dy0;
          pBB = AABB_offset pBB 0 dy 0;
          dx = sweepX surroundingBBs pBB dx;
          pBB = AABB_offset pBB dx 0 0;
          dz = sweepZ surroundingBBs pBB dz;
          pBB = AABB_offset pBB 0 0 dz;
          r = \<lparr>res_dx = dx, res_dy = dy, res_dz = dz,
               oldVelX = oldVelX', oldVelY = oldVelY', oldVelZ = oldVelZ', playerBB = pBB\<rparr>
      in if stepHeight (phys en) > 0 \<and>
            (onGround e \<or> (dy \<noteq> oldVelY' \<and> oldVelY' < 0)) \<and>
            (dx \<noteq> oldVelX' \<or> dz \<noteq> oldVelZ')
         then step_up en w oldBB r
         else r)"

text \<open>Lines 343 to 358: position, collision flags, and the zeroing of the velocity.\<close>

definition update_flags :: "env \<Rightarrow> entity \<Rightarrow> world \<Rightarrow> resolution \<Rightarrow> entity" where
  "update_flags en e w r =
     (let p = setPositionToBB en (playerBB r);
          collidedVertically = (res_dy r \<noteq> oldVelY r);
          e = e\<lparr>pos := p,
                isCollidedHorizontally := (res_dx r \<noteq> oldVelX r \<or> res_dz r \<noteq> oldVelZ r),
                isCollidedVertically := collidedVertically,
                onGround := (collidedVertically \<and> oldVelY r < 0)\<rparr>;
          blockAtFeet = getBlock w (Vec3_offset p 0 (- 0.2) 0);
          e = (if res_dx r \<noteq> oldVelX r then e\<lparr>vel := (vel e)\<lparr>vec_x := 0\<rparr>\<rparr> else e);
          e = (if res_dz r \<noteq> oldVelZ r then e\<lparr>vel := (vel e)\<lparr>vec_z := 0\<rparr>\<rparr> else e)
      in if res_dy r \<noteq> oldVelY r
         then (if (case blockAtFeet of None \<Rightarrow> False | Some b \<Rightarrow> type b = slimeBlockId en)
                  \<and> \<not> sneak (control e)
               then e\<lparr>vel := (vel e)\<lparr>vec_y := - vec_y (vel e)\<rparr>\<rparr>
               else e\<lparr>vel := (vel e)\<lparr>vec_y := 0\<rparr>\<rparr>)
         else e)"

definition scale_xz :: "real \<Rightarrow> entity \<Rightarrow> entity" where
  "scale_xz k e = e\<lparr>vel := (vel e)\<lparr>vec_x := vec_x (vel e) * k, vec_z := vec_z (vel e) * k\<rparr>\<rparr>"

text \<open>The body of the loop over the blocks the contracted box touches.\<close>

definition block_collision :: "env \<Rightarrow> world \<Rightarrow> int \<Rightarrow> int \<Rightarrow> int \<Rightarrow> entity \<Rightarrow> entity" where
  "block_collision en w cy cz cx e =
     (case getBlock w (cursor cx cy cz) of
        None \<Rightarrow> e
      | Some b \<Rightarrow>
          (let e = (if supports en ''velocityBlocksOnCollision''
                    then (if type b = soulsandId en then scale_xz (soulsandSpeed (phys en)) e
                          else if type b = honeyblockId en then scale_xz (honeyblockSpeed (phys en)) e
                          else e)
                    else e)
           in if type b = webId en then e\<lparr>isInWeb := True\<rparr>
              else if type b = bubblecolumnId en
              then (let is_down = (metadata b = 0);
                        aboveBlock = getBlock w (Vec3_offset (cursor cx cy cz) 0 1 0);
                        drag = (if (case aboveBlock of None \<Rightarrow> False | Some a \<Rightarrow> type a = 0)
                                then bubbleColumnSurfaceDrag (phys en)
                                else bubbleColumnDrag (phys en))
                    in if is_down
                       then e\<lparr>vel := (vel e)\<lparr>vec_y := max (maxDown drag) (vec_y (vel e) - down drag)\<rparr>\<rparr>
                       else e\<lparr>vel := (vel e)\<lparr>vec_y := min (maxUp drag) (vec_y (vel e) + up drag)\<rparr>\<rparr>)
              else e))"

definition block_collisions :: "env \<Rightarrow> world \<Rightarrow> AABB \<Rightarrow> entity \<Rightarrow> entity" where
  "block_collisions en w bb0 e =
     (let bb = AABB_contract bb0 0.001 0.001 0.001 in
      for_int \<lfloor>minY bb\<rfloor> \<lfloor>maxY bb\<rfloor> (\<lambda>cy.
        for_int \<lfloor>minZ bb\<rfloor> \<lfloor>maxZ bb\<rfloor> (\<lambda>cz.
          for_int \<lfloor>minX bb\<rfloor> \<lfloor>maxX bb\<rfloor> (\<lambda>cx.
            block_collision en w cy cz cx))) e)"

definition blocks_on_top :: "env \<Rightarrow> world \<Rightarrow> entity \<Rightarrow> entity" where
  "blocks_on_top en w e =
     (if supports en ''velocityBlocksOnTop''
      then (case getBlock w (Vec3_offset (floored (pos e)) 0 (- 0.5) 0) of
              None \<Rightarrow> e
            | Some blockBelow \<Rightarrow>
                if type blockBelow = soulsandId en then scale_xz (soulsandSpeed (phys en)) e
                else if type blockBelow = honeyblockId en then scale_xz (honeyblockSpeed (phys en)) e
                else e)
      else e)"

definition moveEntity :: "env \<Rightarrow> entity \<Rightarrow> world \<Rightarrow> real \<Rightarrow> real \<Rightarrow> real \<Rightarrow> entity" where
  "moveEntity en e0 w dx0 dy0 dz0 =
     (case enter_web e0 dx0 dy0 dz0 of (e, dx, dy, dz) \<Rightarrow>
      let r = resolve en e w dx dy dz;
          e = update_flags en e w r;
          e = block_collisions en w (playerBB r) e
      in blocks_on_top en w e)"

section \<open>Liquid engine\<close>

definition isMaterialInBB :: "world \<Rightarrow> AABB \<Rightarrow> int list \<Rightarrow> bool" where
  "isMaterialInBB w queryBB types =
     for_int \<lfloor>minY queryBB\<rfloor> \<lfloor>maxY queryBB\<rfloor> (\<lambda>cy.
       for_int \<lfloor>minZ queryBB\<rfloor> \<lfloor>maxZ queryBB\<rfloor> (\<lambda>cz.
         for_int \<lfloor>minX queryBB\<rfloor> \<lfloor>maxX queryBB\<rfloor> (\<lambda>cx found.
           if found then True
           else (case getBlock w (cursor cx cy cz) of
                   None \<Rightarrow> False
                 | Some b \<Rightarrow> type b \<in> set types)))) False"

definition getRenderedDepth :: "env \<Rightarrow> block option \<Rightarrow> int" where
  "getRenderedDepth en blk =
     (case blk of
        None \<Rightarrow> - 1
      | Some b \<Rightarrow>
          if type b \<in> waterLike en then 0
          else if waterlogged (getProperties b) then 0
          else if type b \<notin> set (waterIds en) then - 1
          else (let meta = metadata b in if meta \<ge> 8 then 0 else meta))"

definition getLiquidHeightPcent :: "env \<Rightarrow> block option \<Rightarrow> real" where
  "getLiquidHeightPcent en blk = (of_int (getRenderedDepth en blk) + 1) / 9"

definition directions :: "(int \<times> int) list" where
  "directions = [(0, 1), (- 1, 0), (0, - 1), (1, 0)]"

definition not_empty_box :: "block option \<Rightarrow> bool" where
  "not_empty_box blk = (case blk of None \<Rightarrow> False | Some b \<Rightarrow> boundingBox b \<noteq> ''empty'')"

definition getFlow :: "env \<Rightarrow> world \<Rightarrow> block \<Rightarrow> Vec3" where
  "getFlow en w b =
     (let curlevel = getRenderedDepth en (Some b);
          flow = fold (\<lambda>(dx, dz) flow.
                   let adjBlock = getBlock w (Vec3_offset (position b) (of_int dx) 0 (of_int dz));
                       adjLevel = getRenderedDepth en adjBlock
                   in if adjLevel < 0
                      then (if not_empty_box adjBlock
                            then (let adjLevel' = getRenderedDepth en
                                        (getBlock w (Vec3_offset (position b) (of_int dx) (- 1) (of_int dz)))
                                  in if adjLevel' \<ge> 0
                                     then (let f = adjLevel' - (curlevel - 8)
                                           in flow\<lparr>vec_x := vec_x flow + of_int (dx * f),
                                                   vec_z := vec_z flow + of_int (dz * f)\<rparr>)
                                     else flow)
                            else flow)
                      else (let f = adjLevel - curlevel
                            in flow\<lparr>vec_x := vec_x flow + of_int (dx * f),
                                    vec_z := vec_z flow + of_int (dz * f)\<rparr>))
                   directions \<lparr>vec_x = 0, vec_y = 0, vec_z = 0\<rparr>;
          flow = (if metadata b \<ge> 8
                  then fold (\<lambda>(dx, dz) flow.
                         let adjBlock = getBlock w (Vec3_offset (position b) (of_int dx) 0 (of_int dz));
                             adjUpBlock = getBlock w (Vec3_offset (position b) (of_int dx) 1 (of_int dz))
                         in if not_empty_box adjBlock \<or> not_empty_box adjUpBlock
                            then Vec3_offset (normalize flow) 0 (- 6) 0
                            else flow)
                         directions flow
                  else flow)
      in normalize flow)"

definition is_water_block :: "env \<Rightarrow> block \<Rightarrow> bool" where
  "is_water_block en b =
     (type b \<in> set (waterIds en) \<or> type b \<in> waterLike en \<or> waterlogged (getProperties b))"

definition getWaterInBB :: "env \<Rightarrow> world \<Rightarrow> AABB \<Rightarrow> block list" where
  "getWaterInBB en w bb =
     for_int \<lfloor>minY bb\<rfloor> \<lfloor>maxY bb\<rfloor> (\<lambda>cy.
       for_int \<lfloor>minZ bb\<rfloor> \<lfloor>maxZ bb\<rfloor> (\<lambda>cz.
         for_int \<lfloor>minX bb\<rfloor> \<lfloor>maxX bb\<rfloor> (\<lambda>cx waterBlocks.
           case getBlock w (cursor cx cy cz) of
             None \<Rightarrow> waterBlocks
           | Some b \<Rightarrow>
               if is_water_block en b
               then (let waterLevel = of_int cy + 1 - getLiquidHeightPcent en (Some b)
                     in if of_int \<lceil>maxY bb\<rceil> \<ge> waterLevel then waterBlocks @ [b] else waterBlocks)
               else waterBlocks))) []"

text \<open>The result is the flag \<open>isInWater\<close> and the velocity after the current.\<close>

definition isInWaterApplyCurrent :: "env \<Rightarrow> world \<Rightarrow> AABB \<Rightarrow> Vec3 \<Rightarrow> bool \<times> Vec3" where
  "isInWaterApplyCurrent en w bb v =
     (let waterBlocks = getWaterInBB en w bb;
          inWater = (length waterBlocks > 0);
          acceleration = fold (\<lambda>b acc. Vec3_add acc (getFlow en w b)) waterBlocks
                           \<lparr>vec_x = 0, vec_y = 0, vec_z = 0\<rparr>;
          len = norm3 acceleration
      in (inWater,
          if len > 0
          then \<lparr>vec_x = vec_x v + vec_x acceleration / len * 0.014,
                vec_y = vec_y v + vec_y acceleration / len * 0.014,
                vec_z = vec_z v + vec_z acceleration / len * 0.014\<rparr>
          else v))"

section \<open>Movement engine\<close>

record looking =
  lk_yaw :: real
  lk_pitch :: real
  sinYaw :: real
  cosYaw :: real
  sinPitch :: real
  cosPitch :: real
  lookX :: real
  lookY :: real
  lookZ :: real
  lookDir :: Vec3

definition getLookingVector :: "entity \<Rightarrow> looking" where
  "getLookingVector e =
     (let sy = sin (yaw e); cy = cos (yaw e); sp = sin (pitch e); cp = cos (pitch e);
          lx = - sy * cp; ly = sp; lz = - cy * cp
      in \<lparr>lk_yaw = yaw e, lk_pitch = pitch e, sinYaw = sy, cosYaw = cy, sinPitch = sp,
          cosPitch = cp, lookX = lx, lookY = ly, lookZ = lz,
          lookDir = \<lparr>vec_x = lx, vec_y = ly, vec_z = lz\<rparr>\<rparr>)"

definition applyHeading :: "entity \<Rightarrow> real \<Rightarrow> real \<Rightarrow> real \<Rightarrow> entity" where
  "applyHeading e strafe0 forward0 multiplier =
     (let speed0 = sqrt (strafe0 * strafe0 + forward0 * forward0) in
      if speed0 < 0.01 then e
      else (let speed1 = multiplier / max speed0 1;
                strafe = strafe0 * speed1;
                fwd = forward0 * speed1;
                yaw' = pi - yaw e;
                s = sin yaw';
                c = cos yaw'
            in e\<lparr>vel := (vel e)\<lparr>vec_x := vec_x (vel e) - (strafe * c + fwd * s),
                                 vec_z := vec_z (vel e) + (fwd * c - strafe * s)\<rparr>\<rparr>))"

text \<open>
  \<open>blockBelow.type\<close> is read without a guard: when the world has no block below an
  in-catalogue trapdoor, the source throws a TypeError.
\<close>

definition isOnLadder :: "env \<Rightarrow> world \<Rightarrow> Vec3 \<Rightarrow> error + bool" where
  "isOnLadder en w p =
     (case getBlock w p of
        None \<Rightarrow> Inr False
      | Some b \<Rightarrow>
          if type b = ladderId en \<or> type b = vineId en then Inr True
          else if supports en ''climableTrapdoor'' \<and> type b \<in> trapdoorIds en
          then (case getBlock w (Vec3_offset p 0 (- 1) 0) of
                  None \<Rightarrow> Inl TypeError
                | Some blockBelow \<Rightarrow>
                    if type blockBelow \<noteq> ladderId en then Inr False
                    else if \<not> is_open (getProperties b) then Inr False
                    else if facing (getProperties b) \<noteq> facing (getProperties blockBelow)
                    then Inr False
                    else Inr True)
          else Inr False)"

definition doesNotCollide :: "env \<Rightarrow> world \<Rightarrow> Vec3 \<Rightarrow> bool" where
  "doesNotCollide en w p =
     (let pBB = getPlayerBB en p in
      \<not> list_ex (\<lambda>b. intersects pBB b) (getSurroundingBBs w pBB) \<and>
      length (getWaterInBB en w pBB) = 0)"

definition clamp :: "real \<Rightarrow> real \<Rightarrow> real \<Rightarrow> real" where
  "clamp lo v hi = max lo (min v hi)"

definition gravityMultiplier :: "env \<Rightarrow> entity \<Rightarrow> real" where
  "gravityMultiplier en e =
     (if vec_y (vel e) \<le> 0 \<and> slowFalling e > 0 then slowFallingFactor (phys en) else 1)"

text \<open>
  The water and lava branch of \<open>moveEntityWithHeading\<close>:
  \<open>(acceleration, inertia, horizontalInertia)\<close> before the move.
\<close>

definition liquid_params :: "env \<Rightarrow> entity \<Rightarrow> real \<times> real \<times> real" where
  "liquid_params en e =
     (let acceleration = liquidAcceleration (phys en);
          inertia = (if isInWater e then waterInertia (phys en) else lavaInertia (phys en));
          horizontalInertia = inertia;
          strider = min (of_int (depthStrider e)) (3 :: real);
          strider = (if \<not> onGround e then strider * 0.5 else strider);
          boosted = (isInWater e \<and> strider > 0);
          horizontalInertia = (if boosted
                               then horizontalInertia + (0.546 - horizontalInertia) * strider / 3
                               else horizontalInertia);
          acceleration = (if boosted then acceleration + (0.7 - acceleration) * strider / 3
                          else acceleration);
          horizontalInertia = (if isInWater e \<and> dolphinsGrace e > 0 then 0.96
                               else horizontalInertia)
      in (acceleration, inertia, horizontalInertia))"

text \<open>Lines 536 to 539: inertia and liquid gravity, after the move.\<close>

definition liquid_velocity :: "env \<Rightarrow> real \<Rightarrow> real \<Rightarrow> real \<Rightarrow> entity \<Rightarrow> entity" where
  "liquid_velocity en inertia horizontalInertia gm e =
     (let vy = vec_y (vel e) * inertia;
          vy = vy - (if isInWater e then waterGravity (phys en) else lavaGravity (phys en)) * gm
      in e\<lparr>vel := \<lparr>vec_x = vec_x (vel e) * horizontalInertia, vec_y = vy,
                    vec_z = vec_z (vel e) * horizontalInertia\<rparr>\<rparr>)"

definition liquid_update :: "env \<Rightarrow> entity \<Rightarrow> world \<Rightarrow> real \<Rightarrow> real \<Rightarrow> real \<Rightarrow> entity" where
  "liquid_update en e w strafe fwd gm =
     (case liquid_params en e of (acceleration, inertia, horizontalInertia) \<Rightarrow>
      let e = applyHeading e strafe fwd acceleration;
          e = moveEntity en e w (vec_x (vel e)) (vec_y (vel e)) (vec_z (vel e))
      in liquid_velocity en inertia horizontalInertia gm e)"

definition liquid_move :: "env \<Rightarrow> entity \<Rightarrow> world \<Rightarrow> real \<Rightarrow> real \<Rightarrow> real \<Rightarrow> entity" where
  "liquid_move en e0 w strafe fwd gm =
     (let lastY = vec_y (pos e0);
          e = liquid_update en e0 w strafe fwd gm
      in if isCollidedHorizontally e \<and>
            doesNotCollide en w
              (Vec3_offset (pos e) (vec_x (vel e))
                 (vec_y (vel e) + 0.6 - vec_y (pos e) + lastY) (vec_z (vel e)))
         then e\<lparr>vel := (vel e)\<lparr>vec_y := outOfLiquidImpulse (phys en)\<rparr>\<rparr>
         else e)"

text \<open>The elytra branch: the velocity before the move.\<close>

definition elytra_velocity :: "env \<Rightarrow> entity \<Rightarrow> real \<Rightarrow> Vec3" where
  "elytra_velocity en e gm =
     (let lk = getLookingVector e;
          cp = cosPitch lk;
          horizontalSpeed = sqrt (vec_x (vel e) * vec_x (vel e) + vec_z (vel e) * vec_z (vel e));
          cosPitchSquared = cp * cp;
          v = vel e;
          v = v\<lparr>vec_y := vec_y v + gravity (phys en) * gm * (- 1.0 + cosPitchSquared * 0.75)\<rparr>;
          v = (if vec_y v < 0.0 \<and> cp > 0.0
               then (let movingDownSpeedModifier = vec_y v * (- 0.1) * cosPitchSquared
                     in v\<lparr>vec_x := vec_x v + vec_x (lookDir lk) * movingDownSpeedModifier / cp,
                          vec_y := vec_y v + movingDownSpeedModifier,
                          vec_z := vec_z v + vec_z (lookDir lk) * movingDownSpeedModifier / cp\<rparr>)
               else v);
          v = (if lk_pitch lk < 0.0 \<and> cp > 0.0
               then (let lookDownSpeedModifier = horizontalSpeed * (- sinPitch lk) * 0.04
                     in v\<lparr>vec_x := vec_x v + - vec_x (lookDir lk) * lookDownSpeedModifier / cp,
                          vec_y := vec_y v + lookDownSpeedModifier * 3.2,
                          vec_z := vec_z v + - vec_z (lookDir lk) * lookDownSpeedModifier / cp\<rparr>)
               else v);
          v = (if cp > 0.0
               then v\<lparr>vec_x := vec_x v + (vec_x (lookDir lk) / cp * horizontalSpeed - vec_x v) * 0.1,
                      vec_z := vec_z v + (vec_z (lookDir lk) / cp * horizontalSpeed - vec_z v) * 0.1\<rparr>
               else v)
      in v\<lparr>vec_x := vec_x v * 0.99, vec_y := vec_y v * 0.98, vec_z := vec_z v * 0.99\<rparr>)"

definition elytra_move :: "env \<Rightarrow> entity \<Rightarrow> world \<Rightarrow> real \<Rightarrow> entity" where
  "elytra_move en e w gm =
     (let v = elytra_velocity en e gm;
          e = moveEntity en (e\<lparr>vel := v\<rparr>) w (vec_x v) (vec_y v) (vec_z v)
      in if onGround e then e\<lparr>elytraFlying := False\<rparr> else e)"

text \<open>The ground speed of the normal branch: \<open>(acceleration, inertia)\<close>.\<close>

definition ground_speed :: "env \<Rightarrow> entity \<Rightarrow> block \<Rightarrow> real \<times> real" where
  "ground_speed en e blockUnder =
     (let key = movementSpeedAttribute (phys en);
          playerSpeedAttribute =
            (case attributes e of
               None \<Rightarrow> createAttributeValue (playerSpeed (phys en))
             | Some attrs \<Rightarrow>
                 (case attrs key of
                    None \<Rightarrow> createAttributeValue (playerSpeed (phys en))
                  | Some a \<Rightarrow> a));
          playerSpeedAttribute = deleteAttributeModifier playerSpeedAttribute (sprintingUUID (phys en));
          playerSpeedAttribute =
            (if sprint (control e)
             then (if \<not> checkAttributeModifier playerSpeedAttribute (sprintingUUID (phys en))
                   then addAttributeModifier playerSpeedAttribute
                          \<lparr>uuid = sprintingUUID (phys en), amount = sprintSpeed (phys en),
                           operation = 2\<rparr>
                   else playerSpeedAttribute)
             else playerSpeedAttribute);
          attributeSpeed = getAttributeValue playerSpeedAttribute;
          slip = (case blockSlipperiness en (type blockUnder) of
                    None \<Rightarrow> defaultSlipperiness (phys en)
                  | Some k \<Rightarrow> if k = 0 then defaultSlipperiness (phys en) else k);
          inertia = slip * 0.91;
          acceleration = attributeSpeed * (0.1627714 / (inertia * inertia * inertia))
      in (if acceleration < 0 then 0 else acceleration, inertia))"

definition air_speed :: "env \<Rightarrow> entity \<Rightarrow> real \<times> real" where
  "air_speed en e =
     (airborneAcceleration (phys en)
        + (if sprint (control e) then airborneAcceleration (phys en) * 0.3 else 0),
      airborneInertia (phys en))"

text \<open>Lines 585 to 622: \<open>(acceleration, inertia)\<close> of the normal branch.\<close>

definition normal_params :: "env \<Rightarrow> entity \<Rightarrow> world \<Rightarrow> real \<times> real" where
  "normal_params en e w =
     (case getBlock w (Vec3_offset (pos e) 0 (- 1) 0) of
        Some blockUnder \<Rightarrow> if onGround e then ground_speed en e blockUnder else air_speed en e
      | None \<Rightarrow> air_speed en e)"

definition ladder_clamp :: "env \<Rightarrow> entity \<Rightarrow> entity" where
  "ladder_clamp en e =
     (let lms = ladderMaxSpeed (phys en)
      in e\<lparr>vel := \<lparr>vec_x = clamp (- lms) (vec_x (vel e)) lms,
                   vec_y = max (vec_y (vel e)) (if sneak (control e) then 0 else - lms),
                   vec_z = clamp (- lms) (vec_z (vel e)) lms\<rparr>\<rparr>)"

text \<open>Lines 639 to 647: levitation or gravity, then air drag and friction.\<close>

definition friction_gravity :: "env \<Rightarrow> real \<Rightarrow> real \<Rightarrow> entity \<Rightarrow> entity" where
  "friction_gravity en inertia gm e =
     (let vy = (if levitation e > 0
                then vec_y (vel e) + (0.05 * of_int (levitation e) - vec_y (vel e)) * 0.2
                else vec_y (vel e) - gravity (phys en) * gm);
          vy = vy * airdrag (phys en)
      in e\<lparr>vel := \<lparr>vec_x = vec_x (vel e) * inertia, vec_y = vy,
                    vec_z = vec_z (vel e) * inertia\<rparr>\<rparr>)"

definition normal_move :: "env \<Rightarrow> entity \<Rightarrow> world \<Rightarrow> real \<Rightarrow> real \<Rightarrow> real \<Rightarrow> error + entity" where
  "normal_move en e w strafe fwd gm =
     (case normal_params en e w of (acceleration, inertia) \<Rightarrow>
      let e = applyHeading e strafe fwd acceleration
      in bind_err (isOnLadder en w (pos e)) (\<lambda>onLadder.
           let e = (if onLadder then ladder_clamp en e else e);
               e = moveEntity en e w (vec_x (vel e)) (vec_y (vel e)) (vec_z (vel e))
           in bind_err (isOnLadder en w (pos e)) (\<lambda>onLadder'.
                let e = (if onLadder' \<and> (isCollidedHorizontally e \<or>
                                           (supports en ''climbUsingJump'' \<and> jump (control e)))
                         then e\<lparr>vel := (vel e)\<lparr>vec_y := ladderClimbSpeed (phys en)\<rparr>\<rparr>
                         else e)
                in Inr (friction_gravity en inertia gm e))))"

definition moveEntityWithHeading ::
  "env \<Rightarrow> entity \<Rightarrow> world \<Rightarrow> real \<Rightarrow> real \<Rightarrow> error + entity" where
  "moveEntityWithHeading en e w strafe fwd =
     (let gm = gravityMultiplier en e in
      if isInWater e \<or> isInLava e then Inr (liquid_move en e w strafe fwd gm)
      else if elytraFlying e then Inr (elytra_move en e w gm)
      else normal_move en e w strafe fwd gm)"

section \<open>simulatePlayer\<close>

text \<open>Lines 763 to 783: the handling of the jump input.\<close>

definition handle_jump :: "env \<Rightarrow> entity \<Rightarrow> world \<Rightarrow> entity" where
  "handle_jump en e w =
     (let e =
        (if jump (control e) \<or> jumpQueued e
         then (let e = (if jumpTicks e > 0 then e\<lparr>jumpTicks := jumpTicks e - 1\<rparr> else e)
               in if isInWater e \<or> isInLava e
                  then e\<lparr>vel := (vel e)\<lparr>vec_y := vec_y (vel e) + 0.04\<rparr>\<rparr>
                  else if onGround e \<and> jumpTicks e = 0
                  then (let blockBelow = getBlock w (Vec3_offset (floored (pos e)) 0 (- 0.5) 0);
                            e = e\<lparr>vel := (vel e)\<lparr>vec_y := fround_0_42 *
                                    (if (case blockBelow of None \<Rightarrow> False
                                         | Some b \<Rightarrow> type b = honeyblockId en)
                                     then honeyblockJumpSpeed (phys en) else 1)\<rparr>\<rparr>;
                            e = (if jumpBoost e > 0
                                 then e\<lparr>vel := (vel e)\<lparr>vec_y := vec_y (vel e)
                                          + 0.1 * of_int (jumpBoost e)\<rparr>\<rparr>
                                 else e);
                            e = (if sprint (control e)
                                 then (let yaw' = pi - yaw e
                                       in e\<lparr>vel := (vel e)\<lparr>vec_x := vec_x (vel e) - sin yaw' * 0.2,
                                                            vec_z := vec_z (vel e) + cos yaw' * 0.2\<rparr>\<rparr>)
                                 else e)
                        in e\<lparr>jumpTicks := autojumpCooldown (phys en)\<rparr>)
                  else e)
         else e\<lparr>jumpTicks := 0\<rparr>)
      in e\<lparr>jumpQueued := False\<rparr>)"

definition dead_zone :: "env \<Rightarrow> Vec3 \<Rightarrow> Vec3" where
  "dead_zone en v =
     \<lparr>vec_x = (if \<bar>vec_x v\<bar> < negligeableVelocity (phys en) then 0 else vec_x v),
      vec_y = (if \<bar>vec_y v\<bar> < negligeableVelocity (phys en) then 0 else vec_y v),
      vec_z = (if \<bar>vec_z v\<bar> < negligeableVelocity (phys en) then 0 else vec_z v)\<rparr>"

definition firework :: "entity \<Rightarrow> entity" where
  "firework e =
     (if fireworkRocketDuration e > 0
      then (if \<not> elytraFlying e then e\<lparr>fireworkRocketDuration := 0\<rparr>
            else (let d = lookDir (getLookingVector e); v = vel e
                  in e\<lparr>vel := \<lparr>vec_x = vec_x v + (vec_x d * 0.1 + (vec_x d * 1.5 - vec_x v) * 0.5),
                               vec_y = vec_y v + (vec_y d * 0.1 + (vec_y d * 1.5 - vec_y v) * 0.5),
                               vec_z = vec_z v + (vec_z d * 0.1 + (vec_z d * 1.5 - vec_z v) * 0.5)\<rparr>,
                       fireworkRocketDuration := fireworkRocketDuration e - 1\<rparr>))
      else e)"

definition waterBB :: "env \<Rightarrow> Vec3 \<Rightarrow> AABB" where
  "waterBB en p = AABB_contract (getPlayerBB en p) 0.001 0.401 0.001"

definition lavaBB :: "env \<Rightarrow> Vec3 \<Rightarrow> AABB" where
  "lavaBB en p = AABB_contract (getPlayerBB en p) 0.1 0.4 0.1"

text \<open>Lines 754 and 755: the liquid flags, and the push of the water current.\<close>

definition update_liquid :: "env \<Rightarrow> entity \<Rightarrow> world \<Rightarrow> entity" where
  "update_liquid en e w =
     (let (inWater, v) = isInWaterApplyCurrent en w (waterBB en (pos e)) (vel e);
          e = e\<lparr>vel := v, isInWater := inWater\<rparr>
      in e\<lparr>isInLava := isMaterialInBB w (lavaBB en (pos e)) (lavaIds en)\<rparr>)"

definition strafe_input :: "env \<Rightarrow> entity \<Rightarrow> real" where
  "strafe_input en e =
     (let strafe = (of_bool (right (control e)) - of_bool (left (control e))) * 0.98
      in if sneak (control e) then strafe * sneakSpeed (phys en) else strafe)"

definition forward_input :: "env \<Rightarrow> entity \<Rightarrow> real" where
  "forward_input en e =
     (let fwd = (of_bool (forward (control e)) - of_bool (back (control e))) * 0.98
      in if sneak (control e) then fwd * sneakSpeed (phys en) else fwd)"

definition update_elytra :: "entity \<Rightarrow> entity" where
  "update_elytra e =
     e\<lparr>elytraFlying := (elytraFlying e \<and> elytraEquipped e \<and> \<not> onGround e
                          \<and> \<not> levitation e \<noteq> 0)\<rparr>"

definition simulatePlayer :: "env \<Rightarrow> entity \<Rightarrow> world \<Rightarrow> error + entity" where
  "simulatePlayer en e w =
     (let e = update_liquid en e w;
          e = e\<lparr>vel := dead_zone en (vel e)\<rparr>;
          e = handle_jump en e w;
          strafe = strafe_input en e;
          fwd = forward_input en e;
          e = update_elytra e;
          e = firework e
      in moveEntityWithHeading en e w strafe fwd)"

section \<open>Sample inputs\<close>

text \<open>
  Version objects in the manner of the game-data package: the five comparison methods
  compare the release order of the version with that of the argument.
\<close>

definition release_order :: "string \<Rightarrow> int option" where
  "release_order =
     map_of [(''1.8'', 8), (''1.12'', 12), (''1.13'', 13), (''1.14'', 14), (''1.14.1'', 15),
             (''1.16'', 16), (''1.20'', 20)]"

definition compare_with :: "(int \<Rightarrow> int \<Rightarrow> bool) \<Rightarrow> int \<Rightarrow> string \<Rightarrow> bool" where
  "compare_with rel r s = (case release_order s of None \<Rightarrow> False | Some q \<Rightarrow> rel r q)"

definition sample_version :: "string \<Rightarrow> int \<Rightarrow> mcVersion" where
  "sample_version major r =
     \<lparr>majorVersion = major,
      methods = map_of
        [(''>'', compare_with (\<lambda>a b. a > b) r),
         (''>='', compare_with (\<lambda>a b. a \<ge> b) r),
         (''<'', compare_with (\<lambda>a b. a < b) r),
         (''<='', compare_with (\<lambda>a b. a \<le> b) r),
         (''=='', compare_with (\<lambda>a b. a = b) r)]\<rparr>"

definition version_1_14 :: mcVersion where
  "version_1_14 = sample_version ''1.14'' 14"

definition version_1_14_1 :: mcVersion where
  "version_1_14_1 = sample_version ''1.14'' 15"

definition grammar_features :: "feature list" where
  "grammar_features =
     [\<lparr>name = ''bare'', versions = [Single ''1.14'']\<rparr>,
      \<lparr>name = ''exact'', versions = [Single ''== 1.14'']\<rparr>,
      \<lparr>name = ''range'', versions = [Array [''>= 1.12'', ''< 1.14''], Single ''> 1.16'']\<rparr>]"

text \<open>A catalogue with the ids of release 1.14 and the feature table of the simulator.\<close>

definition sample_blocks :: "(string \<times> int) list" where
  "sample_blocks =
     [(''stone'', 1), (''water'', 26), (''lava'', 27), (''cobweb'', 93), (''ice'', 182),
      (''ladder'', 160), (''soul_sand'', 192), (''oak_trapdoor'', 222), (''vine'', 254),
      (''slime_block'', 372), (''iron_trapdoor'', 374), (''packed_ice'', 401),
      (''blue_ice'', 598), (''bubble_column'', 599), (''kelp'', 546)]"

definition sample_mcData :: "mcVersion \<Rightarrow> mcData" where
  "sample_mcData v =
     \<lparr>version = v,
      blocksByName = map_of sample_blocks,
      attributesByName = map_of [(''movementSpeed'', ''minecraft:generic.movement_speed'')]\<rparr>"

definition sample_features :: "feature list" where
  "sample_features =
     [\<lparr>name = ''independentLiquidGravity'', versions = [Single ''< 1.13'']\<rparr>,
      \<lparr>name = ''proportionalLiquidGravity'', versions = [Single ''>= 1.13'']\<rparr>,
      \<lparr>name = ''velocityBlocksOnCollision'', versions = [Single ''>= 1.14.1'']\<rparr>,
      \<lparr>name = ''velocityBlocksOnTop'', versions = [Single ''< 1.14.1'']\<rparr>,
      \<lparr>name = ''climbUsingJump'', versions = [Single ''>= 1.14'']\<rparr>,
      \<lparr>name = ''climableTrapdoor'', versions = [Single ''>= 1.12'']\<rparr>]"


text \<open>The catalogue has every block and attribute the constructor reads without a guard.\<close>

definition catalogue_complete :: "mcData \<Rightarrow> bool" where
  "catalogue_complete mc =
     ((blocksByName mc ''slime_block'' \<noteq> None \<or> blocksByName mc ''slime'' \<noteq> None) \<and>
      blocksByName mc ''ice'' \<noteq> None \<and>
      blocksByName mc ''packed_ice'' \<noteq> None \<and>
      blocksByName mc ''soul_sand'' \<noteq> None \<and>
      (blocksByName mc ''cobweb'' \<noteq> None \<or> blocksByName mc ''web'' \<noteq> None) \<and>
      blocksByName mc ''water'' \<noteq> None \<and>
      blocksByName mc ''lava'' \<noteq> None \<and>
      blocksByName mc ''ladder'' \<noteq> None \<and>
      blocksByName mc ''vine'' \<noteq> None \<and>
      attributesByName mc ''movementSpeed'' \<noteq> None)"

text \<open>The boxes of the block at a lattice position, each translated by the block's position.\<close>

definition block_boxes :: "world \<Rightarrow> int \<Rightarrow> int \<Rightarrow> int \<Rightarrow> AABB list" where
  "block_boxes w cx cy cz =
     (case getBlock w (cursor cx cy cz) of
        None \<Rightarrow> []
      | Some b \<Rightarrow>
          map (\<lambda>s. AABB_offset (shape_box s)
                     (vec_x (position b)) (vec_y (position b)) (vec_z (position b)))
              (shapes b))"

text \<open>Entities: one in free fall at height 10, one standing at height 64 with jump held.\<close>

definition no_control :: control where
  "no_control =
     \<lparr>forward = False, back = False, left = False, right = False,
      jump = False, sprint = False, sneak = False\<rparr>"

definition falling_entity :: entity where
  "falling_entity =
     \<lparr>pos = \<lparr>vec_x = 0, vec_y = 10, vec_z = 0\<rparr>,
      vel = \<lparr>vec_x = 0, vec_y = 0, vec_z = 0\<rparr>,
      onGround = False, isInWater = False, isInLava = False, isInWeb = False,
      isCollidedHorizontally = False, isCollidedVertically = False, elytraFlying = False,
      jumpTicks = 0, jumpQueued = False, fireworkRocketDuration = 0,
      attributes = None, yaw = 0, pitch = 0, control = no_control,
      jumpBoost = 0, speed = 0, slowness = 0, dolphinsGrace = 0, slowFalling = 0,
      levitation = 0, depthStrider = 0, elytraEquipped = False\<rparr>"

definition jumping_entity :: entity where
  "jumping_entity =
     falling_entity
       \<lparr>pos := \<lparr>vec_x = 0.5, vec_y = 64, vec_z = 0.5\<rparr>,
        onGround := True, isCollidedVertically := True,
        control := no_control\<lparr>jump := True\<rparr>\<rparr>"

text \<open>
  A world whose only block is an open oak trapdoor in the lowest layer, and an entity
  inside that block; the world has nothing below the trapdoor.
\<close>

definition trapdoor_block :: block where
  "trapdoor_block =
     \<lparr>position = \<lparr>vec_x = 0, vec_y = 0, vec_z = 0\<rparr>, type = 222, metadata = 0,
      shapes = [(0, 0, 0.8125, 1, 1, 1)], boundingBox = ''block'',
      getProperties = \<lparr>is_open = True, facing = Some ''north'', waterlogged = False\<rparr>\<rparr>"

definition trapdoor_world :: world where
  "trapdoor_world =
     \<lparr>getBlock = (\<lambda>p. if \<lfloor>vec_x p\<rfloor> = 0 \<and> \<lfloor>vec_y p\<rfloor> = 0 \<and> \<lfloor>vec_z p\<rfloor> = 0
                       then Some trapdoor_block else None)\<rparr>"

definition trapdoor_entity :: entity where
  "trapdoor_entity = falling_entity\<lparr>pos := \<lparr>vec_x = 0.5, vec_y = 0, vec_z = 0.5\<rparr>\<rparr>"

definition empty_world :: world where
  "empty_world = \<lparr>getBlock = (\<lambda>p. None)\<rparr>"

text \<open>
  The environment the constructor returns on the sample catalogue of release 1.14.
\<close>

definition env_1_14 :: env where
  "env_1_14 =
     \<lparr>phys = physics_constants ''minecraft:generic.movement_speed'' (0.08 / 16) (0.08 / 4),
      supportedFeatureList =
        \<lparr>fl_version = version_1_14,
         features = {''climableTrapdoor'', ''climbUsingJump'', ''velocityBlocksOnTop'',
                     ''proportionalLiquidGravity''}\<rparr>,
      blockSlipperiness = slipperiness_table (sample_mcData version_1_14) 372 182 401,
      slimeBlockId = 372, soulsandId = 192, honeyblockId = - 1, webId = 93,
      waterIds = [26, - 1], lavaIds = [27, - 1], ladderId = 160,
      trapdoorIds = present_ids (sample_mcData version_1_14) trapdoor_names,
      vineId = 254,
      waterLike = present_ids (sample_mcData version_1_14) waterLike_names,
      bubblecolumnId = 599\<rparr>"

text \<open>A full cube of the given type at the cell of a point.\<close>

definition cube_at :: "int \<Rightarrow> Vec3 \<Rightarrow> block" where
  "cube_at t p =
     \<lparr>position = floored p, type = t, metadata = 0, shapes = [(0, 0, 0, 1, 1, 1)],
      boundingBox = ''block'',
      getProperties = \<lparr>is_open = False, facing = None, waterlogged = False\<rparr>\<rparr>"

text \<open>A corner: stone walls at \<open>x = 1\<close> and \<open>z = 1\<close> and a stone ceiling at \<open>y = 66\<close>.\<close>

definition corner_world :: world where
  "corner_world =
     \<lparr>getBlock = (\<lambda>p. if \<lfloor>vec_y p\<rfloor> = 66 \<or> \<lfloor>vec_x p\<rfloor> = 1 \<or> \<lfloor>vec_z p\<rfloor> = 1
                       then Some (cube_at 1 p) else None)\<rparr>"

definition rising_entity :: entity where
  "rising_entity =
     falling_entity
       \<lparr>pos := \<lparr>vec_x = 0.5, vec_y = 64, vec_z = 0.5\<rparr>,
        vel := \<lparr>vec_x = 0.5, vec_y = 0.5, vec_z = 0.5\<rparr>\<rparr>"

text \<open>A floor of the given block type at \<open>y = 63\<close>.\<close>

definition floor_world :: "int \<Rightarrow> world" where
  "floor_world t =
     \<lparr>getBlock = (\<lambda>p. if \<lfloor>vec_y p\<rfloor> = 63 then Some (cube_at t p) else None)\<rparr>"

text \<open>The two entities after one tick.\<close>

definition fallen_entity :: entity where
  "fallen_entity = falling_entity\<lparr>vel := \<lparr>vec_x = 0, vec_y = - (0.08 * fround_0_98), vec_z = 0\<rparr>\<rparr>"

definition jumped_entity :: entity where
  "jumped_entity =
     jumping_entity
       \<lparr>pos := \<lparr>vec_x = 0.5, vec_y = 64 + fround_0_42, vec_z = 0.5\<rparr>,
        vel := \<lparr>vec_x = 0, vec_y = (fround_0_42 - 0.08) * fround_0_98, vec_z = 0\<rparr>,
        onGround := False, isCollidedVertically := False, jumpTicks := 10\<rparr>"

text \<open>
  A block type the simulator gives no special treatment: not soul sand, honey, cobweb,
  bubble column, ladder, vine, trapdoor, water, water-like or lava.
\<close>

definition plain_type :: "env \<Rightarrow> int \<Rightarrow> bool" where
  "plain_type en t =
     (t \<noteq> soulsandId en \<and> t \<noteq> honeyblockId en \<and> t \<noteq> webId en \<and>
      t \<noteq> bubblecolumnId en \<and> t \<noteq> ladderId en \<and> t \<noteq> vineId en \<and>
      t \<notin> trapdoorIds en \<and> t \<notin> set (waterIds en) \<and> t \<notin> waterLike en \<and>
      t \<notin> set (lavaIds en))"

text \<open>
  A layer of stairs at \<open>y = 63\<close>: each block has a lower slab and an upper half slab.
\<close>

definition stair_at :: "Vec3 \<Rightarrow> block" where
  "stair_at p =
     \<lparr>position = floored p, type = 1, metadata = 0,
      shapes = [(0, 0, 0, 1, 0.5, 1), (0, 0.5, 0, 0.5, 1, 1)],
      boundingBox = ''block'',
      getProperties = \<lparr>is_open = False, facing = None, waterlogged = False\<rparr>\<rparr>"

definition stairs_world :: world where
  "stairs_world =
     \<lparr>getBlock = (\<lambda>p. if \<lfloor>vec_y p\<rfloor> = 63 then Some (stair_at p) else None)\<rparr>"


text \<open>An entity half a block above the floor at \<open>y = 63\<close>, falling one block per tick.\<close>

definition dropping_entity :: entity where
  "dropping_entity =
     falling_entity
       \<lparr>pos := \<lparr>vec_x = 0.5, vec_y = 64.5, vec_z = 0.5\<rparr>,
        vel := \<lparr>vec_x = 0, vec_y = - 1, vec_z = 0\<rparr>\<rparr>"

text \<open>An entity in the air or on the ground, with jump held and a given cooldown.\<close>

definition hopping_entity :: "bool \<Rightarrow> int \<Rightarrow> entity" where
  "hopping_entity g t =
     falling_entity\<lparr>onGround := g, jumpTicks := t, control := no_control\<lparr>jump := True\<rparr>\<rparr>"



section \<open>Properties\<close>

subsection \<open>FeatureList\<close>

lemma split_space_ne: "split_space c \<noteq> []"
  by (induction c) (auto simp: Let_def)

lemma hd_split_space: "hd (split_space c) = takeWhile (\<lambda>k. k \<noteq> CHR '' '') c"
  by (induction c) (auto simp: Let_def)

lemma split_space_nospace: "CHR '' '' \<notin> set c \<Longrightarrow> split_space c = [c]"
  by (induction c) (auto simp: Let_def)

lemma tl_split_space:
  "CHR '' '' \<in> set c \<Longrightarrow>
   tl (split_space c) = split_space (tl (dropWhile (\<lambda>k. k \<noteq> CHR '' '') c))"
  by (induction c) (auto simp: Let_def)

lemma split_space_space:
  assumes "CHR '' '' \<in> set c"
  shows "\<exists>rest. split_space c =
           takeWhile (\<lambda>k. k \<noteq> CHR '' '') c
           # takeWhile (\<lambda>k. k \<noteq> CHR '' '') (tl (dropWhile (\<lambda>k. k \<noteq> CHR '' '') c))
           # rest"
proof -
  let ?d = "tl (dropWhile (\<lambda>k. k \<noteq> CHR '' '') c)"
  obtain a as where a: "split_space c = a # as"
    using split_space_ne [of c] by (cases "split_space c") auto
  obtain b bs where b: "split_space ?d = b # bs"
    using split_space_ne [of ?d] by (cases "split_space ?d") auto
  have "a = takeWhile (\<lambda>k. k \<noteq> CHR '' '') c"
    using hd_split_space [of c] a by simp
  moreover have "as = b # bs"
    using tl_split_space [OF assms] a b by simp
  moreover have "b = takeWhile (\<lambda>k. k \<noteq> CHR '' '') ?d"
    using hd_split_space [of ?d] b by simp
  ultimately show ?thesis using a by simp
qed

lemma checkVersion_spec: "checkVersion v c = Inr b \<Longrightarrow> b = spec_condition v c"
proof (cases "CHR '' '' \<in> set c")
  case True
  assume r: "checkVersion v c = Inr b"
  from split_space_space [OF True] obtain rest where
    "split_space c = takeWhile (\<lambda>k. k \<noteq> CHR '' '') c
           # takeWhile (\<lambda>k. k \<noteq> CHR '' '') (tl (dropWhile (\<lambda>k. k \<noteq> CHR '' '') c))
           # rest" ..
  with r True show ?thesis
    by (auto simp: checkVersion_def spec_condition_def split: option.splits)
next
  case False
  assume "checkVersion v c = Inr b"
  with False show ?thesis
    by (simp add: checkVersion_def spec_condition_def split_space_nospace)
qed

lemma checkVersion_known: "known_condition v c \<Longrightarrow> \<exists>b. checkVersion v c = Inr b"
proof (cases "CHR '' '' \<in> set c")
  case True
  assume k: "known_condition v c"
  from split_space_space [OF True] obtain rest where
    "split_space c = takeWhile (\<lambda>k. k \<noteq> CHR '' '') c
           # takeWhile (\<lambda>k. k \<noteq> CHR '' '') (tl (dropWhile (\<lambda>k. k \<noteq> CHR '' '') c))
           # rest" ..
  with k True show ?thesis
    by (auto simp: checkVersion_def known_condition_def split: option.splits)
next
  case False
  then show ?thesis
    by (simp add: checkVersion_def split_space_nospace)
qed

lemma and_conditions_spec:
  "and_conditions v cs flag = Inr b \<Longrightarrow> b = (flag \<and> list_all (spec_condition v) cs)"
  by (induction cs arbitrary: flag) (auto split: sum.splits dest: checkVersion_spec)

lemma and_conditions_known:
  "list_all (known_condition v) cs \<Longrightarrow> \<exists>b. and_conditions v cs flag = Inr b"
proof (induction cs arbitrary: flag)
  case Nil
  then show ?case by simp
next
  case (Cons c cs)
  then obtain b where "checkVersion v c = Inr b"
    using checkVersion_known [of v c] by auto
  with Cons show ?case by simp
qed

lemma entry_flag_spec: "entry_flag v vc = Inr b \<Longrightarrow> b = spec_entry v vc"
  by (cases vc) (auto dest: checkVersion_spec and_conditions_spec)

lemma entry_flag_known: "known_entry v vc \<Longrightarrow> \<exists>b. entry_flag v vc = Inr b"
  by (cases vc) (auto intro: checkVersion_known and_conditions_known)

lemma versions_loop_spec:
  "versions_loop v vcs = Inr b \<Longrightarrow> b = list_ex (spec_entry v) vcs"
proof (induction vcs)
  case Nil
  then show ?case by simp
next
  case (Cons vc vcs)
  from Cons.prems obtain flag where f: "entry_flag v vc = Inr flag"
    by (auto split: sum.splits)
  from entry_flag_spec [OF f] have fs: "flag = spec_entry v vc" .
  show ?case
  proof (cases flag)
    case True
    with Cons.prems f fs show ?thesis by simp
  next
    case False
    with Cons.prems f have "versions_loop v vcs = Inr b" by simp
    from Cons.IH [OF this] False fs show ?thesis by simp
  qed
qed

lemma versions_loop_known:
  "list_all (known_entry v) vcs \<Longrightarrow> \<exists>b. versions_loop v vcs = Inr b"
proof (induction vcs)
  case Nil
  show ?case by auto
next
  case (Cons vc vcs)
  then obtain b where "entry_flag v vc = Inr b"
    using entry_flag_known [of v vc] by auto
  with Cons show ?case by auto
qed

lemma feats_loop_spec:
  "feats_loop v fs S = Inr S' \<Longrightarrow> (n \<in> S') = (n \<in> S \<or> spec_enabled v fs n)"
proof (induction fs arbitrary: S)
  case Nil
  then show ?case by (simp add: spec_enabled_def)
next
  case (Cons f fs)
  from Cons.prems obtain added where
    a: "versions_loop v (versions f) = Inr added" and
    r: "feats_loop v fs (if added then insert (name f) S else S) = Inr S'"
    by (auto split: sum.splits)
  from versions_loop_spec [OF a] Cons.IH [OF r] show ?case
    by (auto simp: spec_enabled_def)
qed

lemma feats_loop_known:
  "known_features v fs \<Longrightarrow> \<exists>S'. feats_loop v fs S = Inr S'"
proof (induction fs arbitrary: S)
  case Nil
  then show ?case by simp
next
  case (Cons f fs)
  then obtain b where "versions_loop v (versions f) = Inr b"
    using versions_loop_known [of v "versions f"] by (auto simp: known_features_def)
  with Cons show ?case by (simp add: known_features_def)
qed

text \<open>
  Claim C6. For every list of feature records and every version, the constructor of
  \<open>FeatureList\<close> returns when every condition names a method of the version
  object, and whenever it returns, a feature name is enabled iff some record of that name
  has a satisfied entry: a string without a space is satisfied iff it is the major
  version, a string \<open>predicate parameter\<close> iff the comparison holds, an array iff all
  its conditions hold.
\<close>

theorem FeatureList_enabled_iff:
  "(known_features v feats \<longrightarrow> (\<exists>fl. FeatureList feats v = Inr fl)) \<and>
   (\<forall>fl n. FeatureList feats v = Inr fl \<longrightarrow>
      supportFeature fl n = spec_enabled v feats n)"
proof (intro conjI impI allI)
  assume "known_features v feats"
  then obtain S where "feats_loop v feats {} = Inr S"
    using feats_loop_known by blast
  then show "\<exists>fl. FeatureList feats v = Inr fl"
    by (simp add: FeatureList_def)
next
  fix fl n
  assume "FeatureList feats v = Inr fl"
  then obtain S where s: "feats_loop v feats {} = Inr S" and fl: "features fl = S"
    by (auto simp: FeatureList_def split: sum.splits)
  from feats_loop_spec [OF s, of n] fl
  show "supportFeature fl n = spec_enabled v feats n"
    by (simp add: supportFeature_def)
qed


lemma known_grammar_1_14_1: "known_features version_1_14_1 grammar_features"
  by (simp add: known_features_def known_condition_def grammar_features_def
        version_1_14_1_def sample_version_def)

lemma known_grammar_1_14: "known_features version_1_14 grammar_features"
  by (simp add: known_features_def known_condition_def grammar_features_def
        version_1_14_def sample_version_def)

theorem FeatureList_enabled_iff_witness:
  "(\<exists>fl. FeatureList grammar_features version_1_14_1 = Inr fl \<and>
         supportFeature fl ''bare'' \<and> \<not> supportFeature fl ''exact'' \<and>
         \<not> supportFeature fl ''range'') \<and>
   (\<exists>fl. FeatureList grammar_features version_1_14 = Inr fl \<and>
         supportFeature fl ''bare'' \<and> supportFeature fl ''exact'')"
proof -
  have e1: "spec_enabled version_1_14_1 grammar_features ''bare''"
    by (simp add: spec_enabled_def spec_condition_def grammar_features_def
          version_1_14_1_def sample_version_def)
  have e2: "\<not> spec_enabled version_1_14_1 grammar_features ''exact''"
    by (simp add: spec_enabled_def spec_condition_def grammar_features_def
          version_1_14_1_def sample_version_def compare_with_def release_order_def)
  have e3: "\<not> spec_enabled version_1_14_1 grammar_features ''range''"
    by (simp add: spec_enabled_def spec_condition_def grammar_features_def
          version_1_14_1_def sample_version_def compare_with_def release_order_def)
  have e4: "spec_enabled version_1_14 grammar_features ''bare''"
    by (simp add: spec_enabled_def spec_condition_def grammar_features_def
          version_1_14_def sample_version_def)
  have e5: "spec_enabled version_1_14 grammar_features ''exact''"
    by (simp add: spec_enabled_def spec_condition_def grammar_features_def
          version_1_14_def sample_version_def compare_with_def release_order_def)
  from FeatureList_enabled_iff [of version_1_14_1 grammar_features] known_grammar_1_14_1
  obtain fl1 where f1: "FeatureList grammar_features version_1_14_1 = Inr fl1" by blast
  from FeatureList_enabled_iff [of version_1_14 grammar_features] known_grammar_1_14
  obtain fl2 where f2: "FeatureList grammar_features version_1_14 = Inr fl2" by blast
  from FeatureList_enabled_iff [of version_1_14_1 grammar_features] f1 e1 e2 e3
  have "supportFeature fl1 ''bare'' \<and> \<not> supportFeature fl1 ''exact'' \<and>
        \<not> supportFeature fl1 ''range''" by blast
  moreover
  from FeatureList_enabled_iff [of version_1_14 grammar_features] f2 e4 e5
  have "supportFeature fl2 ''bare'' \<and> supportFeature fl2 ''exact''" by blast
  ultimately show ?thesis using f1 f2 by blast
qed

subsection \<open>Counting loops\<close>

lemma for_int_fold: "for_int c hi body s = fold body [c..hi] s"
proof (induction c hi body s rule: for_int.induct)
  case (1 c hi body s)
  show ?case
  proof (cases "c \<le> hi")
    case True
    then have "[c..hi] = c # [c + 1..hi]" by (simp add: upto_rec1)
    with True "1" show ?thesis by (simp add: for_int.simps [of c])
  next
    case False
    then show ?thesis by (simp add: for_int.simps [of c])
  qed
qed

lemma fold_append_each:
  "(\<And>c acc. body c acc = acc @ g c) \<Longrightarrow> fold body cs acc = acc @ concat (map g cs)"
  by (induction cs arbitrary: acc) simp_all

lemma for_int_append:
  "(\<And>c acc. body c acc = acc @ g c) \<Longrightarrow> for_int lo hi body acc = acc @ concat (map g [lo..hi])"
  by (simp add: for_int_fold fold_append_each)

subsection \<open>getSurroundingBBs\<close>

lemma fold_push: "fold (\<lambda>s bbs. bbs @ [f s]) xs acc = acc @ map f xs"
  by (induction xs arbitrary: acc) simp_all

lemma push_block_boxes_append:
  "push_block_boxes w cy cz cx acc = acc @ block_boxes w cx cy cz"
  by (simp add: push_block_boxes_def block_boxes_def fold_push split: option.splits)

lemma getSurroundingBBs_concat:
  "getSurroundingBBs w q =
     concat (map (\<lambda>cy. concat (map (\<lambda>cz. concat (map (\<lambda>cx. block_boxes w cx cy cz)
                    [\<lfloor>minX q\<rfloor>..\<lfloor>maxX q\<rfloor>])) [\<lfloor>minZ q\<rfloor>..\<lfloor>maxZ q\<rfloor>]))
               [\<lfloor>minY q\<rfloor> - 1..\<lfloor>maxY q\<rfloor>])"
proof -
  have x: "\<And>cy cz acc. for_int \<lfloor>minX q\<rfloor> \<lfloor>maxX q\<rfloor> (\<lambda>cx. push_block_boxes w cy cz cx) acc
             = acc @ concat (map (\<lambda>cx. block_boxes w cx cy cz) [\<lfloor>minX q\<rfloor>..\<lfloor>maxX q\<rfloor>])"
    by (rule for_int_append) (rule push_block_boxes_append)
  have z: "\<And>cy acc. for_int \<lfloor>minZ q\<rfloor> \<lfloor>maxZ q\<rfloor>
             (\<lambda>cz. for_int \<lfloor>minX q\<rfloor> \<lfloor>maxX q\<rfloor> (\<lambda>cx. push_block_boxes w cy cz cx)) acc
             = acc @ concat (map (\<lambda>cz. concat (map (\<lambda>cx. block_boxes w cx cy cz)
                    [\<lfloor>minX q\<rfloor>..\<lfloor>maxX q\<rfloor>])) [\<lfloor>minZ q\<rfloor>..\<lfloor>maxZ q\<rfloor>])"
    by (rule for_int_append) (rule x)
  have "for_int (\<lfloor>minY q\<rfloor> - 1) \<lfloor>maxY q\<rfloor> (\<lambda>cy. for_int \<lfloor>minZ q\<rfloor> \<lfloor>maxZ q\<rfloor>
             (\<lambda>cz. for_int \<lfloor>minX q\<rfloor> \<lfloor>maxX q\<rfloor> (\<lambda>cx. push_block_boxes w cy cz cx))) []
        = [] @ concat (map (\<lambda>cy. concat (map (\<lambda>cz. concat (map (\<lambda>cx. block_boxes w cx cy cz)
                    [\<lfloor>minX q\<rfloor>..\<lfloor>maxX q\<rfloor>])) [\<lfloor>minZ q\<rfloor>..\<lfloor>maxZ q\<rfloor>]))
               [\<lfloor>minY q\<rfloor> - 1..\<lfloor>maxY q\<rfloor>])"
    by (rule for_int_append) (rule z)
  then show ?thesis by (simp add: getSurroundingBBs_def)
qed

lemma mem_block_boxes:
  "bb \<in> set (block_boxes w cx cy cz) \<longleftrightarrow>
     (\<exists>b s. getBlock w (cursor cx cy cz) = Some b \<and> s \<in> set (shapes b) \<and>
        bb = AABB_offset (shape_box s)
               (vec_x (position b)) (vec_y (position b)) (vec_z (position b)))"
proof (cases "getBlock w (cursor cx cy cz)")
  case None
  then show ?thesis by (simp add: block_boxes_def)
next
  case (Some b)
  then show ?thesis by (auto simp: block_boxes_def simp del: split_paired_Ex)
qed

lemma upto_0_1: "[0..1::int] = [0, 1]" "[0..0::int] = [0]" "[1..1::int] = [1]"
  by (simp_all add: upto_rec1)

lemma mem_block_boxes_explicit:
  "bb \<in> set (block_boxes w cx cy cz) \<longleftrightarrow>
     (\<exists>b x0 y0 z0 x1 y1 z1.
        getBlock w \<lparr>vec_x = of_int cx, vec_y = of_int cy, vec_z = of_int cz\<rparr> = Some b \<and>
        (x0, y0, z0, x1, y1, z1) \<in> set (shapes b) \<and>
        bb = \<lparr>minX = x0 + vec_x (position b), minY = y0 + vec_y (position b),
              minZ = z0 + vec_z (position b), maxX = x1 + vec_x (position b),
              maxY = y1 + vec_y (position b), maxZ = z1 + vec_z (position b)\<rparr>)"
proof (cases "getBlock w \<lparr>vec_x = of_int cx, vec_y = of_int cy, vec_z = of_int cz\<rparr>")
  case None
  then show ?thesis by (simp add: block_boxes_def cursor_def)
next
  case (Some b)
  then show ?thesis
    by (force simp: block_boxes_def cursor_def shape_box_def AABB_offset_def image_iff)
qed

lemma block_boxes_explicit:
  "block_boxes w cx cy cz =
     (case getBlock w \<lparr>vec_x = of_int cx, vec_y = of_int cy, vec_z = of_int cz\<rparr> of
        None \<Rightarrow> []
      | Some b \<Rightarrow>
          map (\<lambda>(x0, y0, z0, x1, y1, z1).
                 \<lparr>minX = x0 + vec_x (position b), minY = y0 + vec_y (position b),
                  minZ = z0 + vec_z (position b), maxX = x1 + vec_x (position b),
                  maxY = y1 + vec_y (position b), maxZ = z1 + vec_z (position b)\<rparr>)
              (shapes b))"
  by (auto simp: block_boxes_def cursor_def shape_box_def AABB_offset_def split: option.splits)

text \<open>
  Claim C8. For every world and query box, the boxes \<open>getSurroundingBBs\<close> returns are
  exactly these: for every lattice position \<open>(cx, cy, cz)\<close> with \<open>cy\<close> from
  \<open>\<lfloor>minY\<rfloor> - 1\<close> through \<open>\<lfloor>maxY\<rfloor>\<close> and \<open>cx\<close>, \<open>cz\<close> from \<open>\<lfloor>min\<rfloor>\<close> through \<open>\<lfloor>max\<rfloor>\<close>, if
  \<open>getBlock\<close> at that position is a block, then for each of its shape tuples
  \<open>(x0, y0, z0, x1, y1, z1)\<close> the box from \<open>(x0, y0, z0)\<close> to \<open>(x1, y1, z1)\<close> moved by the
  block's position. They come in the order of the loops, \<open>y\<close> outermost and \<open>x\<close>
  innermost, and the shapes of one block in their own order.
\<close>

theorem getSurroundingBBs_lattice:
  "set (getSurroundingBBs w q) =
     {\<lparr>minX = x0 + vec_x (position b), minY = y0 + vec_y (position b),
       minZ = z0 + vec_z (position b), maxX = x1 + vec_x (position b),
       maxY = y1 + vec_y (position b), maxZ = z1 + vec_z (position b)\<rparr>
      | cx cy cz b x0 y0 z0 x1 y1 z1.
        \<lfloor>minY q\<rfloor> - 1 \<le> cy \<and> cy \<le> \<lfloor>maxY q\<rfloor> \<and>
        \<lfloor>minZ q\<rfloor> \<le> cz \<and> cz \<le> \<lfloor>maxZ q\<rfloor> \<and>
        \<lfloor>minX q\<rfloor> \<le> cx \<and> cx \<le> \<lfloor>maxX q\<rfloor> \<and>
        getBlock w \<lparr>vec_x = of_int cx, vec_y = of_int cy, vec_z = of_int cz\<rparr> = Some b \<and>
        (x0, y0, z0, x1, y1, z1) \<in> set (shapes b)} \<and>
   getSurroundingBBs w q =
     concat (map (\<lambda>cy. concat (map (\<lambda>cz. concat (map (\<lambda>cx.
        (case getBlock w \<lparr>vec_x = of_int cx, vec_y = of_int cy, vec_z = of_int cz\<rparr> of
           None \<Rightarrow> []
         | Some b \<Rightarrow>
             map (\<lambda>(x0, y0, z0, x1, y1, z1).
                    \<lparr>minX = x0 + vec_x (position b), minY = y0 + vec_y (position b),
                     minZ = z0 + vec_z (position b), maxX = x1 + vec_x (position b),
                     maxY = y1 + vec_y (position b), maxZ = z1 + vec_z (position b)\<rparr>)
                 (shapes b)))
        [\<lfloor>minX q\<rfloor>..\<lfloor>maxX q\<rfloor>])) [\<lfloor>minZ q\<rfloor>..\<lfloor>maxZ q\<rfloor>])) [\<lfloor>minY q\<rfloor> - 1..\<lfloor>maxY q\<rfloor>])"
proof
  have mem: "\<And>bb. bb \<in> set (getSurroundingBBs w q) \<longleftrightarrow>
      (\<exists>cy cz cx. \<lfloor>minY q\<rfloor> - 1 \<le> cy \<and> cy \<le> \<lfloor>maxY q\<rfloor> \<and>
        \<lfloor>minZ q\<rfloor> \<le> cz \<and> cz \<le> \<lfloor>maxZ q\<rfloor> \<and>
        \<lfloor>minX q\<rfloor> \<le> cx \<and> cx \<le> \<lfloor>maxX q\<rfloor> \<and> bb \<in> set (block_boxes w cx cy cz))"
    unfolding getSurroundingBBs_concat by (simp add: Bex_def)
  show "set (getSurroundingBBs w q) =
     {\<lparr>minX = x0 + vec_x (position b), minY = y0 + vec_y (position b),
       minZ = z0 + vec_z (position b), maxX = x1 + vec_x (position b),
       maxY = y1 + vec_y (position b), maxZ = z1 + vec_z (position b)\<rparr>
      | cx cy cz b x0 y0 z0 x1 y1 z1.
        \<lfloor>minY q\<rfloor> - 1 \<le> cy \<and> cy \<le> \<lfloor>maxY q\<rfloor> \<and>
        \<lfloor>minZ q\<rfloor> \<le> cz \<and> cz \<le> \<lfloor>maxZ q\<rfloor> \<and>
        \<lfloor>minX q\<rfloor> \<le> cx \<and> cx \<le> \<lfloor>maxX q\<rfloor> \<and>
        getBlock w \<lparr>vec_x = of_int cx, vec_y = of_int cy, vec_z = of_int cz\<rparr> = Some b \<and>
        (x0, y0, z0, x1, y1, z1) \<in> set (shapes b)}"
    (is "?L = ?R")
  proof (rule set_eqI)
    fix bb
    have "bb \<in> ?R \<longleftrightarrow>
      (\<exists>cy cz cx. \<lfloor>minY q\<rfloor> - 1 \<le> cy \<and> cy \<le> \<lfloor>maxY q\<rfloor> \<and>
        \<lfloor>minZ q\<rfloor> \<le> cz \<and> cz \<le> \<lfloor>maxZ q\<rfloor> \<and>
        \<lfloor>minX q\<rfloor> \<le> cx \<and> cx \<le> \<lfloor>maxX q\<rfloor> \<and>
        (\<exists>b x0 y0 z0 x1 y1 z1.
        getBlock w \<lparr>vec_x = of_int cx, vec_y = of_int cy, vec_z = of_int cz\<rparr> = Some b \<and>
        (x0, y0, z0, x1, y1, z1) \<in> set (shapes b) \<and>
        bb = \<lparr>minX = x0 + vec_x (position b), minY = y0 + vec_y (position b),
              minZ = z0 + vec_z (position b), maxX = x1 + vec_x (position b),
              maxY = y1 + vec_y (position b), maxZ = z1 + vec_z (position b)\<rparr>))"
      by (simp del: split_paired_Ex) blast
    then show "bb \<in> ?L \<longleftrightarrow> bb \<in> ?R"
      unfolding mem mem_block_boxes_explicit by simp
  qed
next
  show "getSurroundingBBs w q =
     concat (map (\<lambda>cy. concat (map (\<lambda>cz. concat (map (\<lambda>cx.
        (case getBlock w \<lparr>vec_x = of_int cx, vec_y = of_int cy, vec_z = of_int cz\<rparr> of
           None \<Rightarrow> []
         | Some b \<Rightarrow>
             map (\<lambda>(x0, y0, z0, x1, y1, z1).
                    \<lparr>minX = x0 + vec_x (position b), minY = y0 + vec_y (position b),
                     minZ = z0 + vec_z (position b), maxX = x1 + vec_x (position b),
                     maxY = y1 + vec_y (position b), maxZ = z1 + vec_z (position b)\<rparr>)
                 (shapes b)))
        [\<lfloor>minX q\<rfloor>..\<lfloor>maxX q\<rfloor>])) [\<lfloor>minZ q\<rfloor>..\<lfloor>maxZ q\<rfloor>])) [\<lfloor>minY q\<rfloor> - 1..\<lfloor>maxY q\<rfloor>])"
    unfolding getSurroundingBBs_concat block_boxes_explicit ..
qed

theorem getSurroundingBBs_lattice_witness:
  "getSurroundingBBs stairs_world
     \<lparr>minX = 1.2, minY = 64, minZ = 0.2, maxX = 2.3, maxY = 65.8, maxZ = 0.8\<rparr> =
   [\<lparr>minX = 1, minY = 63, minZ = 0, maxX = 2, maxY = 63.5, maxZ = 1\<rparr>,
    \<lparr>minX = 1, minY = 63.5, minZ = 0, maxX = 1.5, maxY = 64, maxZ = 1\<rparr>,
    \<lparr>minX = 2, minY = 63, minZ = 0, maxX = 3, maxY = 63.5, maxZ = 1\<rparr>,
    \<lparr>minX = 2, minY = 63.5, minZ = 0, maxX = 2.5, maxY = 64, maxZ = 1\<rparr>]"
  using getSurroundingBBs_lattice [THEN conjunct2, of stairs_world
          "\<lparr>minX = 1.2, minY = 64, minZ = 0.2, maxX = 2.3, maxY = 65.8, maxZ = 0.8\<rparr>"]
  by (simp add: stairs_world_def stair_at_def floored_def upto_0_1 upto_rec1)

subsection \<open>applyHeading\<close>

text \<open>
  Claim C9. For every entity and all \<open>strafe\<close>, \<open>forward\<close> and \<open>multiplier\<close>,
  \<open>applyHeading\<close> changes at most \<open>vel.x\<close> and \<open>vel.z\<close>: the position, \<open>vel.y\<close> and
  every other field are as before; and when \<open>\<surd>(strafe\<^sup>2 + forward\<^sup>2) < 0.01\<close> the entity
  is returned unchanged.
\<close>

theorem applyHeading_frame:
  "applyHeading e strafe fwd m =
     e\<lparr>vel := (vel e)\<lparr>vec_x := vec_x (vel (applyHeading e strafe fwd m)),
                      vec_z := vec_z (vel (applyHeading e strafe fwd m))\<rparr>\<rparr> \<and>
   pos (applyHeading e strafe fwd m) = pos e \<and>
   vec_y (vel (applyHeading e strafe fwd m)) = vec_y (vel e) \<and>
   (sqrt (strafe * strafe + fwd * fwd) < 0.01 \<longrightarrow> applyHeading e strafe fwd m = e)"
  by (simp add: applyHeading_def Let_def)

theorem applyHeading_frame_witness:
  "sqrt (0 * 0 + 0 * 0) < (0.01 :: real) \<and> applyHeading falling_entity 0 0 1 = falling_entity"
  using applyHeading_frame [of falling_entity 0 0 1] by simp

subsection \<open>The constructor\<close>

lemma block_id_present: "blocksByName mc n \<noteq> None \<Longrightarrow> \<exists>i. block_id mc n = Inr i"
  by (auto simp: block_id_def)

lemma block_id_or_present:
  "blocksByName mc a \<noteq> None \<or> blocksByName mc b \<noteq> None \<Longrightarrow> \<exists>i. block_id_or mc a b = Inr i"
  by (cases "blocksByName mc a") (auto simp: block_id_or_def block_id_def)

lemma Physics_complete:
  assumes fl: "FeatureList feats (version mc) = Inr fl"
    and cat: "catalogue_complete mc"
  shows "\<exists>resource cat_env.
     Physics feats mc =
       (if supportFeature fl ''independentLiquidGravity''
        then Inr (cat_env\<lparr>phys := physics_constants resource 0.02 0.02\<rparr>)
        else if supportFeature fl ''proportionalLiquidGravity''
        then Inr (cat_env\<lparr>phys := physics_constants resource (0.08 / 16) (0.08 / 4)\<rparr>)
        else Inl NoLiquidGravity)"
proof -
  from cat have "\<exists>i. block_id_or mc ''slime_block'' ''slime'' = Inr i"
    by (intro block_id_or_present) (simp add: catalogue_complete_def)
  then obtain slime where s: "block_id_or mc ''slime_block'' ''slime'' = Inr slime" ..
  from cat have "\<exists>i. block_id_or mc ''cobweb'' ''web'' = Inr i"
    by (intro block_id_or_present) (simp add: catalogue_complete_def)
  then obtain web where w: "block_id_or mc ''cobweb'' ''web'' = Inr web" ..
  from cat have "\<exists>i. block_id mc ''ice'' = Inr i"
    by (intro block_id_present) (simp add: catalogue_complete_def)
  then obtain ice where i1: "block_id mc ''ice'' = Inr ice" ..
  from cat have "\<exists>i. block_id mc ''packed_ice'' = Inr i"
    by (intro block_id_present) (simp add: catalogue_complete_def)
  then obtain packed where i2: "block_id mc ''packed_ice'' = Inr packed" ..
  from cat have "\<exists>i. block_id mc ''soul_sand'' = Inr i"
    by (intro block_id_present) (simp add: catalogue_complete_def)
  then obtain soulsand where i3: "block_id mc ''soul_sand'' = Inr soulsand" ..
  from cat have "\<exists>i. block_id mc ''water'' = Inr i"
    by (intro block_id_present) (simp add: catalogue_complete_def)
  then obtain water where i4: "block_id mc ''water'' = Inr water" ..
  from cat have "\<exists>i. block_id mc ''lava'' = Inr i"
    by (intro block_id_present) (simp add: catalogue_complete_def)
  then obtain lava where i5: "block_id mc ''lava'' = Inr lava" ..
  from cat have "\<exists>i. block_id mc ''ladder'' = Inr i"
    by (intro block_id_present) (simp add: catalogue_complete_def)
  then obtain ladder where i6: "block_id mc ''ladder'' = Inr ladder" ..
  from cat have "\<exists>i. block_id mc ''vine'' = Inr i"
    by (intro block_id_present) (simp add: catalogue_complete_def)
  then obtain vine where i7: "block_id mc ''vine'' = Inr vine" ..
  note ids = i1 i2 i3 i4 i5 i6 i7
  from cat obtain resource where r: "attributesByName mc ''movementSpeed'' = Some resource"
    by (auto simp: catalogue_complete_def)
  show ?thesis
    apply (rule exI [of _ resource])
    apply (rule exI [of _ "\<lparr>phys = undefined,
                supportedFeatureList = fl,
                blockSlipperiness = slipperiness_table mc slime ice packed,
                slimeBlockId = slime,
                soulsandId = soulsand,
                honeyblockId = block_id_opt mc ''honey_block'',
                webId = web,
                waterIds = [water, block_id_opt mc ''flowing_water''],
                lavaIds = [lava, block_id_opt mc ''flowing_lava''],
                ladderId = ladder,
                trapdoorIds = present_ids mc trapdoor_names,
                vineId = vine,
                waterLike = present_ids mc waterLike_names,
                bubblecolumnId = block_id_opt mc ''bubble_column''\<rparr>"])
    apply (simp add: Physics_def bind_err_def fl s w ids r)
    done
qed


lemma sample_complete: "catalogue_complete (sample_mcData v)"
  by (simp add: catalogue_complete_def sample_mcData_def sample_blocks_def)

lemma sample_known: "known_features (sample_version major r) sample_features"
  by (simp add: known_features_def known_condition_def sample_features_def sample_version_def)

lemma sample_enabled_1_14:
  "spec_enabled version_1_14 sample_features n \<longleftrightarrow>
     n \<in> {''proportionalLiquidGravity'', ''velocityBlocksOnTop'', ''climbUsingJump'',
          ''climableTrapdoor''}"
  by (auto simp: spec_enabled_def spec_condition_def sample_features_def
        version_1_14_def sample_version_def compare_with_def release_order_def)


lemma sample_FeatureList:
  "\<exists>fl. FeatureList sample_features (sample_version major r) = Inr fl \<and>
        (\<forall>n. supportFeature fl n = spec_enabled (sample_version major r) sample_features n)"
proof -
  have "feats_loop (sample_version major r) sample_features {} \<noteq> Inl TypeError \<and>
        feats_loop (sample_version major r) sample_features {} \<noteq> Inl NoLiquidGravity"
    using feats_loop_known [OF sample_known, of major r "{}"] by auto
  then obtain S where s: "feats_loop (sample_version major r) sample_features {} = Inr S"
    by (cases "feats_loop (sample_version major r) sample_features {}")
       (auto intro: error.exhaust)
  then have "FeatureList sample_features (sample_version major r)
               = Inr \<lparr>fl_version = sample_version major r, features = S\<rparr>"
    by (simp add: FeatureList_def)
  moreover have "\<forall>n. supportFeature \<lparr>fl_version = sample_version major r, features = S\<rparr> n
                  = spec_enabled (sample_version major r) sample_features n"
    using feats_loop_spec [OF s] by (simp add: supportFeature_def)
  ultimately show ?thesis by blast
qed



subsection \<open>What the constructor returns\<close>

lemma bind_err_Inr: "bind_err m f = Inr y \<Longrightarrow> \<exists>a. m = Inr a \<and> f a = Inr y"
  by (cases m) (simp_all add: bind_err_def)

lemma Physics_fields:
  assumes "Physics feats mc = Inr en"
  shows "\<exists>fl resource wg lg.
           FeatureList feats (version mc) = Inr fl \<and>
           supportedFeatureList en = fl \<and>
           phys en = physics_constants resource wg lg \<and>
           block_id_or mc ''slime_block'' ''slime'' = Inr (slimeBlockId en) \<and>
           block_id mc ''soul_sand'' = Inr (soulsandId en) \<and>
           honeyblockId en = block_id_opt mc ''honey_block'' \<and>
           block_id_or mc ''cobweb'' ''web'' = Inr (webId en) \<and>
           block_id mc ''ladder'' = Inr (ladderId en) \<and>
           block_id mc ''vine'' = Inr (vineId en) \<and>
           trapdoorIds en = present_ids mc trapdoor_names \<and>
           waterLike en = present_ids mc waterLike_names \<and>
           bubblecolumnId en = block_id_opt mc ''bubble_column'' \<and>
           (\<exists>water. block_id mc ''water'' = Inr water \<and>
              waterIds en = [water, block_id_opt mc ''flowing_water'']) \<and>
           (\<exists>lava. block_id mc ''lava'' = Inr lava \<and>
              lavaIds en = [lava, block_id_opt mc ''flowing_lava'']) \<and>
           (\<exists>ice packed. block_id mc ''ice'' = Inr ice \<and> block_id mc ''packed_ice'' = Inr packed \<and>
              blockSlipperiness en = slipperiness_table mc (slimeBlockId en) ice packed)"
  using assms unfolding Physics_def bind_err_def
  by (auto split: sum.splits option.splits if_splits) blast+

lemma Physics_constants:
  assumes "Physics feats mc = Inr en"
  shows "gravity (phys en) = 0.08 \<and> airdrag (phys en) = fround_0_98 \<and>
         sneakSpeed (phys en) = 0.3 \<and> stepHeight (phys en) = 0.6 \<and>
         negligeableVelocity (phys en) = 0.003 \<and> playerHalfWidth (phys en) = 0.3 \<and>
         playerHeight (phys en) = 1.8 \<and> airborneInertia (phys en) = 0.91 \<and>
         airborneAcceleration (phys en) = 0.02 \<and> defaultSlipperiness (phys en) = 0.6 \<and>
         outOfLiquidImpulse (phys en) = 0.3 \<and> autojumpCooldown (phys en) = 10 \<and>
         slowFallingFactor (phys en) = 0.125 \<and> ladderMaxSpeed (phys en) = 0.15 \<and>
         ladderClimbSpeed (phys en) = 0.2 \<and> honeyblockJumpSpeed (phys en) = 0.4 \<and>
         soulsandSpeed (phys en) = 0.4 \<and> honeyblockSpeed (phys en) = 0.4"
proof -
  from Physics_fields [OF assms] obtain resource wg lg where
    "phys en = physics_constants resource wg lg" by blast
  then show ?thesis by (simp add: physics_constants_def)
qed

lemma FeatureList_loop:
  "FeatureList feats v = Inr fl \<Longrightarrow> feats_loop v feats {} = Inr (features fl)"
  by (auto simp: FeatureList_def split: sum.splits)

lemma Physics_supports:
  assumes "Physics feats mc = Inr en" and "known_features (version mc) feats"
  shows "supports en n = spec_enabled (version mc) feats n"
proof -
  from Physics_fields [OF assms(1)] have "FeatureList feats (version mc) = Inr (supportedFeatureList en)"
    by blast
  then have s: "feats_loop (version mc) feats {} = Inr (features (supportedFeatureList en))"
    by (rule FeatureList_loop)
  from feats_loop_spec [OF s, of n] show ?thesis
    by (simp add: supports_def supportFeature_def)
qed

lemma sample_Physics_1_14:
  "\<exists>en. Physics sample_features (sample_mcData version_1_14) = Inr en"
proof -
  from sample_FeatureList [of "''1.14''" 14] obtain fl1 where
    f1: "FeatureList sample_features (version (sample_mcData version_1_14)) = Inr fl1" and
    s1: "\<forall>n. supportFeature fl1 n = spec_enabled version_1_14 sample_features n"
    by (auto simp: version_1_14_def sample_mcData_def)
  from Physics_complete [OF f1 sample_complete] s1 show ?thesis
    by (auto simp: sample_enabled_1_14)
qed

lemma sample_env_1_14:
  assumes "Physics sample_features (sample_mcData version_1_14) = Inr en"
  shows "(\<forall>n. supports en n \<longleftrightarrow>
            n \<in> {''proportionalLiquidGravity'', ''velocityBlocksOnTop'', ''climbUsingJump'',
                 ''climableTrapdoor''}) \<and>
         slimeBlockId en = 372 \<and> soulsandId en = 192 \<and> honeyblockId en = - 1 \<and>
         webId en = 93 \<and> ladderId en = 160 \<and> vineId en = 254 \<and>
         trapdoorIds en = {374, 222} \<and> waterLike en = {546, 599} \<and>
         bubblecolumnId en = 599 \<and> waterIds en = [26, - 1] \<and> lavaIds en = [27, - 1]"
proof -
  have k: "known_features (version (sample_mcData version_1_14)) sample_features"
    using sample_known [of "''1.14''" 14] by (simp add: sample_mcData_def version_1_14_def)
  have v: "version (sample_mcData version_1_14) = version_1_14"
    by (simp add: sample_mcData_def)
  have sup: "\<forall>n. supports en n \<longleftrightarrow>
            n \<in> {''proportionalLiquidGravity'', ''velocityBlocksOnTop'', ''climbUsingJump'',
                 ''climableTrapdoor''}"
    using Physics_supports [OF assms k] unfolding v by (simp add: sample_enabled_1_14)
  from Physics_fields [OF assms] have
    "slimeBlockId en = 372 \<and> soulsandId en = 192 \<and> honeyblockId en = - 1 \<and>
         webId en = 93 \<and> ladderId en = 160 \<and> vineId en = 254 \<and>
         trapdoorIds en = {374, 222} \<and> waterLike en = {546, 599} \<and>
         bubblecolumnId en = 599 \<and> waterIds en = [26, - 1] \<and> lavaIds en = [27, - 1]"
    by (auto simp: block_id_def block_id_or_def block_id_opt_def present_ids_def
          trapdoor_names_def waterLike_names_def sample_mcData_def sample_blocks_def
          List.map_filter_def)
  with sup show ?thesis by blast
qed

subsection \<open>A trapdoor over nothing\<close>

lemma for_int_step: "c \<le> hi \<Longrightarrow> for_int c hi body s = for_int (c + 1) hi body (body c s)"
  by (simp add: for_int.simps [of c])

lemma for_int_done: "hi < c \<Longrightarrow> for_int c hi body s = s"
  by (simp add: for_int.simps [of c])

lemma floor_minus_one_real: "\<lfloor>- 1 :: real\<rfloor> = - 1"
  using floor_of_int [of "- 1", where ?'a = real] by simp

lemma isOnLadder_null_below:
  assumes "getBlock w p = Some b" "type b \<noteq> ladderId en" "type b \<noteq> vineId en"
    "supports en ''climableTrapdoor''" "type b \<in> trapdoorIds en"
    "getBlock w (Vec3_offset p 0 (- 1) 0) = None"
  shows "isOnLadder en w p = Inl TypeError"
  using assms by (simp add: isOnLadder_def)

lemma trapdoor_isOnLadder:
  assumes "Physics sample_features (sample_mcData version_1_14) = Inr en"
  shows "isOnLadder en trapdoor_world (pos trapdoor_entity) = Inl TypeError"
proof (rule isOnLadder_null_below [where b = trapdoor_block])
  note env = sample_env_1_14 [OF assms]
  show "getBlock trapdoor_world (pos trapdoor_entity) = Some trapdoor_block"
    by (simp add: trapdoor_world_def trapdoor_entity_def falling_entity_def)
  show "type trapdoor_block \<noteq> ladderId en" using env by (simp add: trapdoor_block_def)
  show "type trapdoor_block \<noteq> vineId en" using env by (simp add: trapdoor_block_def)
  show "supports en ''climableTrapdoor''" using env by simp
  show "type trapdoor_block \<in> trapdoorIds en" using env by (simp add: trapdoor_block_def)
  show "getBlock trapdoor_world (Vec3_offset (pos trapdoor_entity) 0 (- 1) 0) = None"
    by (simp add: trapdoor_world_def trapdoor_entity_def Vec3_offset_def floor_minus_one_real falling_entity_def)
qed

lemma trapdoor_water:
  assumes "Physics sample_features (sample_mcData version_1_14) = Inr en"
  shows "getWaterInBB en trapdoor_world (waterBB en (pos trapdoor_entity)) = []"
  by (simp add: sample_env_1_14 [OF assms] Physics_constants [OF assms] Let_def waterBB_def falling_entity_def getWaterInBB_def getPlayerBB_def AABB_contract_def AABB_offset_def
        trapdoor_entity_def for_int_step for_int_done trapdoor_world_def cursor_def
        is_water_block_def trapdoor_block_def)

lemma trapdoor_lava:
  assumes "Physics sample_features (sample_mcData version_1_14) = Inr en"
  shows "isMaterialInBB trapdoor_world (lavaBB en (pos trapdoor_entity)) (lavaIds en) = False"
  by (simp add: sample_env_1_14 [OF assms] Physics_constants [OF assms] Let_def lavaBB_def falling_entity_def isMaterialInBB_def getPlayerBB_def AABB_contract_def AABB_offset_def
        trapdoor_entity_def for_int_step for_int_done trapdoor_world_def cursor_def
        trapdoor_block_def)

lemma trapdoor_simulatePlayer:
  assumes "Physics sample_features (sample_mcData version_1_14) = Inr en"
  shows "simulatePlayer en trapdoor_entity trapdoor_world = Inl TypeError"
proof -
  note c = Physics_constants [OF assms]
  have w: "isInWaterApplyCurrent en trapdoor_world (waterBB en (pos trapdoor_entity))
             \<lparr>vec_x = 0, vec_y = 0, vec_z = 0\<rparr> = (False, \<lparr>vec_x = 0, vec_y = 0, vec_z = 0\<rparr>)"
    by (simp add: isInWaterApplyCurrent_def trapdoor_water [OF assms] norm3_def)
  have under: "getBlock trapdoor_world (Vec3_offset (pos trapdoor_entity) 0 (- 1) 0) = None"
    by (simp add: trapdoor_world_def trapdoor_entity_def Vec3_offset_def floor_minus_one_real
          falling_entity_def)
  have v: "vel trapdoor_entity = \<lparr>vec_x = 0, vec_y = 0, vec_z = 0\<rparr>"
    "control trapdoor_entity = no_control" "jumpQueued trapdoor_entity = False"
    "elytraFlying trapdoor_entity = False" "fireworkRocketDuration trapdoor_entity = 0"
    "slowFalling trapdoor_entity = 0" "levitation trapdoor_entity = 0"
    by (simp_all add: trapdoor_entity_def falling_entity_def)
  show ?thesis
    by (simp add: simulatePlayer_def update_liquid_def strafe_input_def forward_input_def
          update_elytra_def Let_def w trapdoor_lava [OF assms] v c dead_zone_def
          handle_jump_def no_control_def firework_def moveEntityWithHeading_def
          gravityMultiplier_def normal_move_def normal_params_def air_speed_def under
          applyHeading_def trapdoor_isOnLadder [OF assms] bind_err_def)
qed

text \<open>
  Claim C2 asks that no read of a null block fails during a tick. On the sample catalogue
  of release 1.14 (feature \<open>climableTrapdoor\<close> enabled), with an open trapdoor at the
  entity's position and no block below it, \<open>isOnLadder\<close> throws a TypeError, and so does
  the whole tick.
\<close>

theorem isOnLadder_trapdoor_over_null:
  "\<exists>en. Physics sample_features (sample_mcData version_1_14) = Inr en \<and>
        getBlock trapdoor_world (pos trapdoor_entity) = Some trapdoor_block \<and>
        getBlock trapdoor_world (Vec3_offset (pos trapdoor_entity) 0 (- 1) 0) = None \<and>
        isOnLadder en trapdoor_world (pos trapdoor_entity) = Inl TypeError \<and>
        simulatePlayer en trapdoor_entity trapdoor_world = Inl TypeError"
proof -
  from sample_Physics_1_14 obtain en where
    en: "Physics sample_features (sample_mcData version_1_14) = Inr en" ..
  have "getBlock trapdoor_world (pos trapdoor_entity) = Some trapdoor_block"
    by (simp add: trapdoor_world_def trapdoor_entity_def falling_entity_def)
  moreover have "getBlock trapdoor_world (Vec3_offset (pos trapdoor_entity) 0 (- 1) 0) = None"
    by (simp add: trapdoor_world_def trapdoor_entity_def Vec3_offset_def floor_minus_one_real
          falling_entity_def)
  ultimately show ?thesis
    using en trapdoor_isOnLadder [OF en] trapdoor_simulatePlayer [OF en] by blast
qed

lemma env_1_14_Physics: "Physics sample_features (sample_mcData version_1_14) = Inr env_1_14"
proof -
  have c: "checkVersion version_1_14 ''< 1.13'' = Inr False"
    "checkVersion version_1_14 ''>= 1.13'' = Inr True"
    "checkVersion version_1_14 ''>= 1.14.1'' = Inr False"
    "checkVersion version_1_14 ''< 1.14.1'' = Inr True"
    "checkVersion version_1_14 ''>= 1.14'' = Inr True"
    "checkVersion version_1_14 ''>= 1.12'' = Inr True"
    by (simp_all add: checkVersion_def version_1_14_def sample_version_def compare_with_def
          release_order_def)
  have fl: "FeatureList sample_features version_1_14 =
          Inr \<lparr>fl_version = version_1_14,
         features = {''climableTrapdoor'', ''climbUsingJump'', ''velocityBlocksOnTop'',
                     ''proportionalLiquidGravity''}\<rparr>"
    by (simp add: FeatureList_def sample_features_def c)
  have v: "version (sample_mcData version_1_14) = version_1_14"
    by (simp add: sample_mcData_def)
  have a: "attributesByName (sample_mcData version_1_14) ''movementSpeed''
             = Some ''minecraft:generic.movement_speed''"
    by (simp add: sample_mcData_def)
  have b: "blocksByName (sample_mcData version_1_14) ''slime_block'' = Some 372"
    "blocksByName (sample_mcData version_1_14) ''ice'' = Some 182"
    "blocksByName (sample_mcData version_1_14) ''packed_ice'' = Some 401"
    "blocksByName (sample_mcData version_1_14) ''soul_sand'' = Some 192"
    "blocksByName (sample_mcData version_1_14) ''cobweb'' = Some 93"
    "blocksByName (sample_mcData version_1_14) ''water'' = Some 26"
    "blocksByName (sample_mcData version_1_14) ''lava'' = Some 27"
    "blocksByName (sample_mcData version_1_14) ''ladder'' = Some 160"
    "blocksByName (sample_mcData version_1_14) ''vine'' = Some 254"
    "blocksByName (sample_mcData version_1_14) ''honey_block'' = None"
    "blocksByName (sample_mcData version_1_14) ''flowing_water'' = None"
    "blocksByName (sample_mcData version_1_14) ''flowing_lava'' = None"
    "blocksByName (sample_mcData version_1_14) ''bubble_column'' = Some 599"
    by (simp_all add: sample_mcData_def sample_blocks_def)
  show ?thesis
    by (simp add: Physics_def v fl a b bind_err_def block_id_or_def block_id_def
          supportFeature_def env_1_14_def block_id_opt_def)
qed


subsection \<open>Loops keep what their bodies keep\<close>

lemma fold_invariant:
  "(\<And>c s. P s \<Longrightarrow> P (body c s)) \<Longrightarrow> P s \<Longrightarrow> P (fold body cs s)"
  by (induction cs arbitrary: s) simp_all

lemma for_int_invariant:
  "(\<And>c s. P s \<Longrightarrow> P (body c s)) \<Longrightarrow> P s \<Longrightarrow> P (for_int lo hi body s)"
  by (simp add: for_int_fold fold_invariant)

lemma lattice_invariant:
  assumes "\<And>cy cz cx s. P s \<Longrightarrow> P (body cy cz cx s)" and "P s"
  shows "P (for_int ylo yhi (\<lambda>cy. for_int zlo zhi (\<lambda>cz. for_int xlo xhi (\<lambda>cx. body cy cz cx))) s)"
proof (rule for_int_invariant [where P = P])
  show "P s" by (rule assms(2))
next
  fix cy s1
  assume s1: "P s1"
  show "P (for_int zlo zhi (\<lambda>cz. for_int xlo xhi (\<lambda>cx. body cy cz cx)) s1)"
  proof (rule for_int_invariant [where P = P])
    show "P s1" by (rule s1)
  next
    fix cz s2
    assume s2: "P s2"
    show "P (for_int xlo xhi (\<lambda>cx. body cy cz cx) s2)"
    proof (rule for_int_invariant [where P = P])
      show "P s2" by (rule s2)
    next
      fix cx s3
      assume "P s3"
      then show "P (body cy cz cx s3)" by (rule assms(1))
    qed
  qed
qed

subsection \<open>moveEntity\<close>

lemma scale_xz_simps:
  "vec_x (vel (scale_xz k e)) = vec_x (vel e) * k"
  "vec_z (vel (scale_xz k e)) = vec_z (vel e) * k"
  "vec_y (vel (scale_xz k e)) = vec_y (vel e)"
  "pos (scale_xz k e) = pos e"
  "jumpTicks (scale_xz k e) = jumpTicks e"
  by (simp_all add: scale_xz_def)

lemma block_collision_x0:
  "vec_x (vel e) = 0 \<Longrightarrow> vec_x (vel (block_collision en w cy cz cx e)) = 0"
  by (simp add: block_collision_def Let_def scale_xz_simps split: option.splits)

lemma block_collision_z0:
  "vec_z (vel e) = 0 \<Longrightarrow> vec_z (vel (block_collision en w cy cz cx e)) = 0"
  by (simp add: block_collision_def Let_def scale_xz_simps split: option.splits)

lemma block_collision_pos: "pos (block_collision en w cy cz cx e) = pos e"
  by (simp add: block_collision_def Let_def scale_xz_simps split: option.splits)

lemma block_collision_jumpTicks: "jumpTicks (block_collision en w cy cz cx e) = jumpTicks e"
  by (simp add: block_collision_def Let_def scale_xz_simps split: option.splits)

lemma block_collision_y:
  "\<forall>p b. getBlock w p = Some b \<longrightarrow> type b \<noteq> bubblecolumnId en \<Longrightarrow>
   vec_y (vel (block_collision en w cy cz cx e)) = vec_y (vel e)"
  by (auto simp: block_collision_def Let_def scale_xz_simps split: option.splits)

lemma block_collisions_x0:
  "vec_x (vel e) = 0 \<Longrightarrow> vec_x (vel (block_collisions en w bb e)) = 0"
  unfolding block_collisions_def Let_def
  by (rule lattice_invariant [where P = "\<lambda>s. vec_x (vel s) = 0"]) (simp_all add: block_collision_x0)

lemma block_collisions_z0:
  "vec_z (vel e) = 0 \<Longrightarrow> vec_z (vel (block_collisions en w bb e)) = 0"
  unfolding block_collisions_def Let_def
  by (rule lattice_invariant [where P = "\<lambda>s. vec_z (vel s) = 0"]) (simp_all add: block_collision_z0)

lemma block_collisions_pos: "pos (block_collisions en w bb e) = pos e"
  unfolding block_collisions_def Let_def
  by (rule lattice_invariant [where P = "\<lambda>s. pos s = pos e"]) (simp_all add: block_collision_pos)

lemma block_collisions_jumpTicks: "jumpTicks (block_collisions en w bb e) = jumpTicks e"
  unfolding block_collisions_def Let_def
  by (rule lattice_invariant [where P = "\<lambda>s. jumpTicks s = jumpTicks e"])
     (simp_all add: block_collision_jumpTicks)

lemma block_collisions_y:
  "\<forall>p b. getBlock w p = Some b \<longrightarrow> type b \<noteq> bubblecolumnId en \<Longrightarrow>
   vec_y (vel (block_collisions en w bb e)) = vec_y (vel e)"
  unfolding block_collisions_def Let_def
  by (rule lattice_invariant [where P = "\<lambda>s. vec_y (vel s) = vec_y (vel e)"])
     (simp_all add: block_collision_y)

lemma blocks_on_top_simps:
  "vec_x (vel e) = 0 \<Longrightarrow> vec_x (vel (blocks_on_top en w e)) = 0"
  "vec_z (vel e) = 0 \<Longrightarrow> vec_z (vel (blocks_on_top en w e)) = 0"
  "vec_y (vel (blocks_on_top en w e)) = vec_y (vel e)"
  "pos (blocks_on_top en w e) = pos e"
  "jumpTicks (blocks_on_top en w e) = jumpTicks e"
  by (simp_all add: blocks_on_top_def scale_xz_simps split: option.splits)

lemma update_flags_vel:
  "vec_x (vel (update_flags en e w r)) = (if res_dx r \<noteq> oldVelX r then 0 else vec_x (vel e))"
  "vec_z (vel (update_flags en e w r)) = (if res_dz r \<noteq> oldVelZ r then 0 else vec_z (vel e))"
  "vec_y (vel (update_flags en e w r)) =
     (if res_dy r \<noteq> oldVelY r
      then (if (case getBlock w (Vec3_offset (setPositionToBB en (playerBB r)) 0 (- 0.2) 0) of
                  None \<Rightarrow> False | Some b \<Rightarrow> type b = slimeBlockId en) \<and> \<not> sneak (control e)
            then - vec_y (vel e) else 0)
      else vec_y (vel e))"
  "pos (update_flags en e w r) = setPositionToBB en (playerBB r)"
  "jumpTicks (update_flags en e w r) = jumpTicks e"
  "isCollidedHorizontally (update_flags en e w r) = (res_dx r \<noteq> oldVelX r \<or> res_dz r \<noteq> oldVelZ r)"
  "isCollidedVertically (update_flags en e w r) = (res_dy r \<noteq> oldVelY r)"
  "onGround (update_flags en e w r) = (res_dy r \<noteq> oldVelY r \<and> oldVelY r < 0)"
  by (simp_all add: update_flags_def Let_def)

lemma enter_web_simps:
  "enter_web e dx dy dz = (e1, dx1, dy1, dz1) \<Longrightarrow>
     control e1 = control e \<and> jumpTicks e1 = jumpTicks e \<and> pos e1 = pos e \<and>
     onGround e1 = onGround e"
  by (auto simp: enter_web_def split: if_splits)

subsection \<open>The empty world\<close>

lemma getSurroundingBBs_empty: "getSurroundingBBs empty_world q = []"
  by (simp add: getSurroundingBBs_concat block_boxes_def empty_world_def)

lemma block_collisions_empty: "block_collisions en empty_world bb e = e"
  unfolding block_collisions_def Let_def
  by (rule lattice_invariant [where P = "\<lambda>s. s = e"])
     (simp_all add: block_collision_def empty_world_def)

lemma getWaterInBB_empty: "getWaterInBB en empty_world bb = []"
  unfolding getWaterInBB_def
  by (rule lattice_invariant [where P = "\<lambda>s. s = []"]) (simp_all add: empty_world_def)

lemma isMaterialInBB_empty: "isMaterialInBB empty_world bb ts = False"
  unfolding isMaterialInBB_def
  by (rule lattice_invariant [where P = "\<lambda>s. s = False"]) (simp_all add: empty_world_def)

lemma sweep_Nil: "sweepX [] bb d = d" "sweepY [] bb d = d" "sweepZ [] bb d = d"
  by (simp_all add: sweepX_def sweepY_def sweepZ_def)

lemma resolve_empty:
  "\<not> (sneak (control e) \<and> onGround e) \<Longrightarrow>
   resolve en e empty_world dx dy dz =
     \<lparr>res_dx = dx, res_dy = dy, res_dz = dz, oldVelX = dx, oldVelY = dy, oldVelZ = dz,
      playerBB = AABB_offset (AABB_offset (AABB_offset (getPlayerBB en (pos e)) 0 dy 0) dx 0 0)
                   0 0 dz\<rparr>"
proof -
  assume "\<not> (sneak (control e) \<and> onGround e)"
  then have g: "sneak_guard en e empty_world dx dz = (dx, dz, dx, dz)"
    unfolding sneak_guard_def by (rule if_not_P)
  show ?thesis
    by (simp add: resolve_def g getSurroundingBBs_empty sweep_Nil Let_def)
qed

lemma blocks_on_top_empty: "blocks_on_top en empty_world e = e"
  by (simp add: blocks_on_top_def empty_world_def)

lemma moveEntity_empty:
  assumes "\<not> isInWeb e" and "\<not> (sneak (control e) \<and> onGround e)"
  shows "moveEntity en e empty_world dx dy dz =
     e\<lparr>pos := setPositionToBB en
                (AABB_offset (AABB_offset (AABB_offset (getPlayerBB en (pos e)) 0 dy 0) dx 0 0)
                   0 0 dz),
       isCollidedHorizontally := False, isCollidedVertically := False, onGround := False\<rparr>"
proof -
  have w: "enter_web e dx dy dz = (e, dx, dy, dz)"
    using assms(1) by (simp add: enter_web_def)
  show ?thesis
    by (simp add: moveEntity_def w resolve_empty [OF assms(2)] Let_def update_flags_def
          block_collisions_empty blocks_on_top_empty)
qed

lemma falling_fields:
  "pos falling_entity = \<lparr>vec_x = 0, vec_y = 10, vec_z = 0\<rparr>"
  "vel falling_entity = \<lparr>vec_x = 0, vec_y = 0, vec_z = 0\<rparr>"
  "control falling_entity = no_control"
  "isInWeb falling_entity = False" "onGround falling_entity = False"
  "jumpQueued falling_entity = False" "elytraFlying falling_entity = False"
  "fireworkRocketDuration falling_entity = 0" "slowFalling falling_entity = 0"
  "levitation falling_entity = 0" "jumpTicks falling_entity = 0"
  "isInWater falling_entity = False" "isInLava falling_entity = False"
  "isCollidedHorizontally falling_entity = False" "isCollidedVertically falling_entity = False"
  by (simp_all add: falling_entity_def)

text \<open>
  Claim C3 as stated fails: in the empty world an entity at rest is moved by
  \<open>(0, 0, 0)\<close>; the X delta is not clamped, and \<open>vel.x\<close> is zero all the same.
\<close>

theorem moveEntity_zero_without_clamp:
  "\<not> (vec_x (vel (moveEntity env_1_14 falling_entity empty_world 0 0 0)) = 0 \<longleftrightarrow>
       res_dx (resolve env_1_14 falling_entity empty_world 0 0 0)
         \<noteq> oldVelX (resolve env_1_14 falling_entity empty_world 0 0 0))"
  by (simp add: moveEntity_empty resolve_empty falling_fields no_control_def)

lemma env_1_14_fields:
  "playerHalfWidth (phys env_1_14) = 0.3" "playerHeight (phys env_1_14) = 1.8"
  "stepHeight (phys env_1_14) = 0.6" "slimeBlockId env_1_14 = 372"
  "bubblecolumnId env_1_14 = 599" "soulsandId env_1_14 = 192" "honeyblockId env_1_14 = - 1"
  "webId env_1_14 = 93" "ladderId env_1_14 = 160" "vineId env_1_14 = 254"
  "waterIds env_1_14 = [26, - 1]" "lavaIds env_1_14 = [27, - 1]"
  "supports env_1_14 ''velocityBlocksOnTop''" "\<not> supports env_1_14 ''velocityBlocksOnCollision''"
  "soulsandSpeed (phys env_1_14) = 0.4" "honeyblockSpeed (phys env_1_14) = 0.4"
  by (simp_all add: env_1_14_def physics_constants_def supports_def supportFeature_def)

lemma rising_fields:
  "pos rising_entity = \<lparr>vec_x = 0.5, vec_y = 64, vec_z = 0.5\<rparr>"
  "vel rising_entity = \<lparr>vec_x = 0.5, vec_y = 0.5, vec_z = 0.5\<rparr>"
  "control rising_entity = no_control"
  "isInWeb rising_entity = False" "onGround rising_entity = False"
  by (simp_all add: rising_entity_def falling_entity_def)




lemma sneak_guard_off:
  "\<not> (sneak (control e) \<and> onGround e) \<Longrightarrow> sneak_guard en e w dx dz = (dx, dz, dx, dz)"
  unfolding sneak_guard_def by (rule if_not_P)

lemma resolve_flat:
  assumes "sneak_guard en e w dx0 dz0 = (dx0, dz0, dx0, dz0)"
    and "getPlayerBB en (pos e) = B0"
    and "sweepY (getSurroundingBBs w (AABB_extend B0 dx0 dy0 dz0)) B0 dy0 = dy"
    and "sweepX (getSurroundingBBs w (AABB_extend B0 dx0 dy0 dz0)) (AABB_offset B0 0 dy 0) dx0 = dx"
    and "sweepZ (getSurroundingBBs w (AABB_extend B0 dx0 dy0 dz0))
           (AABB_offset (AABB_offset B0 0 dy 0) dx 0 0) dz0 = dz"
    and "\<not> (stepHeight (phys en) > 0 \<and> (onGround e \<or> (dy \<noteq> dy0 \<and> dy0 < 0)) \<and>
            (dx \<noteq> dx0 \<or> dz \<noteq> dz0))"
  shows "resolve en e w dx0 dy0 dz0 =
           \<lparr>res_dx = dx, res_dy = dy, res_dz = dz, oldVelX = dx0, oldVelY = dy0, oldVelZ = dz0,
            playerBB = AABB_offset (AABB_offset (AABB_offset B0 0 dy 0) dx 0 0) 0 0 dz\<rparr>"
proof -
  have "resolve en e w dx0 dy0 dz0 =
      (let r = \<lparr>res_dx = dx, res_dy = dy, res_dz = dz, oldVelX = dx0, oldVelY = dy0, oldVelZ = dz0,
            playerBB = AABB_offset (AABB_offset (AABB_offset B0 0 dy 0) dx 0 0) 0 0 dz\<rparr>
       in if stepHeight (phys en) > 0 \<and> (onGround e \<or> (dy \<noteq> dy0 \<and> dy0 < 0)) \<and>
            (dx \<noteq> dx0 \<or> dz \<noteq> dz0)
          then step_up en w B0 r else r)"
    unfolding resolve_def assms(1) prod.case Let_def assms(2) assms(3) assms(4) assms(5) ..
  with assms(6) show ?thesis by (simp only: Let_def if_False)
qed

lemma corner_resolve:
  "resolve env_1_14 rising_entity corner_world 0.5 0.5 0.5 =
     \<lparr>res_dx = 0.2, res_dy = 0.2, res_dz = 0.2, oldVelX = 0.5, oldVelY = 0.5, oldVelZ = 0.5,
      playerBB = AABB_offset (AABB_offset (AABB_offset
          \<lparr>minX = 0.2, minY = 64, minZ = 0.2, maxX = 0.8, maxY = 65.8, maxZ = 0.8\<rparr>
             0 0.2 0) 0.2 0 0) 0 0 0.2\<rparr>"
proof (rule resolve_flat)
  show "sneak_guard env_1_14 rising_entity corner_world 0.5 0.5 = (0.5, 0.5, 0.5, 0.5)"
    by (rule sneak_guard_off) (simp add: rising_fields)
  show "getPlayerBB env_1_14 (pos rising_entity) =
          \<lparr>minX = 0.2, minY = 64, minZ = 0.2, maxX = 0.8, maxY = 65.8, maxZ = 0.8\<rparr>"
    by (simp add: getPlayerBB_def env_1_14_fields rising_fields AABB_offset_def)
  show "sweepY (getSurroundingBBs corner_world
           (AABB_extend \<lparr>minX = 0.2, minY = 64, minZ = 0.2, maxX = 0.8, maxY = 65.8, maxZ = 0.8\<rparr>
              0.5 0.5 0.5))
          \<lparr>minX = 0.2, minY = 64, minZ = 0.2, maxX = 0.8, maxY = 65.8, maxZ = 0.8\<rparr> 0.5 = 0.2"
    by (simp add: getSurroundingBBs_concat upto_0_1 AABB_extend_def
        block_boxes_def corner_world_def cube_at_def cursor_def floored_def shape_box_def
        AABB_offset_def sweepY_def computeOffsetY_def)
  show "sweepX (getSurroundingBBs corner_world
           (AABB_extend \<lparr>minX = 0.2, minY = 64, minZ = 0.2, maxX = 0.8, maxY = 65.8, maxZ = 0.8\<rparr>
              0.5 0.5 0.5))
          (AABB_offset \<lparr>minX = 0.2, minY = 64, minZ = 0.2, maxX = 0.8, maxY = 65.8, maxZ = 0.8\<rparr>
             0 0.2 0) 0.5 = 0.2"
    by (simp add: getSurroundingBBs_concat upto_0_1 AABB_extend_def
        block_boxes_def corner_world_def cube_at_def cursor_def floored_def shape_box_def
        AABB_offset_def sweepX_def computeOffsetX_def)
  show "sweepZ (getSurroundingBBs corner_world
           (AABB_extend \<lparr>minX = 0.2, minY = 64, minZ = 0.2, maxX = 0.8, maxY = 65.8, maxZ = 0.8\<rparr>
              0.5 0.5 0.5))
          (AABB_offset (AABB_offset
             \<lparr>minX = 0.2, minY = 64, minZ = 0.2, maxX = 0.8, maxY = 65.8, maxZ = 0.8\<rparr>
             0 0.2 0) 0.2 0 0) 0.5 = 0.2"
    by (simp add: getSurroundingBBs_concat upto_0_1 AABB_extend_def
        block_boxes_def corner_world_def cube_at_def cursor_def floored_def shape_box_def
        AABB_offset_def sweepZ_def computeOffsetZ_def)
  show "\<not> (stepHeight (phys env_1_14) > 0 \<and>
            (onGround rising_entity \<or> ((0.2 :: real) \<noteq> 0.5 \<and> (0.5 :: real) < 0)) \<and>
            ((0.2 :: real) \<noteq> 0.5 \<or> (0.2 :: real) \<noteq> 0.5))"
    by (simp add: rising_fields)
qed


lemma corner_no_bubble:
  "\<forall>p b. getBlock corner_world p = Some b \<longrightarrow> type b \<noteq> bubblecolumnId env_1_14"
  by (simp add: corner_world_def cube_at_def env_1_14_fields)

lemma resolve_cong:
  assumes "control e' = control e" and "onGround e' = onGround e" and "pos e' = pos e"
  shows "resolve en e' w dx dy dz = resolve en e w dx dy dz"
  unfolding resolve_def sneak_guard_def assms ..

lemma oldVelY_if:
  "oldVelY (if c then r else r\<lparr>res_dx := a, res_dy := b, res_dz := d, playerBB := p\<rparr>) = oldVelY r"
  "oldVelX (if c then r else r\<lparr>res_dx := a, res_dy := b, res_dz := d, playerBB := p\<rparr>) = oldVelX r"
  "oldVelZ (if c then r else r\<lparr>res_dx := a, res_dy := b, res_dz := d, playerBB := p\<rparr>) = oldVelZ r"
  by simp_all

lemma step_up_oldVel:
  "oldVelY (step_up en w bb r) = oldVelY r"
  "oldVelX (step_up en w bb r) = oldVelX r"
  "oldVelZ (step_up en w bb r) = oldVelZ r"
  unfolding step_up_def Let_def by (rule oldVelY_if)+

lemma resolve_oldVelY: "oldVelY (resolve en e w dx dy dz) = dy"
proof -
  obtain a b c d where g: "sneak_guard en e w dx dz = (a, b, c, d)"
    by (cases "sneak_guard en e w dx dz") auto
  show ?thesis unfolding resolve_def g prod.case Let_def
    by (simp only: if_distrib [of oldVelY] step_up_oldVel resolution.simps if_cancel)
qed

lemma resolve_oldVelXZ:
  assumes "\<not> (sneak (control e) \<and> onGround e)"
  shows "oldVelX (resolve en e w dx dy dz) = dx" "oldVelZ (resolve en e w dx dy dz) = dz"
  unfolding resolve_def sneak_guard_off [OF assms] prod.case Let_def
  by (simp_all only: if_distrib [of oldVelX] if_distrib [of oldVelZ] step_up_oldVel
        resolution.simps if_cancel)

lemma scale_xz_flags:
  "isCollidedHorizontally (scale_xz k e) = isCollidedHorizontally e"
  "isCollidedVertically (scale_xz k e) = isCollidedVertically e"
  by (simp_all add: scale_xz_def)

lemma block_collision_flags:
  "isCollidedHorizontally (block_collision en w cy cz cx e) = isCollidedHorizontally e"
  "isCollidedVertically (block_collision en w cy cz cx e) = isCollidedVertically e"
  by (simp_all add: block_collision_def Let_def scale_xz_flags split: option.splits)

lemma block_collisions_flags:
  "isCollidedHorizontally (block_collisions en w bb e) = isCollidedHorizontally e"
  "isCollidedVertically (block_collisions en w bb e) = isCollidedVertically e"
  unfolding block_collisions_def Let_def
  by (rule lattice_invariant [where P = "\<lambda>s. isCollidedHorizontally s = isCollidedHorizontally e"],
      simp_all add: block_collision_flags,
      rule lattice_invariant [where P = "\<lambda>s. isCollidedVertically s = isCollidedVertically e"],
      simp_all add: block_collision_flags)

lemma blocks_on_top_flags:
  "isCollidedHorizontally (blocks_on_top en w e) = isCollidedHorizontally e"
  "isCollidedVertically (blocks_on_top en w e) = isCollidedVertically e"
  by (simp_all add: blocks_on_top_def scale_xz_flags split: option.splits)

lemma block_collision_zero_iff:
  assumes "soulsandSpeed (phys en) \<noteq> 0" and "honeyblockSpeed (phys en) \<noteq> 0"
  shows "(vec_x (vel (block_collision en w cy cz cx e)) = 0) = (vec_x (vel e) = 0)"
    and "(vec_z (vel (block_collision en w cy cz cx e)) = 0) = (vec_z (vel e) = 0)"
  using assms by (simp_all add: block_collision_def Let_def scale_xz_simps split: option.splits)

lemma block_collisions_zero_iff:
  assumes "soulsandSpeed (phys en) \<noteq> 0" and "honeyblockSpeed (phys en) \<noteq> 0"
  shows "(vec_x (vel (block_collisions en w bb e)) = 0) = (vec_x (vel e) = 0)"
    and "(vec_z (vel (block_collisions en w bb e)) = 0) = (vec_z (vel e) = 0)"
  unfolding block_collisions_def Let_def
  by (rule lattice_invariant [where P = "\<lambda>s. (vec_x (vel s) = 0) = (vec_x (vel e) = 0)"],
      simp_all add: block_collision_zero_iff [OF assms],
      rule lattice_invariant [where P = "\<lambda>s. (vec_z (vel s) = 0) = (vec_z (vel e) = 0)"],
      simp_all add: block_collision_zero_iff [OF assms])

lemma blocks_on_top_zero_iff:
  assumes "soulsandSpeed (phys en) \<noteq> 0" and "honeyblockSpeed (phys en) \<noteq> 0"
  shows "(vec_x (vel (blocks_on_top en w e)) = 0) = (vec_x (vel e) = 0)"
    and "(vec_z (vel (blocks_on_top en w e)) = 0) = (vec_z (vel e) = 0)"
  using assms by (simp_all add: blocks_on_top_def scale_xz_simps split: option.splits)

text \<open>
  Claim C3, amended. Let the simulator come from the constructor, and let \<open>r\<close> be the
  collision resolution of the call, run on the deltas of the call (scaled by 0.25, 0.05, 0.25
  when the entity is in a web on entry). After \<open>moveEntity\<close>, \<open>vel.x\<close> is zero if and
  only if the X delta was clamped (\<open>dx\<close> differs from the saved \<open>oldVelX\<close>), or the entity
  was in a web on entry, or \<open>vel.x\<close> was zero on entry; likewise for Z. The saved \<open>oldVelY\<close>
  is the Y delta of the call, and, when the sneak guard does not run, \<open>oldVelX\<close> and
  \<open>oldVelZ\<close> are the X and Z deltas. The flags \<open>isCollidedHorizontally\<close> and
  \<open>isCollidedVertically\<close> after the call tell which deltas were clamped, and the position is
  read from the resolved box. In a world without bubble columns, \<open>vel.y\<close> after the call is:
  when the Y delta was clamped, minus the entry \<open>vel.y\<close> (zero in a web) if the block at
  the new position plus \<open>(0, -0.2, 0)\<close> is a slime block and sneak is not held, and 0
  otherwise; when it was not clamped, the entry \<open>vel.y\<close> (zero in a web).
\<close>

theorem moveEntity_velocity_zeroing:
  assumes "Physics feats mc = Inr en"
    and "dx = (if isInWeb e0 then dx0 * 0.25 else dx0)"
    and "dy = (if isInWeb e0 then dy0 * 0.05 else dy0)"
    and "dz = (if isInWeb e0 then dz0 * 0.25 else dz0)"
    and "r = resolve en e0 w dx dy dz"
    and "e3 = moveEntity en e0 w dx0 dy0 dz0"
  shows "(vec_x (vel e3) = 0 \<longleftrightarrow> res_dx r \<noteq> oldVelX r \<or> isInWeb e0 \<or> vec_x (vel e0) = 0) \<and>
         (vec_z (vel e3) = 0 \<longleftrightarrow> res_dz r \<noteq> oldVelZ r \<or> isInWeb e0 \<or> vec_z (vel e0) = 0) \<and>
         oldVelY r = dy \<and>
         (\<not> (sneak (control e0) \<and> onGround e0) \<longrightarrow> oldVelX r = dx \<and> oldVelZ r = dz) \<and>
         isCollidedHorizontally e3 = (res_dx r \<noteq> oldVelX r \<or> res_dz r \<noteq> oldVelZ r) \<and>
         isCollidedVertically e3 = (res_dy r \<noteq> oldVelY r) \<and>
         pos e3 = setPositionToBB en (playerBB r) \<and>
         ((\<forall>p b. getBlock w p = Some b \<longrightarrow> type b \<noteq> bubblecolumnId en) \<longrightarrow>
            vec_y (vel e3) =
              (if res_dy r \<noteq> oldVelY r
               then (if (case getBlock w (Vec3_offset (pos e3) 0 (- 0.2) 0) of
                           None \<Rightarrow> False | Some b \<Rightarrow> type b = slimeBlockId en)
                        \<and> \<not> sneak (control e0)
                     then - (if isInWeb e0 then 0 else vec_y (vel e0)) else 0)
               else (if isInWeb e0 then 0 else vec_y (vel e0))))"
proof -
  define e1 where
    "e1 = (if isInWeb e0 then e0\<lparr>vel := \<lparr>vec_x = 0, vec_y = 0, vec_z = 0\<rparr>, isInWeb := False\<rparr>
           else e0)"
  have web: "enter_web e0 dx0 dy0 dz0 = (e1, dx, dy, dz)"
    by (simp add: enter_web_def e1_def assms(2-4))
  have c: "control e1 = control e0" "onGround e1 = onGround e0" "pos e1 = pos e0"
    by (simp_all add: e1_def)
  have v1: "vec_x (vel e1) = (if isInWeb e0 then 0 else vec_x (vel e0))"
    "vec_y (vel e1) = (if isInWeb e0 then 0 else vec_y (vel e0))"
    "vec_z (vel e1) = (if isInWeb e0 then 0 else vec_z (vel e0))"
    by (simp_all add: e1_def)
  have r: "r = resolve en e1 w dx dy dz"
    unfolding assms(5) by (rule resolve_cong [symmetric]) (rule c)+
  define e2 where "e2 = update_flags en e1 w r"
  have e3: "e3 = blocks_on_top en w (block_collisions en w (playerBB r) e2)"
    unfolding assms(6) moveEntity_def web prod.case Let_def r e2_def ..
  have k: "soulsandSpeed (phys en) \<noteq> 0" "honeyblockSpeed (phys en) \<noteq> 0"
    using Physics_constants [OF assms(1)] by simp_all
  have x3: "(vec_x (vel e3) = 0) = (vec_x (vel e2) = 0)"
    unfolding e3 by (simp only: blocks_on_top_zero_iff [OF k] block_collisions_zero_iff [OF k])
  have z3: "(vec_z (vel e3) = 0) = (vec_z (vel e2) = 0)"
    unfolding e3 by (simp only: blocks_on_top_zero_iff [OF k] block_collisions_zero_iff [OF k])
  have x: "vec_x (vel e3) = 0 \<longleftrightarrow> res_dx r \<noteq> oldVelX r \<or> isInWeb e0 \<or> vec_x (vel e0) = 0"
    unfolding x3 e2_def update_flags_vel v1 by simp
  have z: "vec_z (vel e3) = 0 \<longleftrightarrow> res_dz r \<noteq> oldVelZ r \<or> isInWeb e0 \<or> vec_z (vel e0) = 0"
    unfolding z3 e2_def update_flags_vel v1 by simp
  have oy: "oldVelY r = dy" unfolding assms(5) by (rule resolve_oldVelY)
  have oxz: "\<not> (sneak (control e0) \<and> onGround e0) \<Longrightarrow> oldVelX r = dx \<and> oldVelZ r = dz"
    unfolding assms(5) by (simp add: resolve_oldVelXZ)
  have h: "isCollidedHorizontally e3 = (res_dx r \<noteq> oldVelX r \<or> res_dz r \<noteq> oldVelZ r)"
    unfolding e3 e2_def by (simp only: blocks_on_top_flags block_collisions_flags update_flags_vel)
  have v: "isCollidedVertically e3 = (res_dy r \<noteq> oldVelY r)"
    unfolding e3 e2_def by (simp only: blocks_on_top_flags block_collisions_flags update_flags_vel)
  have p: "pos e3 = setPositionToBB en (playerBB r)"
    unfolding e3 e2_def
    by (simp only: blocks_on_top_simps block_collisions_pos update_flags_vel)
  have y: "vec_y (vel e3) =
              (if res_dy r \<noteq> oldVelY r
               then (if (case getBlock w (Vec3_offset (pos e3) 0 (- 0.2) 0) of
                           None \<Rightarrow> False | Some b \<Rightarrow> type b = slimeBlockId en)
                        \<and> \<not> sneak (control e0)
                     then - (if isInWeb e0 then 0 else vec_y (vel e0)) else 0)
               else (if isInWeb e0 then 0 else vec_y (vel e0)))"
    if nb: "\<forall>p b. getBlock w p = Some b \<longrightarrow> type b \<noteq> bubblecolumnId en"
  proof -
    have "vec_y (vel e3) = vec_y (vel e2)"
      unfolding e3 by (simp only: blocks_on_top_simps block_collisions_y [OF nb])
    then show ?thesis
      unfolding p e2_def update_flags_vel c v1 .
  qed
  from x z oy oxz h v p y show ?thesis by blast
qed


lemma dropping_fields:
  "pos dropping_entity = \<lparr>vec_x = 0.5, vec_y = 64.5, vec_z = 0.5\<rparr>"
  "vel dropping_entity = \<lparr>vec_x = 0, vec_y = - 1, vec_z = 0\<rparr>"
  "control dropping_entity = no_control"
  "isInWeb dropping_entity = False" "onGround dropping_entity = False"
  by (simp_all add: dropping_entity_def falling_entity_def)

lemma slime_resolve:
  "resolve env_1_14 dropping_entity (floor_world 372) 0 (- 1) 0 =
     \<lparr>res_dx = 0, res_dy = - 0.5, res_dz = 0, oldVelX = 0, oldVelY = - 1, oldVelZ = 0,
      playerBB = AABB_offset (AABB_offset (AABB_offset
          \<lparr>minX = 0.2, minY = 64.5, minZ = 0.2, maxX = 0.8, maxY = 66.3, maxZ = 0.8\<rparr>
             0 (- 0.5) 0) 0 0 0) 0 0 0\<rparr>"
proof (rule resolve_flat)
  show "sneak_guard env_1_14 dropping_entity (floor_world 372) 0 0 = (0, 0, 0, 0)"
    by (rule sneak_guard_off) (simp add: dropping_fields)
  show "getPlayerBB env_1_14 (pos dropping_entity) =
          \<lparr>minX = 0.2, minY = 64.5, minZ = 0.2, maxX = 0.8, maxY = 66.3, maxZ = 0.8\<rparr>"
    by (simp add: getPlayerBB_def env_1_14_fields dropping_fields AABB_offset_def)
  show "sweepY (getSurroundingBBs (floor_world 372)
           (AABB_extend \<lparr>minX = 0.2, minY = 64.5, minZ = 0.2, maxX = 0.8, maxY = 66.3, maxZ = 0.8\<rparr>
              0 (- 1) 0))
          \<lparr>minX = 0.2, minY = 64.5, minZ = 0.2, maxX = 0.8, maxY = 66.3, maxZ = 0.8\<rparr> (- 1) = - 0.5"
    by (simp add: getSurroundingBBs_concat upto_0_1 AABB_extend_def
        block_boxes_def floor_world_def cube_at_def cursor_def floored_def shape_box_def
        AABB_offset_def sweepY_def computeOffsetY_def)
  show "sweepX (getSurroundingBBs (floor_world 372)
           (AABB_extend \<lparr>minX = 0.2, minY = 64.5, minZ = 0.2, maxX = 0.8, maxY = 66.3, maxZ = 0.8\<rparr>
              0 (- 1) 0))
          (AABB_offset \<lparr>minX = 0.2, minY = 64.5, minZ = 0.2, maxX = 0.8, maxY = 66.3, maxZ = 0.8\<rparr>
             0 (- 0.5) 0) 0 = 0"
    by (simp add: getSurroundingBBs_concat upto_0_1 AABB_extend_def
        block_boxes_def floor_world_def cube_at_def cursor_def floored_def shape_box_def
        AABB_offset_def sweepX_def computeOffsetX_def)
  show "sweepZ (getSurroundingBBs (floor_world 372)
           (AABB_extend \<lparr>minX = 0.2, minY = 64.5, minZ = 0.2, maxX = 0.8, maxY = 66.3, maxZ = 0.8\<rparr>
              0 (- 1) 0))
          (AABB_offset (AABB_offset
             \<lparr>minX = 0.2, minY = 64.5, minZ = 0.2, maxX = 0.8, maxY = 66.3, maxZ = 0.8\<rparr>
             0 (- 0.5) 0) 0 0 0) 0 = 0"
    by (simp add: getSurroundingBBs_concat upto_0_1 AABB_extend_def
        block_boxes_def floor_world_def cube_at_def cursor_def floored_def shape_box_def
        AABB_offset_def sweepZ_def computeOffsetZ_def)
  show "\<not> (stepHeight (phys env_1_14) > 0 \<and>
            (onGround dropping_entity \<or> ((- 0.5 :: real) \<noteq> - 1 \<and> (- 1 :: real) < 0)) \<and>
            ((0 :: real) \<noteq> 0 \<or> (0 :: real) \<noteq> 0))"
    by simp
qed

lemma no_bubble_samples:
  "\<forall>p b. getBlock empty_world p = Some b \<longrightarrow> type b \<noteq> bubblecolumnId env_1_14"
  "\<forall>p b. getBlock (floor_world 372) p = Some b \<longrightarrow> type b \<noteq> bubblecolumnId env_1_14"
  by (simp_all add: empty_world_def floor_world_def cube_at_def env_1_14_fields)

theorem moveEntity_velocity_zeroing_witness:
  "vec_x (vel rising_entity) = 0.5 \<and> \<not> isInWeb rising_entity \<and>
   res_dx (resolve env_1_14 rising_entity corner_world 0.5 0.5 0.5) = 0.2 \<and>
   oldVelX (resolve env_1_14 rising_entity corner_world 0.5 0.5 0.5) = 0.5 \<and>
   vec_x (vel (moveEntity env_1_14 rising_entity corner_world 0.5 0.5 0.5)) = 0 \<and>
   vec_y (vel (moveEntity env_1_14 rising_entity corner_world 0.5 0.5 0.5)) = 0 \<and>
   vec_z (vel (moveEntity env_1_14 rising_entity corner_world 0.5 0.5 0.5)) = 0 \<and>
   isCollidedHorizontally (moveEntity env_1_14 rising_entity corner_world 0.5 0.5 0.5) \<and>
   isCollidedVertically (moveEntity env_1_14 rising_entity corner_world 0.5 0.5 0.5) \<and>
   res_dx (resolve env_1_14 rising_entity empty_world 0.5 0.5 0.5) = 0.5 \<and>
   oldVelX (resolve env_1_14 rising_entity empty_world 0.5 0.5 0.5) = 0.5 \<and>
   vec_x (vel (moveEntity env_1_14 rising_entity empty_world 0.5 0.5 0.5)) \<noteq> 0 \<and>
   vec_z (vel (moveEntity env_1_14 rising_entity empty_world 0.5 0.5 0.5)) \<noteq> 0 \<and>
   vec_y (vel (moveEntity env_1_14 rising_entity empty_world 0.5 0.5 0.5)) = 0.5 \<and>
   \<not> isCollidedHorizontally (moveEntity env_1_14 rising_entity empty_world 0.5 0.5 0.5) \<and>
   \<not> isCollidedVertically (moveEntity env_1_14 rising_entity empty_world 0.5 0.5 0.5) \<and>
   vec_x (vel (moveEntity env_1_14 (rising_entity\<lparr>isInWeb := True\<rparr>) empty_world 0.5 0.5 0.5)) = 0 \<and>
   vec_y (vel (moveEntity env_1_14 (rising_entity\<lparr>isInWeb := True\<rparr>) empty_world 0.5 0.5 0.5)) = 0 \<and>
   vec_z (vel (moveEntity env_1_14 (rising_entity\<lparr>isInWeb := True\<rparr>) empty_world 0.5 0.5 0.5)) = 0 \<and>
   \<not> isCollidedHorizontally
       (moveEntity env_1_14 (rising_entity\<lparr>isInWeb := True\<rparr>) empty_world 0.5 0.5 0.5) \<and>
   vec_y (vel dropping_entity) = - 1 \<and>
   res_dy (resolve env_1_14 dropping_entity (floor_world 372) 0 (- 1) 0) = - 0.5 \<and>
   pos (moveEntity env_1_14 dropping_entity (floor_world 372) 0 (- 1) 0)
     = \<lparr>vec_x = 0.5, vec_y = 64, vec_z = 0.5\<rparr> \<and>
   vec_y (vel (moveEntity env_1_14 dropping_entity (floor_world 372) 0 (- 1) 0)) = 1 \<and>
   vec_x (vel (moveEntity env_1_14 dropping_entity (floor_world 372) 0 (- 1) 0)) = 0 \<and>
   isCollidedVertically (moveEntity env_1_14 dropping_entity (floor_world 372) 0 (- 1) 0) \<and>
   \<not> isCollidedHorizontally (moveEntity env_1_14 dropping_entity (floor_world 372) 0 (- 1) 0)"
proof -
  have ns: "\<not> (sneak (control rising_entity) \<and> onGround rising_entity)"
    "\<not> (sneak (control (rising_entity\<lparr>isInWeb := True\<rparr>)) \<and>
        onGround (rising_entity\<lparr>isInWeb := True\<rparr>))"
    by (simp_all add: rising_fields no_control_def)
  have rv: "vec_x (vel rising_entity) = 0.5" "vec_y (vel rising_entity) = 0.5"
    "vec_z (vel rising_entity) = 0.5" "\<not> isInWeb rising_entity"
    "\<not> sneak (control rising_entity)"
    by (simp_all add: rising_fields no_control_def)
  have q: "(0.5 :: real) = (if isInWeb rising_entity then 0.5 * 0.25 else 0.5)"
    "(0.5 :: real) = (if isInWeb rising_entity then 0.5 * 0.05 else 0.5)"
    by (simp_all add: rising_fields)
  text \<open>The corner: all three deltas are clamped.\<close>
  let ?r = "resolve env_1_14 rising_entity corner_world 0.5 0.5 0.5"
  let ?e3 = "moveEntity env_1_14 rising_entity corner_world 0.5 0.5 0.5"
  note t = moveEntity_velocity_zeroing
             [OF env_1_14_Physics q(1) q(2) q(1) refl refl, where w = corner_world]
  have cr: "res_dx ?r = 0.2" "oldVelX ?r = 0.5" "res_dy ?r = 0.2" "oldVelY ?r = 0.5"
    "res_dz ?r = 0.2" "oldVelZ ?r = 0.5"
    unfolding corner_resolve by simp_all
  have cc: "res_dx ?r \<noteq> oldVelX ?r" "res_dy ?r \<noteq> oldVelY ?r" "res_dz ?r \<noteq> oldVelZ ?r"
    unfolding corner_resolve by simp_all
  from t have p3: "pos ?e3 = setPositionToBB env_1_14 (playerBB ?r)" by blast
  have p3': "pos ?e3 = \<lparr>vec_x = 0.7, vec_y = 64.2, vec_z = 0.7\<rparr>"
    unfolding p3 corner_resolve
    by (simp add: setPositionToBB_def AABB_offset_def env_1_14_fields)
  have feet: "getBlock corner_world (Vec3_offset (pos ?e3) 0 (- 0.2) 0) = None"
    unfolding p3' by (simp add: Vec3_offset_def corner_world_def)
  from t cc(1) have x3: "vec_x (vel ?e3) = 0" by blast
  from t cc(3) have z3: "vec_z (vel ?e3) = 0" by blast
  from t cc have h3: "isCollidedHorizontally ?e3" and v3: "isCollidedVertically ?e3"
    by blast+
  from t corner_no_bubble have "vec_y (vel ?e3) =
      (if res_dy ?r \<noteq> oldVelY ?r
       then (if (case getBlock corner_world (Vec3_offset (pos ?e3) 0 (- 0.2) 0) of
                   None \<Rightarrow> False | Some b \<Rightarrow> type b = slimeBlockId env_1_14)
                \<and> \<not> sneak (control rising_entity)
             then - (if isInWeb rising_entity then 0 else vec_y (vel rising_entity)) else 0)
       else (if isInWeb rising_entity then 0 else vec_y (vel rising_entity)))" by blast
  then have y3: "vec_y (vel ?e3) = 0" unfolding feet using cc(2) by simp
  text \<open>The empty world: no delta is clamped, and a non-zero velocity stays non-zero.\<close>
  let ?rf = "resolve env_1_14 rising_entity empty_world 0.5 0.5 0.5"
  let ?f3 = "moveEntity env_1_14 rising_entity empty_world 0.5 0.5 0.5"
  note u = moveEntity_velocity_zeroing
             [OF env_1_14_Physics q(1) q(2) q(1) refl refl, where w = empty_world]
  have fr: "res_dx ?rf = 0.5" "oldVelX ?rf = 0.5"
    unfolding resolve_empty [OF ns(1)] by simp_all
  have fc: "res_dx ?rf = oldVelX ?rf" "res_dy ?rf = oldVelY ?rf" "res_dz ?rf = oldVelZ ?rf"
    unfolding resolve_empty [OF ns(1)] by simp_all
  from u fc(1) rv have fx: "vec_x (vel ?f3) \<noteq> 0" by simp
  from u fc(3) rv have fz: "vec_z (vel ?f3) \<noteq> 0" by simp
  from u fc have fh: "\<not> isCollidedHorizontally ?f3" and fv: "\<not> isCollidedVertically ?f3"
    by blast+
  from u no_bubble_samples(1) have "vec_y (vel ?f3) =
      (if res_dy ?rf \<noteq> oldVelY ?rf
       then (if (case getBlock empty_world (Vec3_offset (pos ?f3) 0 (- 0.2) 0) of
                   None \<Rightarrow> False | Some b \<Rightarrow> type b = slimeBlockId env_1_14)
                \<and> \<not> sneak (control rising_entity)
             then - (if isInWeb rising_entity then 0 else vec_y (vel rising_entity)) else 0)
       else (if isInWeb rising_entity then 0 else vec_y (vel rising_entity)))" by blast
  then have fy: "vec_y (vel ?f3) = 0.5" using fc(2) rv by simp
  text \<open>In a web: the velocity is zero without a clamp.\<close>
  let ?we = "rising_entity\<lparr>isInWeb := True\<rparr>"
  have qw: "(0.125 :: real) = (if isInWeb ?we then 0.5 * 0.25 else 0.5)"
    "(0.025 :: real) = (if isInWeb ?we then 0.5 * 0.05 else 0.5)"
    by simp_all
  let ?rw = "resolve env_1_14 ?we empty_world 0.125 0.025 0.125"
  let ?w3 = "moveEntity env_1_14 ?we empty_world 0.5 0.5 0.5"
  note x = moveEntity_velocity_zeroing
             [OF env_1_14_Physics qw(1) qw(2) qw(1) refl refl, where w = empty_world]
  have wi: "isInWeb ?we" by simp
  have wc: "res_dx ?rw = oldVelX ?rw" "res_dy ?rw = oldVelY ?rw" "res_dz ?rw = oldVelZ ?rw"
    unfolding resolve_empty [OF ns(2)] by simp_all
  from x wi have wx: "vec_x (vel ?w3) = 0" and wz: "vec_z (vel ?w3) = 0" by blast+
  from x wc have wh: "\<not> isCollidedHorizontally ?w3" by blast
  from x no_bubble_samples(1) have "vec_y (vel ?w3) =
      (if res_dy ?rw \<noteq> oldVelY ?rw
       then (if (case getBlock empty_world (Vec3_offset (pos ?w3) 0 (- 0.2) 0) of
                   None \<Rightarrow> False | Some b \<Rightarrow> type b = slimeBlockId env_1_14)
                \<and> \<not> sneak (control ?we)
             then - (if isInWeb ?we then 0 else vec_y (vel ?we)) else 0)
       else (if isInWeb ?we then 0 else vec_y (vel ?we)))" by blast
  then have wy: "vec_y (vel ?w3) = 0" using wc(2) by simp
  text \<open>A fall onto slime: the Y delta is clamped and the velocity is reversed.\<close>
  have dv: "vec_x (vel dropping_entity) = 0" "vec_y (vel dropping_entity) = - 1"
    "\<not> isInWeb dropping_entity" "\<not> sneak (control dropping_entity)"
    by (simp_all add: dropping_fields no_control_def)
  have qd: "(0 :: real) = (if isInWeb dropping_entity then 0 * 0.25 else 0)"
    "(- 1 :: real) = (if isInWeb dropping_entity then - 1 * 0.05 else - 1)"
    by (simp_all add: dropping_fields)
  let ?rs = "resolve env_1_14 dropping_entity (floor_world 372) 0 (- 1) 0"
  let ?s3 = "moveEntity env_1_14 dropping_entity (floor_world 372) 0 (- 1) 0"
  note s = moveEntity_velocity_zeroing
             [OF env_1_14_Physics qd(1) qd(2) qd(1) refl refl, where w = "floor_world 372"]
  have sr: "res_dy ?rs = - 0.5" unfolding slime_resolve by simp
  have sc: "res_dx ?rs = oldVelX ?rs" "res_dy ?rs \<noteq> oldVelY ?rs" "res_dz ?rs = oldVelZ ?rs"
    unfolding slime_resolve by simp_all
  from s have sp: "pos ?s3 = setPositionToBB env_1_14 (playerBB ?rs)" by blast
  have sp': "pos ?s3 = \<lparr>vec_x = 0.5, vec_y = 64, vec_z = 0.5\<rparr>"
    unfolding sp slime_resolve
    by (simp add: setPositionToBB_def AABB_offset_def env_1_14_fields)
  have sfeet: "(case getBlock (floor_world 372) (Vec3_offset (pos ?s3) 0 (- 0.2) 0) of
                   None \<Rightarrow> False | Some b \<Rightarrow> type b = slimeBlockId env_1_14) = True"
    unfolding sp' by (simp add: Vec3_offset_def floor_world_def cube_at_def env_1_14_fields)
  from s dv(1) have sx: "vec_x (vel ?s3) = 0" by blast
  from s sc have sh: "\<not> isCollidedHorizontally ?s3" and sv: "isCollidedVertically ?s3"
    by blast+
  from s no_bubble_samples(2) have "vec_y (vel ?s3) =
      (if res_dy ?rs \<noteq> oldVelY ?rs
       then (if (case getBlock (floor_world 372) (Vec3_offset (pos ?s3) 0 (- 0.2) 0) of
                   None \<Rightarrow> False | Some b \<Rightarrow> type b = slimeBlockId env_1_14)
                \<and> \<not> sneak (control dropping_entity)
             then - (if isInWeb dropping_entity then 0 else vec_y (vel dropping_entity)) else 0)
       else (if isInWeb dropping_entity then 0 else vec_y (vel dropping_entity)))" by blast
  then have sy: "vec_y (vel ?s3) = 1" unfolding sfeet using sc(2) dv by simp
  show ?thesis
    using rv(1) rv(4) cr(1) cr(2) x3 y3 z3 h3 v3 fr fx fz fy fh fv wx wy wz wh dv(2) sr sp' sy sx
      sv sh
    by blast
qed

subsection \<open>A tick in the empty world\<close>

lemma isInWaterApplyCurrent_empty: "isInWaterApplyCurrent en empty_world bb v = (False, v)"
  by (simp add: isInWaterApplyCurrent_def getWaterInBB_empty norm3_def)

lemma isOnLadder_empty: "isOnLadder en empty_world p = Inr False"
  by (simp add: isOnLadder_def empty_world_def)

lemma getBlock_empty: "getBlock empty_world p = None"
  by (simp add: empty_world_def)

lemma applyHeading_rest: "applyHeading e 0 0 m = e"
  by (simp add: applyHeading_def)

lemma getPlayerBB_Physics:
  assumes "Physics feats mc = Inr en"
  shows "getPlayerBB en p =
           \<lparr>minX = vec_x p - 0.3, minY = vec_y p, minZ = vec_z p - 0.3,
            maxX = vec_x p + 0.3, maxY = vec_y p + 1.8, maxZ = vec_z p + 0.3\<rparr>"
  by (simp add: getPlayerBB_def Physics_constants [OF assms] AABB_offset_def Let_def)

lemma setPosition_getPlayerBB:
  assumes "Physics feats mc = Inr en"
  shows "setPositionToBB en
           (AABB_offset (AABB_offset (AABB_offset (getPlayerBB en p) 0 dy 0) dx 0 0) 0 0 dz)
         = \<lparr>vec_x = vec_x p + dx, vec_y = vec_y p + dy, vec_z = vec_z p + dz\<rparr>"
  by (simp add: getPlayerBB_Physics [OF assms] setPositionToBB_def AABB_offset_def
        Physics_constants [OF assms])

lemma simulatePlayer_prepare:
  "simulatePlayer en e w =
     (let e1 = handle_jump en
                 ((update_liquid en e w)\<lparr>vel := dead_zone en (vel (update_liquid en e w))\<rparr>) w
      in moveEntityWithHeading en (firework (update_elytra e1)) w
           (strafe_input en e1) (forward_input en e1))"
  by (simp add: simulatePlayer_def Let_def)

lemma normal_move_empty:
  assumes en: "Physics feats mc = Inr en"
    and e: "\<not> isInWeb e" "\<not> (sneak (control e) \<and> onGround e)" "levitation e = 0"
      "\<not> isInWater e" "\<not> isInLava e" "\<not> elytraFlying e"
  shows "\<exists>e'. moveEntityWithHeading en e empty_world 0 0 = Inr e' \<and>
           pos e' = \<lparr>vec_x = vec_x (pos e) + vec_x (vel e), vec_y = vec_y (pos e) + vec_y (vel e),
                     vec_z = vec_z (pos e) + vec_z (vel e)\<rparr> \<and>
           vel e' = \<lparr>vec_x = vec_x (vel e) * 0.91,
                     vec_y = (vec_y (vel e) - 0.08 * gravityMultiplier en e) * fround_0_98,
                     vec_z = vec_z (vel e) * 0.91\<rparr> \<and>
           \<not> onGround e' \<and> \<not> isCollidedHorizontally e' \<and> \<not> isCollidedVertically e' \<and>
           jumpTicks e' = jumpTicks e \<and> isInWater e' = isInWater e \<and>
           isInLava e' = isInLava e"
proof -
  have m: "moveEntity en e empty_world (vec_x (vel e)) (vec_y (vel e)) (vec_z (vel e)) =
     e\<lparr>pos := \<lparr>vec_x = vec_x (pos e) + vec_x (vel e), vec_y = vec_y (pos e) + vec_y (vel e),
                     vec_z = vec_z (pos e) + vec_z (vel e)\<rparr>,
       isCollidedHorizontally := False, isCollidedVertically := False, onGround := False\<rparr>"
    by (simp add: moveEntity_empty [OF e(1) e(2)] setPosition_getPlayerBB [OF en])
  have n: "normal_move en e empty_world 0 0 (gravityMultiplier en e) =
      Inr (e\<lparr>pos := \<lparr>vec_x = vec_x (pos e) + vec_x (vel e), vec_y = vec_y (pos e) + vec_y (vel e),
                     vec_z = vec_z (pos e) + vec_z (vel e)\<rparr>,
       isCollidedHorizontally := False, isCollidedVertically := False, onGround := False,
       vel := \<lparr>vec_x = vec_x (vel e) * 0.91,
                     vec_y = (vec_y (vel e) - 0.08 * gravityMultiplier en e) * fround_0_98,
                     vec_z = vec_z (vel e) * 0.91\<rparr>\<rparr>)"
    by (simp add: normal_move_def normal_params_def air_speed_def friction_gravity_def
          getBlock_empty applyHeading_rest isOnLadder_empty
          bind_err_def m e(3) Physics_constants [OF en] Let_def)
  show ?thesis
    using e(4,5,6) by (simp add: moveEntityWithHeading_def n Let_def)
qed


subsection \<open>What the stages of a tick leave alone\<close>

lemma update_liquid_frame:
  "control (update_liquid en e w) = control e" "pos (update_liquid en e w) = pos e"
  "jumpTicks (update_liquid en e w) = jumpTicks e"
  "jumpQueued (update_liquid en e w) = jumpQueued e"
  "onGround (update_liquid en e w) = onGround e" "isInWeb (update_liquid en e w) = isInWeb e"
  "elytraFlying (update_liquid en e w) = elytraFlying e"
  "elytraEquipped (update_liquid en e w) = elytraEquipped e"
  "levitation (update_liquid en e w) = levitation e"
  "slowFalling (update_liquid en e w) = slowFalling e"
  "jumpBoost (update_liquid en e w) = jumpBoost e"
  "fireworkRocketDuration (update_liquid en e w) = fireworkRocketDuration e"
  "isInWater (update_liquid en e w) = fst (isInWaterApplyCurrent en w (waterBB en (pos e)) (vel e))"
  "vel (update_liquid en e w) = snd (isInWaterApplyCurrent en w (waterBB en (pos e)) (vel e))"
  "isInLava (update_liquid en e w) = isMaterialInBB w (lavaBB en (pos e)) (lavaIds en)"
  "yaw (update_liquid en e w) = yaw e" "attributes (update_liquid en e w) = attributes e"
  by (simp_all add: update_liquid_def Let_def split: prod.splits)

lemma handle_jump_frame:
  "control (handle_jump en e w) = control e" "pos (handle_jump en e w) = pos e"
  "onGround (handle_jump en e w) = onGround e" "isInWeb (handle_jump en e w) = isInWeb e"
  "elytraFlying (handle_jump en e w) = elytraFlying e"
  "elytraEquipped (handle_jump en e w) = elytraEquipped e"
  "levitation (handle_jump en e w) = levitation e"
  "slowFalling (handle_jump en e w) = slowFalling e"
  "fireworkRocketDuration (handle_jump en e w) = fireworkRocketDuration e"
  "isInWater (handle_jump en e w) = isInWater e" "isInLava (handle_jump en e w) = isInLava e"
  "jumpQueued (handle_jump en e w) = False"
  "attributes (handle_jump en e w) = attributes e"
  by (simp_all add: handle_jump_def Let_def)

lemma handle_jump_jumpTicks:
  "jumpTicks (handle_jump en e w) =
     (if jump (control e) \<or> jumpQueued e
      then (let t = (if jumpTicks e > 0 then jumpTicks e - 1 else jumpTicks e)
            in if \<not> (isInWater e \<or> isInLava e) \<and> onGround e \<and> t = 0
               then autojumpCooldown (phys en) else t)
      else 0)"
  by (simp add: handle_jump_def Let_def)

lemma handle_jump_idle:
  "\<not> jump (control e) \<Longrightarrow> \<not> jumpQueued e \<Longrightarrow> vel (handle_jump en e w) = vel e"
  by (simp add: handle_jump_def Let_def)

lemma update_elytra_frame:
  "control (update_elytra e) = control e" "pos (update_elytra e) = pos e"
  "vel (update_elytra e) = vel e" "jumpTicks (update_elytra e) = jumpTicks e"
  "onGround (update_elytra e) = onGround e" "isInWeb (update_elytra e) = isInWeb e"
  "levitation (update_elytra e) = levitation e" "slowFalling (update_elytra e) = slowFalling e"
  "fireworkRocketDuration (update_elytra e) = fireworkRocketDuration e"
  "isInWater (update_elytra e) = isInWater e" "isInLava (update_elytra e) = isInLava e"
  "elytraFlying (update_elytra e) =
     (elytraFlying e \<and> elytraEquipped e \<and> \<not> onGround e \<and> levitation e = 0)"
  "attributes (update_elytra e) = attributes e"
  by (simp_all add: update_elytra_def)

lemma firework_frame:
  "control (firework e) = control e" "pos (firework e) = pos e"
  "jumpTicks (firework e) = jumpTicks e"
  "onGround (firework e) = onGround e" "isInWeb (firework e) = isInWeb e"
  "levitation (firework e) = levitation e" "slowFalling (firework e) = slowFalling e"
  "isInWater (firework e) = isInWater e" "isInLava (firework e) = isInLava e"
  "elytraFlying (firework e) = elytraFlying e"
  "attributes (firework e) = attributes e"
  by (simp_all add: firework_def Let_def)

lemma firework_grounded: "\<not> elytraFlying e \<Longrightarrow> vel (firework e) = vel e"
  by (simp add: firework_def)

lemma inputs_idle:
  "control e = no_control \<Longrightarrow> strafe_input en e = 0"
  "control e = no_control \<Longrightarrow> forward_input en e = 0"
  by (simp_all add: strafe_input_def forward_input_def no_control_def)

lemma free_fall_lemma:
  assumes en: "Physics feats mc = Inr en"
    and p: "pos e = \<lparr>vec_x = 0, vec_y = 10, vec_z = 0\<rparr>"
    and v: "vel e = \<lparr>vec_x = 0, vec_y = 0, vec_z = 0\<rparr>"
    and c: "control e = no_control"
    and fx: "jumpBoost e = 0" "speed e = 0" "slowness e = 0" "dolphinsGrace e = 0"
      "slowFalling e = 0" "levitation e = 0"
    and st: "\<not> jumpQueued e" "\<not> elytraFlying e" "\<not> isInWeb e"
  shows "\<exists>e'. simulatePlayer en e empty_world = Inr e' \<and>
           vel e' = \<lparr>vec_x = 0, vec_y = - (0.08 * fround_0_98), vec_z = 0\<rparr> \<and>
           \<bar>vec_y (vel e') - (- 0.0784)\<bar> < 1 / 10 ^ 8 \<and>
           pos e' = \<lparr>vec_x = 0, vec_y = 10, vec_z = 0\<rparr> \<and>
           onGround e' = False"
proof -
  define e0 where "e0 = (update_liquid en e empty_world)
                          \<lparr>vel := dead_zone en (vel (update_liquid en e empty_world))\<rparr>"
  define e1 where "e1 = handle_jump en e0 empty_world"
  define e2 where "e2 = firework (update_elytra e1)"
  have nj: "\<not> jump (control e)" "\<not> sneak (control e)"
    using c by (simp_all add: no_control_def)
  have v0: "vel e0 = \<lparr>vec_x = 0, vec_y = 0, vec_z = 0\<rparr>"
    by (simp add: e0_def update_liquid_frame isInWaterApplyCurrent_empty v dead_zone_def
          Physics_constants [OF en])
  have f0: "control e0 = control e" "jumpQueued e0 = jumpQueued e" "pos e0 = pos e"
    "isInWeb e0 = isInWeb e" "elytraFlying e0 = elytraFlying e" "levitation e0 = levitation e"
    "slowFalling e0 = slowFalling e" "isInWater e0 = False" "isInLava e0 = False"
    by (simp_all add: e0_def update_liquid_frame isInWaterApplyCurrent_empty
          isMaterialInBB_empty)
  have v1: "vel e1 = \<lparr>vec_x = 0, vec_y = 0, vec_z = 0\<rparr>"
    unfolding e1_def using nj st by (simp add: handle_jump_idle f0 v0)
  have f1: "control e1 = no_control" "pos e1 = pos e" "isInWeb e1 = False"
    "elytraFlying e1 = False" "levitation e1 = 0" "slowFalling e1 = 0"
    "isInWater e1 = False" "isInLava e1 = False"
    unfolding e1_def using c st fx by (simp_all add: handle_jump_frame f0)
  have v2: "vel e2 = \<lparr>vec_x = 0, vec_y = 0, vec_z = 0\<rparr>"
    unfolding e2_def by (simp add: firework_grounded update_elytra_frame f1 v1)
  have f2: "control e2 = no_control" "pos e2 = pos e" "\<not> isInWeb e2" "\<not> elytraFlying e2"
    "levitation e2 = 0" "slowFalling e2 = 0" "\<not> isInWater e2" "\<not> isInLava e2"
    unfolding e2_def by (simp_all add: firework_frame update_elytra_frame f1)
  have g: "gravityMultiplier en e2 = 1"
    by (simp add: gravityMultiplier_def f2)
  have s: "simulatePlayer en e empty_world = moveEntityWithHeading en e2 empty_world 0 0"
    unfolding simulatePlayer_prepare e0_def [symmetric] e1_def [symmetric] Let_def
      e2_def [symmetric]
    by (simp add: inputs_idle f1)
  have ns: "\<not> (sneak (control e2) \<and> onGround e2)"
    by (simp add: f2 no_control_def)
  from normal_move_empty [OF en f2(3) ns f2(5) f2(7) f2(8) f2(4)]
  obtain e' where r: "moveEntityWithHeading en e2 empty_world 0 0 = Inr e'"
    and pe: "pos e' = \<lparr>vec_x = vec_x (pos e2) + vec_x (vel e2),
                       vec_y = vec_y (pos e2) + vec_y (vel e2),
                       vec_z = vec_z (pos e2) + vec_z (vel e2)\<rparr>"
    and ve: "vel e' = \<lparr>vec_x = vec_x (vel e2) * 0.91,
                     vec_y = (vec_y (vel e2) - 0.08 * gravityMultiplier en e2) * fround_0_98,
                     vec_z = vec_z (vel e2) * 0.91\<rparr>"
    and og: "\<not> onGround e'"
    by blast
  have "vel e' = \<lparr>vec_x = 0, vec_y = - (0.08 * fround_0_98), vec_z = 0\<rparr>"
    by (simp add: ve v2 g)
  moreover have "pos e' = \<lparr>vec_x = 0, vec_y = 10, vec_z = 0\<rparr>"
    by (simp add: pe v2 f2 p)
  moreover have "\<bar>- (0.08 * fround_0_98) - (- 0.0784)\<bar> < (1 / 10 ^ 8 :: real)"
    by (simp add: fround_0_98_def)
  ultimately show ?thesis using r og s by simp
qed

text \<open>
  Claim C1, amended. One call of \<open>simulatePlayer\<close> in the empty world, from position
  \<open>(0, 10, 0)\<close> at rest, with no control held, no status effect, no queued jump, not
  gliding and not in a web, returns with velocity \<open>(0, -0.08 \<sqdot> fround(0.98), 0)\<close>, which is
  within \<open>10\<^sup>-\<^sup>8\<close> of \<open>-0.0784\<close>, with \<open>onGround = false\<close>, and with the position unchanged
  at \<open>(0, 10, 0)\<close>: the move of the tick uses the velocity of its start, and gravity acts
  on the velocity after the move.
\<close>

theorem free_fall_tick:
  assumes "Physics feats mc = Inr en"
    and "pos e = \<lparr>vec_x = 0, vec_y = 10, vec_z = 0\<rparr>"
    and "vel e = \<lparr>vec_x = 0, vec_y = 0, vec_z = 0\<rparr>"
    and "control e = no_control"
    and "jumpBoost e = 0" "speed e = 0" "slowness e = 0" "dolphinsGrace e = 0"
      "slowFalling e = 0" "levitation e = 0"
    and "\<not> jumpQueued e" "\<not> elytraFlying e" "\<not> isInWeb e"
  shows "\<exists>e'. simulatePlayer en e empty_world = Inr e' \<and>
           vel e' = \<lparr>vec_x = 0, vec_y = - (0.08 * fround_0_98), vec_z = 0\<rparr> \<and>
           \<bar>vec_y (vel e') - (- 0.0784)\<bar> < 1 / 10 ^ 8 \<and>
           pos e' = \<lparr>vec_x = 0, vec_y = 10, vec_z = 0\<rparr> \<and>
           onGround e' = False"
  using assms by (rule free_fall_lemma)

lemma falling_effects:
  "jumpBoost falling_entity = 0" "speed falling_entity = 0" "slowness falling_entity = 0"
  "dolphinsGrace falling_entity = 0"
  by (simp_all add: falling_entity_def)

theorem free_fall_tick_witness:
  "Physics sample_features (sample_mcData version_1_14) = Inr env_1_14 \<and>
   pos falling_entity = \<lparr>vec_x = 0, vec_y = 10, vec_z = 0\<rparr> \<and>
   vel falling_entity = \<lparr>vec_x = 0, vec_y = 0, vec_z = 0\<rparr> \<and>
   control falling_entity = no_control \<and>
   \<not> jumpQueued falling_entity \<and> \<not> elytraFlying falling_entity \<and> \<not> isInWeb falling_entity \<and>
   (\<exists>e'. simulatePlayer env_1_14 falling_entity empty_world = Inr e' \<and>
         vel e' = \<lparr>vec_x = 0, vec_y = - (0.08 * fround_0_98), vec_z = 0\<rparr> \<and>
         pos e' = \<lparr>vec_x = 0, vec_y = 10, vec_z = 0\<rparr> \<and>
         onGround e' = False)"
proof -
  have "\<exists>e'. simulatePlayer env_1_14 falling_entity empty_world = Inr e' \<and>
           vel e' = \<lparr>vec_x = 0, vec_y = - (0.08 * fround_0_98), vec_z = 0\<rparr> \<and>
           \<bar>vec_y (vel e') - (- 0.0784)\<bar> < 1 / 10 ^ 8 \<and>
           pos e' = \<lparr>vec_x = 0, vec_y = 10, vec_z = 0\<rparr> \<and>
           onGround e' = False"
    by (rule free_fall_tick [OF env_1_14_Physics]) (simp_all add: falling_fields falling_effects)
  then show ?thesis
    using env_1_14_Physics by (auto simp: falling_fields)
qed

text \<open>
  Claim C1 as stated fails: after the tick the height is still 10, not \<open>10 - 0.0784\<close>.
\<close>

theorem free_fall_height_unchanged:
  "\<not> (\<exists>e'. simulatePlayer env_1_14 falling_entity empty_world = Inr e' \<and>
          vel e' = \<lparr>vec_x = 0, vec_y = - (0.08 * fround_0_98), vec_z = 0\<rparr> \<and>
          vec_y (pos e') = 10 - 0.0784 \<and>
          onGround e' = False)"
proof -
  have "\<exists>e'. simulatePlayer env_1_14 falling_entity empty_world = Inr e' \<and>
           vel e' = \<lparr>vec_x = 0, vec_y = - (0.08 * fround_0_98), vec_z = 0\<rparr> \<and>
           \<bar>vec_y (vel e') - (- 0.0784)\<bar> < 1 / 10 ^ 8 \<and>
           pos e' = \<lparr>vec_x = 0, vec_y = 10, vec_z = 0\<rparr> \<and>
           onGround e' = False"
    by (rule free_fall_lemma [OF env_1_14_Physics]) (simp_all add: falling_fields falling_effects)
  then obtain e' where "simulatePlayer env_1_14 falling_entity empty_world = Inr e'"
    and "pos e' = \<lparr>vec_x = 0, vec_y = 10, vec_z = 0\<rparr>" by blast
  then show ?thesis by auto
qed

subsection \<open>The counter jumpTicks\<close>

lemma applyHeading_jumpTicks: "jumpTicks (applyHeading e s f m) = jumpTicks e"
  by (simp add: applyHeading_def Let_def)

lemma moveEntity_jumpTicks: "jumpTicks (moveEntity en e w dx dy dz) = jumpTicks e"
proof -
  obtain e1 dx1 dy1 dz1 where w: "enter_web e dx dy dz = (e1, dx1, dy1, dz1)"
    by (cases "enter_web e dx dy dz") auto
  from enter_web_simps [OF w] have "jumpTicks e1 = jumpTicks e" by simp
  then show ?thesis
    by (simp add: moveEntity_def w Let_def blocks_on_top_simps block_collisions_jumpTicks
          update_flags_vel)
qed

lemma liquid_update_jumpTicks: "jumpTicks (liquid_update en e w s f gm) = jumpTicks e"
  by (simp add: liquid_update_def liquid_velocity_def Let_def moveEntity_jumpTicks
        applyHeading_jumpTicks split: prod.splits)

lemma liquid_move_jumpTicks: "jumpTicks (liquid_move en e w s f gm) = jumpTicks e"
  by (simp add: liquid_move_def Let_def liquid_update_jumpTicks)

lemma elytra_move_jumpTicks: "jumpTicks (elytra_move en e w gm) = jumpTicks e"
  by (simp add: elytra_move_def Let_def moveEntity_jumpTicks)

lemma friction_gravity_jumpTicks: "jumpTicks (friction_gravity en i gm e) = jumpTicks e"
  by (simp add: friction_gravity_def Let_def)

lemma ladder_clamp_jumpTicks: "jumpTicks (ladder_clamp en e) = jumpTicks e"
  by (simp add: ladder_clamp_def Let_def)

lemma normal_move_ladder:
  assumes "normal_params en e w = (acc, inertia)"
    and "e1 = applyHeading e s f acc"
    and "isOnLadder en w (pos e1) = Inr l1"
    and "e2 = (if l1 then ladder_clamp en e1 else e1)"
    and "e3 = moveEntity en e2 w (vec_x (vel e2)) (vec_y (vel e2)) (vec_z (vel e2))"
  shows "normal_move en e w s f gm =
           bind_err (isOnLadder en w (pos e3)) (\<lambda>l2. Inr (friction_gravity en inertia gm
             (if l2 \<and> (isCollidedHorizontally e3 \<or>
                         (supports en ''climbUsingJump'' \<and> jump (control e3)))
              then e3\<lparr>vel := (vel e3)\<lparr>vec_y := ladderClimbSpeed (phys en)\<rparr>\<rparr> else e3)))"
  using assms(1,3) unfolding assms(5) assms(4) assms(2)
  by (simp add: normal_move_def Let_def bind_err_def)

lemma normal_move_jumpTicks:
  assumes "normal_move en e w s f gm = Inr e'"
  shows "jumpTicks e' = jumpTicks e"
proof -
  obtain acc inertia where p: "normal_params en e w = (acc, inertia)"
    by (cases "normal_params en e w") auto
  define e1 where "e1 = applyHeading e s f acc"
  from assms obtain l1 where l1: "isOnLadder en w (pos e1) = Inr l1"
    by (cases "isOnLadder en w (pos e1)")
       (simp_all add: normal_move_def p Let_def e1_def bind_err_def)
  define e2 where "e2 = (if l1 then ladder_clamp en e1 else e1)"
  define e3 where "e3 = moveEntity en e2 w (vec_x (vel e2)) (vec_y (vel e2)) (vec_z (vel e2))"
  note n = normal_move_ladder [OF p e1_def l1 e2_def e3_def, of gm]
  from assms obtain l2 where l2: "isOnLadder en w (pos e3) = Inr l2"
    unfolding n by (cases "isOnLadder en w (pos e3)") (simp_all add: bind_err_def)
  from assms have "e' = friction_gravity en inertia gm
      (if l2 \<and> (isCollidedHorizontally e3 \<or> (supports en ''climbUsingJump'' \<and> jump (control e3)))
       then e3\<lparr>vel := (vel e3)\<lparr>vec_y := ladderClimbSpeed (phys en)\<rparr>\<rparr> else e3)"
    unfolding n l2 by (simp add: bind_err_def)
  then have "jumpTicks e' = jumpTicks e3"
    by (simp add: friction_gravity_jumpTicks)
  also have "\<dots> = jumpTicks e2" by (simp add: e3_def moveEntity_jumpTicks)
  also have "\<dots> = jumpTicks e1" by (simp add: e2_def ladder_clamp_jumpTicks)
  also have "\<dots> = jumpTicks e" by (simp add: e1_def applyHeading_jumpTicks)
  finally show ?thesis .
qed

lemma moveEntityWithHeading_jumpTicks:
  "moveEntityWithHeading en e w s f = Inr e' \<Longrightarrow> jumpTicks e' = jumpTicks e"
  by (auto simp: moveEntityWithHeading_def Let_def liquid_move_jumpTicks
        elytra_move_jumpTicks normal_move_jumpTicks split: if_splits)

lemma simulatePlayer_jumpTicks_eq:
  assumes "simulatePlayer en e w = Inr e'"
  shows "jumpTicks e' =
     (if jump (control e) \<or> jumpQueued e
      then (let t = (if jumpTicks e > 0 then jumpTicks e - 1 else jumpTicks e)
            in if \<not> (isInWater (update_liquid en e w) \<or> isInLava (update_liquid en e w))
                  \<and> onGround e \<and> t = 0
               then autojumpCooldown (phys en) else t)
      else 0)"
proof -
  define e1 where "e1 = handle_jump en
                 ((update_liquid en e w)\<lparr>vel := dead_zone en (vel (update_liquid en e w))\<rparr>) w"
  from assms have "moveEntityWithHeading en (firework (update_elytra e1)) w
           (strafe_input en e1) (forward_input en e1) = Inr e'"
    by (simp add: simulatePlayer_prepare e1_def Let_def)
  from moveEntityWithHeading_jumpTicks [OF this]
  have "jumpTicks e' = jumpTicks e1"
    by (simp add: firework_frame update_elytra_frame)
  then show ?thesis
    by (simp add: e1_def handle_jump_jumpTicks update_liquid_frame)
qed

lemma isOnLadder_returns:
  assumes "\<forall>p b. getBlock w p = Some b \<and> type b \<in> trapdoorIds en \<longrightarrow>
             getBlock w (Vec3_offset p 0 (- 1) 0) \<noteq> None"
  shows "\<exists>l. isOnLadder en w p = Inr l"
proof (cases "getBlock w p")
  case None
  then show ?thesis by (auto simp: isOnLadder_def)
next
  case (Some b)
  show ?thesis
  proof (cases "type b \<in> trapdoorIds en")
    case True
    with assms Some obtain c where "getBlock w (Vec3_offset p 0 (- 1) 0) = Some c" by blast
    with Some show ?thesis by (auto simp: isOnLadder_def)
  next
    case False
    with Some show ?thesis by (auto simp: isOnLadder_def)
  qed
qed

lemma normal_move_returns:
  assumes "\<forall>p b. getBlock w p = Some b \<and> type b \<in> trapdoorIds en \<longrightarrow>
             getBlock w (Vec3_offset p 0 (- 1) 0) \<noteq> None"
  shows "\<exists>e'. normal_move en e w s f gm = Inr e'"
proof -
  obtain acc inertia where p: "normal_params en e w = (acc, inertia)"
    by (cases "normal_params en e w") auto
  define e1 where "e1 = applyHeading e s f acc"
  from isOnLadder_returns [OF assms] obtain l1 where l1: "isOnLadder en w (pos e1) = Inr l1"
    by blast
  define e2 where "e2 = (if l1 then ladder_clamp en e1 else e1)"
  define e3 where "e3 = moveEntity en e2 w (vec_x (vel e2)) (vec_y (vel e2)) (vec_z (vel e2))"
  note n = normal_move_ladder [OF p e1_def l1 e2_def e3_def, of gm]
  from isOnLadder_returns [OF assms] obtain l2 where l2: "isOnLadder en w (pos e3) = Inr l2"
    by blast
  show ?thesis unfolding n l2 by (simp add: bind_err_def)
qed

lemma simulatePlayer_returns:
  assumes "\<forall>p b. getBlock w p = Some b \<and> type b \<in> trapdoorIds en \<longrightarrow>
             getBlock w (Vec3_offset p 0 (- 1) 0) \<noteq> None"
  shows "\<exists>e'. simulatePlayer en e w = Inr e'"
  unfolding simulatePlayer_prepare Let_def moveEntityWithHeading_def
  using normal_move_returns [OF assms] by simp

text \<open>
  Claim C10. For every entity that enters \<open>simulatePlayer\<close> with \<open>0 \<le> jumpTicks \<le> 10\<close>,
  when the call returns \<open>0 \<le> jumpTicks \<le> 10\<close> holds again, and the counter was either
  decremented by one (it was positive and jump was held or queued), or set to 10 (a jump
  from the ground), or reset to 0 (jump neither held nor queued), or left as it was (it was
  0, with jump held or queued). The value on exit is given in full: 0 when jump is neither
  held nor queued; otherwise 10 when the entity is on the ground, in neither water nor lava
  by the flags computed at the start of the tick, and the counter is at most 1; otherwise
  the counter less one when positive, and the counter itself when 0. The call returns
  whenever every trapdoor block of the world has a block below it.
\<close>

theorem simulatePlayer_jumpTicks:
  assumes "Physics feats mc = Inr en"
    and "0 \<le> jumpTicks e" and "jumpTicks e \<le> 10"
    and "inWater = fst (isInWaterApplyCurrent en w
                          (AABB_contract (getPlayerBB en (pos e)) 0.001 0.401 0.001) (vel e))"
    and "inLava = isMaterialInBB w (AABB_contract (getPlayerBB en (pos e)) 0.1 0.4 0.1)
                    (lavaIds en)"
  shows "(\<forall>e'. simulatePlayer en e w = Inr e' \<longrightarrow>
            0 \<le> jumpTicks e' \<and> jumpTicks e' \<le> 10 \<and>
            jumpTicks e' =
              (if jump (control e) \<or> jumpQueued e
               then (if \<not> (inWater \<or> inLava) \<and> onGround e \<and> jumpTicks e \<le> 1 then 10
                     else if 0 < jumpTicks e then jumpTicks e - 1 else jumpTicks e)
               else 0) \<and>
            (jumpTicks e' = jumpTicks e - 1 \<and> 0 < jumpTicks e \<and>
               (jump (control e) \<or> jumpQueued e)
             \<or> jumpTicks e' = 10 \<and> onGround e \<and> (jump (control e) \<or> jumpQueued e)
             \<or> jumpTicks e' = 0 \<and> \<not> jump (control e) \<and> \<not> jumpQueued e
             \<or> jumpTicks e' = jumpTicks e \<and> jumpTicks e = 0 \<and>
               (jump (control e) \<or> jumpQueued e))) \<and>
         ((\<forall>p b. getBlock w p = Some b \<and> type b \<in> trapdoorIds en \<longrightarrow>
                   getBlock w (Vec3_offset p 0 (- 1) 0) \<noteq> None) \<longrightarrow>
            (\<exists>e'. simulatePlayer en e w = Inr e'))"
proof -
  have c: "autojumpCooldown (phys en) = 10"
    using Physics_constants [OF assms(1)] by simp
  have l: "isInWater (update_liquid en e w) = inWater" "isInLava (update_liquid en e w) = inLava"
    unfolding assms(4,5) update_liquid_frame waterBB_def lavaBB_def by (rule refl)+
  have a: "0 \<le> jumpTicks e' \<and> jumpTicks e' \<le> 10 \<and>
            jumpTicks e' =
              (if jump (control e) \<or> jumpQueued e
               then (if \<not> (inWater \<or> inLava) \<and> onGround e \<and> jumpTicks e \<le> 1 then 10
                     else if 0 < jumpTicks e then jumpTicks e - 1 else jumpTicks e)
               else 0) \<and>
            (jumpTicks e' = jumpTicks e - 1 \<and> 0 < jumpTicks e \<and>
               (jump (control e) \<or> jumpQueued e)
             \<or> jumpTicks e' = 10 \<and> onGround e \<and> (jump (control e) \<or> jumpQueued e)
             \<or> jumpTicks e' = 0 \<and> \<not> jump (control e) \<and> \<not> jumpQueued e
             \<or> jumpTicks e' = jumpTicks e \<and> jumpTicks e = 0 \<and>
               (jump (control e) \<or> jumpQueued e))"
    if r: "simulatePlayer en e w = Inr e'" for e'
    using assms(2,3)
    unfolding simulatePlayer_jumpTicks_eq [OF r] c l Let_def
    by (auto split: if_splits)
  from a simulatePlayer_returns show ?thesis by blast
qed

theorem simulatePlayer_jumpTicks_witness:
  "jumpTicks falling_entity = 0 \<and> \<not> jump (control falling_entity) \<and>
   (\<exists>e'. simulatePlayer env_1_14 falling_entity empty_world = Inr e' \<and> jumpTicks e' = 0) \<and>
   (\<exists>e'. simulatePlayer env_1_14 (falling_entity\<lparr>jumpTicks := 7\<rparr>) empty_world = Inr e' \<and>
         jumpTicks e' = 0) \<and>
   jump (control (hopping_entity False 5)) \<and>
   (\<exists>e'. simulatePlayer env_1_14 (hopping_entity False 5) empty_world = Inr e' \<and>
         jumpTicks e' = 4) \<and>
   (\<exists>e'. simulatePlayer env_1_14 (hopping_entity True 5) empty_world = Inr e' \<and>
         jumpTicks e' = 4) \<and>
   (\<exists>e'. simulatePlayer env_1_14 (hopping_entity True 0) empty_world = Inr e' \<and>
         jumpTicks e' = 10) \<and>
   (\<exists>e'. simulatePlayer env_1_14 (hopping_entity True 1) empty_world = Inr e' \<and>
         jumpTicks e' = 10) \<and>
   (\<exists>e'. simulatePlayer env_1_14 (hopping_entity False 1) empty_world = Inr e' \<and>
         jumpTicks e' = 0) \<and>
   (\<exists>e'. simulatePlayer env_1_14 (hopping_entity False 0) empty_world = Inr e' \<and>
         jumpTicks e' = 0) \<and>
   (\<exists>e'. simulatePlayer env_1_14 (hopping_entity False 10) empty_world = Inr e' \<and>
         jumpTicks e' = 9)"
proof -
  have nt: "\<forall>p b. getBlock empty_world p = Some b \<and> type b \<in> trapdoorIds env_1_14 \<longrightarrow>
                   getBlock empty_world (Vec3_offset p 0 (- 1) 0) \<noteq> None"
    by (simp add: empty_world_def)
  have run: "\<exists>e'. simulatePlayer env_1_14 e empty_world = Inr e' \<and>
                  jumpTicks e' =
                    (if jump (control e) \<or> jumpQueued e
                     then (if onGround e \<and> jumpTicks e \<le> 1 then 10
                           else if 0 < jumpTicks e then jumpTicks e - 1 else jumpTicks e)
                     else 0)"
    if b: "0 \<le> jumpTicks e" "jumpTicks e \<le> 10" for e
  proof -
    note t = simulatePlayer_jumpTicks [OF env_1_14_Physics b refl refl, of empty_world]
    from t nt obtain e' where r: "simulatePlayer env_1_14 e empty_world = Inr e'" by blast
    from t r have "jumpTicks e' =
              (if jump (control e) \<or> jumpQueued e
               then (if \<not> (fst (isInWaterApplyCurrent env_1_14 empty_world
                          (AABB_contract (getPlayerBB env_1_14 (pos e)) 0.001 0.401 0.001) (vel e))
                         \<or> isMaterialInBB empty_world
                          (AABB_contract (getPlayerBB env_1_14 (pos e)) 0.1 0.4 0.1)
                    (lavaIds env_1_14)) \<and> onGround e \<and> jumpTicks e \<le> 1 then 10
                     else if 0 < jumpTicks e then jumpTicks e - 1 else jumpTicks e)
               else 0)" by blast
    then have "jumpTicks e' =
                    (if jump (control e) \<or> jumpQueued e
                     then (if onGround e \<and> jumpTicks e \<le> 1 then 10
                           else if 0 < jumpTicks e then jumpTicks e - 1 else jumpTicks e)
                     else 0)"
      unfolding isInWaterApplyCurrent_empty isMaterialInBB_empty by simp
    with r show ?thesis by blast
  qed
  have f: "jumpTicks falling_entity = 0" "\<not> jump (control falling_entity)"
    "jump (control (hopping_entity False 5))"
    by (simp_all add: falling_fields no_control_def hopping_entity_def)
  have r0: "\<exists>e'. simulatePlayer env_1_14 falling_entity empty_world = Inr e' \<and> jumpTicks e' = 0"
    using run [of falling_entity] by (simp add: falling_fields no_control_def)
  have r7: "\<exists>e'. simulatePlayer env_1_14 (falling_entity\<lparr>jumpTicks := 7\<rparr>) empty_world = Inr e' \<and>
         jumpTicks e' = 0"
    using run [of "falling_entity\<lparr>jumpTicks := 7\<rparr>"] by (simp add: falling_fields no_control_def)
  have hf: "jump (control (hopping_entity g t))" "jumpTicks (hopping_entity g t) = t"
    "onGround (hopping_entity g t) = g" for g t
    by (simp_all add: hopping_entity_def no_control_def)
  have h: "\<exists>e'. simulatePlayer env_1_14 (hopping_entity g t) empty_world = Inr e' \<and>
         jumpTicks e' = (if g \<and> t \<le> 1 then 10 else if 0 < t then t - 1 else t)"
    if "0 \<le> t" "t \<le> 10" for g t
    using run [of "hopping_entity g t"] that by (auto simp: hf)
  show ?thesis
    using f r0 r7 h [where t = 5 and g = False] h [where t = 5 and g = True]
      h [where t = 0 and g = True] h [where t = 1 and g = True] h [where t = 1 and g = False]
      h [where t = 0 and g = False] h [where t = 10 and g = False]
    by simp
qed

subsection \<open>Leaving a liquid\<close>




























end
